theory Spec2Isabelle
  imports Main
begin

section \<open>Migration of dashboard alerts to unified alerting\<close>

text \<open>
  A shallow embedding of the Go package \<open>ualert\<close>: the registration function
  \<open>AddMigration\<close>, the forward migration \<open>migration.Exec\<close> and the removal migration
  \<open>rmMigration.Exec\<close>.

  The package talks to three collaborators whose code is not among the sources at
  hand: the migrator (migration log, registration, logger, configuration), the xorm
  session (\<open>Get\<close>, \<open>Insert\<close>, \<open>Exec\<close>) and the helper methods of \<open>migration\<close>
  (\<open>slurpDashAlerts\<close>, \<open>createFolder\<close>, \<open>getACL\<close>, \<open>makeAlertRule\<close>, ...). Each of
  them is a field of a record of operations over an abstract state, so that the
  functions below are the source's control flow and nothing else; every operation
  returns its result together with the state it leaves behind, also when it fails.
  The identifiers are \<open>int64\<close> in the source. They are only compared, never computed
  with, so they are \<open>int\<close> here.
\<close>

subsection \<open>Constants\<close>

definition GENERAL_FOLDER :: string where
  "GENERAL_FOLDER = ''General Alerting''"

text \<open>\<open>DASHBOARD_FOLDER\<close> is the format \<open>"Migrated %s"\<close>; it is applied to one string.\<close>

definition DASHBOARD_FOLDER :: "string \<Rightarrow> string" where
  "DASHBOARD_FOLDER x = ''Migrated '' @ x"

definition FOLDER_CREATED_BY :: int where
  "FOLDER_CREATED_BY = - 8"

definition migTitle :: string where
  "migTitle = ''move dashboard alerts to unified alerting''"

definition rmMigTitle :: string where
  "rmMigTitle = ''remove unified alerting data''"

subsection \<open>Errors\<close>

text \<open>
  \<open>ExternalError\<close> is an error made by a collaborator. \<open>Errorf\<close> is the value of
  \<open>fmt.Errorf\<close>: the format, the arguments other than the \<open>%w\<close> one, and the value
  of the \<open>%w\<close> argument (\<open>None\<close> when the format has no \<open>%w\<close> or the argument is
  \<open>nil\<close>). \<open>MigrationError\<close> is the struct of the source, fields in declaration order.
\<close>

datatype arg = S string | I int

datatype error =
    ExternalError string
  | Errorf string "arg list" "error option"
  | MigrationError int error

fun isMigrationError :: "error \<Rightarrow> bool" where
  "isMigrationError (MigrationError a e) = True"
| "isMigrationError _ = False"

fun AlertId :: "error \<Rightarrow> int option" where
  "AlertId (MigrationError a e) = Some a"
| "AlertId _ = None"

fun Err :: "error \<Rightarrow> error option" where
  "Err (MigrationError a e) = Some e"
| "Err _ = None"

text \<open>
  \<open>errors.Unwrap\<close> calls the method \<open>Unwrap\<close> of its argument when the dynamic type
  of the argument has one, and returns \<open>nil\<close> otherwise. The error that \<open>fmt.Errorf\<close>
  makes for a \<open>%w\<close> has it and returns the wrapped error. The package declares
  \<open>Unwrap\<close> on the pointer, \<open>func (e *MigrationError) Unwrap() error\<close>, and \<open>Error\<close>
  on the value; the errors that \<open>Exec\<close> returns are values, \<open>MigrationError{...}\<close>,
  and the method set of a value has no method of the pointer: \<open>errors.Unwrap\<close> finds
  none. An error of a collaborator is taken as it is, with nothing inside.
\<close>

fun errors_Unwrap :: "error \<Rightarrow> error option" where
  "errors_Unwrap (Errorf f args c) = c"
| "errors_Unwrap (MigrationError a e) = None"
| "errors_Unwrap (ExternalError x) = None"

subsection \<open>Registration: \<open>AddMigration\<close>\<close>

text \<open>The two code migrations, \<open>&migration{}\<close> and \<open>&rmMigration{}\<close>.\<close>

datatype code_migration = Migration | RmMigration

text \<open>
  The methods of \<open>*migrator.Migrator\<close> that \<open>AddMigration\<close> calls, over the state
  \<open>'m\<close> of the migrator. \<open>'l\<close> is the type of a migration-log entry.
\<close>

record ('m, 'l) migrator =
  GetMigrationLog :: "'m \<Rightarrow> (error + (string \<rightharpoonup> 'l)) \<times> 'm"
  IsNgAlertEnabled :: "'m \<Rightarrow> bool"
  ClearMigrationEntry :: "string \<Rightarrow> 'm \<Rightarrow> error option \<times> 'm"
  mg_AddMigration :: "string \<Rightarrow> code_migration \<Rightarrow> 'm \<Rightarrow> 'm"
  Logger_Crit :: "string \<Rightarrow> error \<Rightarrow> 'm \<Rightarrow> 'm"
  Logger_Error :: "string \<Rightarrow> error \<Rightarrow> 'm \<Rightarrow> 'm"

text \<open>\<open>AddMigration\<close> returns, or ends the process with \<open>os.Exit\<close>.\<close>

datatype 'm outcome = Returned 'm | Exited int 'm

fun outcome_state :: "'m outcome \<Rightarrow> 'm" where
  "outcome_state (Returned m) = m"
| "outcome_state (Exited c m) = m"

text \<open>\<open>getenv\<close> is \<open>os.Getenv\<close>: the empty string for a variable that is not set.\<close>

definition AddMigration :: "('m, 'l) migrator \<Rightarrow> (string \<Rightarrow> string) \<Rightarrow> 'm \<Rightarrow> 'm outcome" where
  "AddMigration mgo getenv mg =
     (if getenv ''UALERT_MIG'' = ''iDidBackup'' then
        (case GetMigrationLog mgo mg of
           (Inl err, mg1) \<Rightarrow>
             Exited 1 (Logger_Crit mgo ''alert migration failure: could not get migration log'' err mg1)
         | (Inr logs, mg1) \<Rightarrow>
             (let migrationRun = (logs migTitle \<noteq> None);
                  ngEnabled = IsNgAlertEnabled mgo mg1
              in if ngEnabled \<and> \<not> migrationRun then
                   (case ClearMigrationEntry mgo rmMigTitle mg1 of
                      (Some err, mg2) \<Rightarrow>
                        Returned (mg_AddMigration mgo migTitle Migration
                          (Logger_Error mgo
                             ''alert migration error: could not clear alert migration for removing data''
                             err mg2))
                    | (None, mg2) \<Rightarrow> Returned (mg_AddMigration mgo migTitle Migration mg2))
                 else if \<not> ngEnabled \<and> migrationRun then
                   (case ClearMigrationEntry mgo migTitle mg1 of
                      (Some err, mg2) \<Rightarrow>
                        Returned (mg_AddMigration mgo rmMigTitle RmMigration
                          (Logger_Error mgo
                             ''alert migration error: could not clear alert migration''
                             err mg2))
                    | (None, mg2) \<Rightarrow> Returned (mg_AddMigration mgo rmMigTitle RmMigration mg2))
                 else Returned mg1))
      else Returned mg)"

subsubsection \<open>A migrator with a log and a list of registered migrations\<close>

text \<open>
  Modelled from the spec: the methods of \<open>migrator.Migrator\<close>, whose code is missing
  (\<open>GetMigrationLog\<close>, \<open>ClearMigrationEntry\<close>, \<open>AddMigration\<close>, the logger and
  \<open>Cfg.IsNgAlertEnabled\<close>). The spec gives the migration-log store three operations, "get all
  entries", "clear entry by name" and "register migration by name". The state holds the
  log (keyed by migration name), the registered migrations in registration order, the
  feature toggle and the logger's output. \<open>log_failure\<close> and \<open>clear_failure\<close> say
  whether reading the log and clearing an entry fail.
\<close>

record mgstate =
  migration_log :: "string \<rightharpoonup> unit"
  migrations :: "(string \<times> code_migration) list"
  ngalert_enabled :: bool
  logged :: "(string \<times> string \<times> error) list"
  log_failure :: "error option"
  clear_failure :: "string \<Rightarrow> error option"

definition mem_GetMigrationLog :: "mgstate \<Rightarrow> (error + (string \<rightharpoonup> unit)) \<times> mgstate" where
  "mem_GetMigrationLog mg =
     (case log_failure mg of Some err \<Rightarrow> (Inl err, mg) | None \<Rightarrow> (Inr (migration_log mg), mg))"

definition mem_ClearMigrationEntry :: "string \<Rightarrow> mgstate \<Rightarrow> error option \<times> mgstate" where
  "mem_ClearMigrationEntry name mg =
     (case clear_failure mg name of
        Some err \<Rightarrow> (Some err, mg)
      | None \<Rightarrow> (None, mg\<lparr>migration_log := (migration_log mg)(name := None)\<rparr>))"

definition mem_AddMigration :: "string \<Rightarrow> code_migration \<Rightarrow> mgstate \<Rightarrow> mgstate" where
  "mem_AddMigration name m mg = mg\<lparr>migrations := migrations mg @ [(name, m)]\<rparr>"

definition mem_Logger :: "string \<Rightarrow> string \<Rightarrow> error \<Rightarrow> mgstate \<Rightarrow> mgstate" where
  "mem_Logger lvl msg err mg = mg\<lparr>logged := logged mg @ [(lvl, msg, err)]\<rparr>"

definition mem_migrator :: "(mgstate, unit) migrator" where
  "mem_migrator =
     \<lparr>GetMigrationLog = mem_GetMigrationLog,
      IsNgAlertEnabled = ngalert_enabled,
      ClearMigrationEntry = mem_ClearMigrationEntry,
      mg_AddMigration = mem_AddMigration,
      Logger_Crit = mem_Logger ''crit'',
      Logger_Error = mem_Logger ''error''\<rparr>"

text \<open>
  Modelled from the spec: the migration framework, whose code is missing. "On success,
  the external migration framework records the run as completed in its log."
\<close>

definition record_completed :: "string \<Rightarrow> mgstate \<Rightarrow> mgstate" where
  "record_completed name mg = mg\<lparr>migration_log := (migration_log mg)(name \<mapsto> ())\<rparr>"

subsection \<open>Removal: \<open>rmMigration.Exec\<close>\<close>

text \<open>
  \<open>sess.Exec\<close> takes the text of a statement and the values bound to its \<open>?\<close>
  placeholders; the number of affected rows it returns is dropped by the source.
\<close>

definition rmMigration_Exec ::
  "(string \<Rightarrow> int list \<Rightarrow> 's \<Rightarrow> error option \<times> 's) \<Rightarrow> 's \<Rightarrow> error option \<times> 's" where
  "rmMigration_Exec sess_Exec s =
     (case sess_Exec ''delete from alert_rule'' [] s of
        (Some err, s1) \<Rightarrow> (Some err, s1)
      | (None, s1) \<Rightarrow>
     (case sess_Exec ''delete from alert_rule_version'' [] s1 of
        (Some err, s2) \<Rightarrow> (Some err, s2)
      | (None, s2) \<Rightarrow>
     (case sess_Exec
             ''delete from dashboard_acl where dashboard_id IN (select id from dashboard where created_by = ?)''
             [FOLDER_CREATED_BY] s2 of
        (Some err, s3) \<Rightarrow> (Some err, s3)
      | (None, s3) \<Rightarrow>
     (case sess_Exec ''delete from dashboard where created_by = ?'' [FOLDER_CREATED_BY] s3 of
        (Some err, s4) \<Rightarrow> (Some err, s4)
      | (None, s4) \<Rightarrow>
     (case sess_Exec ''delete from alert_configuration'' [] s4 of
        (Some err, s5) \<Rightarrow> (Some err, s5)
      | (None, s5) \<Rightarrow>
     (case sess_Exec ''delete from alert_instance'' [] s5 of
        (Some err, s6) \<Rightarrow> (Some err, s6)
      | (None, s6) \<Rightarrow> (None, s6)))))))"

text \<open>
  A session that only records what it is asked to execute, in order; \<open>fails\<close> says
  which statements are answered with an error.
\<close>

definition recording_Exec ::
  "(string \<Rightarrow> bool) \<Rightarrow> string \<Rightarrow> int list \<Rightarrow> (string \<times> int list) list
     \<Rightarrow> error option \<times> (string \<times> int list) list" where
  "recording_Exec fails q args tr =
     (if fails q then Some (ExternalError q) else None, tr @ [(q, args)])"

subsection \<open>Forward migration: \<open>migration.Exec\<close>\<close>

text \<open>
  Modelled from the spec: the structs \<open>dashAlert\<close>, \<open>dashboard\<close> and \<open>alertRule\<close>,
  whose declarations are missing. The records have the fields that \<open>Exec\<close> reads or writes
  (\<open>Id\<close>, \<open>OrgId\<close>, \<open>DashboardId\<close>, \<open>DashboardUID\<close>, \<open>ParsedSettings\<close> of an alert;
  \<open>Id\<close>, \<open>OrgId\<close>, \<open>Uid\<close>, \<open>FolderId\<close>, \<open>HasAcl\<close>, \<open>IsFolder\<close> of a dashboard;
  \<open>Uid\<close>, \<open>Title\<close>, \<open>RuleGroup\<close> of a rule), each prefixed with the name of its
  struct, and the fields that the spec's data model adds: the name of an alert, the
  title and the creator marker of a dashboard row, the organisation, the folder UID and
  the condition of a rule. \<open>'p\<close> is the type of the parsed settings, \<open>'c\<close> of a
  translated condition, \<open>'a\<close> of an ACL entry, \<open>'v\<close> of a rule version.
\<close>

record 'p dashAlert =
  alert_Id :: int
  alert_OrgId :: int
  alert_DashboardId :: int
  alert_DashboardUID :: string
  alert_Name :: string
  alert_ParsedSettings :: 'p

record dashboard =
  dash_Id :: int
  dash_OrgId :: int
  dash_Uid :: string
  dash_FolderId :: int
  dash_HasAcl :: bool
  dash_IsFolder :: bool
  dash_Title :: string
  dash_CreatedBy :: int

text \<open>The zero value \<open>dashboard{}\<close>.\<close>

definition dashboard_zero :: dashboard where
  "dashboard_zero =
     \<lparr>dash_Id = 0, dash_OrgId = 0, dash_Uid = [], dash_FolderId = 0, dash_HasAcl = False,
      dash_IsFolder = False, dash_Title = [], dash_CreatedBy = 0\<rparr>"

record 'c alertRule =
  rule_Uid :: string
  rule_OrgId :: int
  rule_NamespaceUID :: string
  rule_Title :: string
  rule_RuleGroup :: string
  rule_Condition :: 'c

text \<open>\<open>map[[2]int64]string\<close>; reading a missing key gives the empty string.\<close>

type_synonym idmap = "(int \<times> int) \<rightharpoonup> string"

definition index :: "idmap \<Rightarrow> int \<times> int \<Rightarrow> string" where
  "index m k = (case m k of None \<Rightarrow> [] | Some v \<Rightarrow> v)"

text \<open>
  What \<open>Exec\<close> calls, over the state \<open>'s\<close> of the session: the helper methods of
  \<open>migration\<close>, the package functions \<open>transConditions\<close> and \<open>getMigrationString\<close>
  and the method \<open>makeVersion\<close> (no session, so no state), and the four uses of the
  xorm session. \<open>sess_Get_dashboard org uid\<close> is
  \<open>sess.Where("org_id=? AND uid=?", org, uid).Get(&dash)\<close> and \<open>sess_Get_folder id\<close> is
  \<open>sess.Where("id=?", id).Get(&folder)\<close>: \<open>Inr None\<close> when no row exists.
\<close>

record ('s, 'p, 'c, 'a, 'v) migration =
  slurpDashAlerts :: "'s \<Rightarrow> (error + 'p dashAlert list) \<times> 's"
  slurpDSIDs :: "'s \<Rightarrow> (error + idmap) \<times> 's"
  slurpDashUIDs :: "'s \<Rightarrow> (error + idmap) \<times> 's"
  transConditions :: "'p \<Rightarrow> int \<Rightarrow> idmap \<Rightarrow> error + 'c"
  getMigrationString :: "'p dashAlert \<Rightarrow> string"
  sess_Get_dashboard :: "int \<Rightarrow> string \<Rightarrow> 's \<Rightarrow> (error + dashboard option) \<times> 's"
  sess_Get_folder :: "int \<Rightarrow> 's \<Rightarrow> (error + dashboard option) \<times> 's"
  createFolder :: "int \<Rightarrow> string \<Rightarrow> 's \<Rightarrow> (error + dashboard) \<times> 's"
  getACL :: "int \<Rightarrow> int \<Rightarrow> 's \<Rightarrow> (error + 'a list) \<times> 's"
  setACL :: "int \<Rightarrow> int \<Rightarrow> 'a list \<Rightarrow> 's \<Rightarrow> error option \<times> 's"
  getOrCreateGeneralFolder :: "int \<Rightarrow> 's \<Rightarrow> (error + dashboard) \<times> 's"
  makeAlertRule :: "'c \<Rightarrow> 'p dashAlert \<Rightarrow> string \<Rightarrow> 's \<Rightarrow> (error + 'c alertRule) \<times> 's"
  makeVersion :: "'c alertRule \<Rightarrow> 'v"
  sess_Insert_rule :: "'c alertRule \<Rightarrow> 's \<Rightarrow> error option \<times> 's"
  sess_Insert_version :: "'v \<Rightarrow> 's \<Rightarrow> error option \<times> 's"

text \<open>The body of the loop, in the order of the source. First: "get dashboard".\<close>

definition getDashboard ::
  "('s, 'p, 'c, 'a, 'v) migration \<Rightarrow> 'p dashAlert \<Rightarrow> 's \<Rightarrow> (error + dashboard) \<times> 's" where
  "getDashboard m da s =
     (case sess_Get_dashboard m (alert_OrgId da) (alert_DashboardUID da) s of
        (Inl err, s1) \<Rightarrow>
          (Inl (MigrationError (alert_Id da)
                  (Errorf ''failed to get dashboard %s under organisation %d: %w''
                     [S (alert_DashboardUID da), I (alert_OrgId da)] (Some err))), s1)
      | (Inr None, s1) \<Rightarrow>
          (Inl (MigrationError (alert_Id da)
                  (Errorf ''dashboard with UID %v under organisation %d not found: %w''
                     [S (alert_DashboardUID da), I (alert_OrgId da)] None)), s1)
      | (Inr (Some dash), s1) \<Rightarrow> (Inr dash, s1))"

text \<open>"get folder if exists": the zero dashboard when \<open>FolderId\<close> is not positive.\<close>

definition getFolder ::
  "('s, 'p, 'c, 'a, 'v) migration \<Rightarrow> 'p dashAlert \<Rightarrow> dashboard \<Rightarrow> 's \<Rightarrow> (error + dashboard) \<times> 's" where
  "getFolder m da dash s =
     (if dash_FolderId dash > 0 then
        (case sess_Get_folder m (dash_FolderId dash) s of
           (Inl err, s1) \<Rightarrow>
             (Inl (MigrationError (alert_Id da)
                     (Errorf ''failed to get folder %d: %w'' [I (dash_FolderId dash)] (Some err))), s1)
         | (Inr None, s1) \<Rightarrow>
             (Inl (MigrationError (alert_Id da)
                     (Errorf ''folder with id %v not found'' [I (dash_FolderId dash)] None)), s1)
         | (Inr (Some folder), s1) \<Rightarrow>
             (if \<not> dash_IsFolder folder then
                (Inl (MigrationError (alert_Id da)
                        (Errorf ''id %v is a dashboard not a folder'' [I (dash_FolderId dash)] None)), s1)
              else (Inr folder, s1)))
      else (Inr dashboard_zero, s))"

text \<open>The \<open>switch\<close> that settles the folder of the rule.\<close>

definition switchFolder ::
  "('s, 'p, 'c, 'a, 'v) migration \<Rightarrow> 'p dashAlert \<Rightarrow> dashboard \<Rightarrow> dashboard \<Rightarrow> 's
     \<Rightarrow> (error + dashboard) \<times> 's" where
  "switchFolder m da dash folder s =
     (if dash_HasAcl dash then
        (case createFolder m (dash_OrgId dash) (DASHBOARD_FOLDER (getMigrationString m da)) s of
           (Inl err, s1) \<Rightarrow>
             (Inl (MigrationError (alert_Id da)
                     (Errorf ''failed to create folder: %w'' [] (Some err))), s1)
         | (Inr folder', s1) \<Rightarrow>
        (case getACL m (dash_OrgId dash) (dash_Id dash) s1 of
           (Inl err, s2) \<Rightarrow>
             (Inl (MigrationError (alert_Id da)
                     (Errorf ''failed to get dashboard %d under organisation %d permissions: %w''
                        [I (dash_Id dash), I (dash_OrgId dash)] (Some err))), s2)
         | (Inr permissions, s2) \<Rightarrow>
        (case setACL m (dash_OrgId folder') (dash_Id folder') permissions s2 of
           (Some err, s3) \<Rightarrow>
             (Inl (MigrationError (alert_Id da)
                     (Errorf ''failed to set folder %d under organisation %d permissions: %w''
                        [I (dash_Id folder'), I (dash_OrgId folder')] (Some err))), s3)
         | (None, s3) \<Rightarrow> (Inr folder', s3))))
      else if dash_FolderId dash > 0 then (Inr folder, s)
      else
        (case getOrCreateGeneralFolder m (dash_OrgId dash) s of
           (Inl err, s1) \<Rightarrow>
             (Inl (MigrationError (alert_Id da)
                     (Errorf ''failed to get or create general folder under organisation %d: %w''
                        [I (dash_OrgId dash)] (Some err))), s1)
         | (Inr folder', s1) \<Rightarrow> (Inr folder', s1)))"

text \<open>
  The insert of the rule and its one retry. The result is the rule as it was inserted;
  \<open>fmt.Sprintf(" %v", rule.Uid)\<close> is a space and the UID.
\<close>

definition insertRule ::
  "('s, 'p, 'c, 'a, 'v) migration \<Rightarrow> 'c alertRule \<Rightarrow> 's \<Rightarrow> (error + 'c alertRule) \<times> 's" where
  "insertRule m rule s =
     (case sess_Insert_rule m rule s of
        (None, s1) \<Rightarrow> (Inr rule, s1)
      | (Some err, s1) \<Rightarrow>
          (let rule' = rule\<lparr>rule_Title := rule_Title rule @ '' '' @ rule_Uid rule,
                            rule_RuleGroup := rule_RuleGroup rule @ '' '' @ rule_Uid rule\<rparr>
           in case sess_Insert_rule m rule' s1 of
                (Some err', s2) \<Rightarrow> (Inl err', s2)
              | (None, s2) \<Rightarrow> (Inr rule', s2)))"

text \<open>From the check of the folder UID to the insert of the version.\<close>

definition persistRule ::
  "('s, 'p, 'c, 'a, 'v) migration \<Rightarrow> 'c \<Rightarrow> 'p dashAlert \<Rightarrow> dashboard \<Rightarrow> 's \<Rightarrow> error option \<times> 's" where
  "persistRule m newCond da folder s =
     (if dash_Uid folder = [] then
        (Some (MigrationError (alert_Id da) (Errorf ''empty folder identifier'' [] None)), s)
      else
        (case makeAlertRule m newCond da (dash_Uid folder) s of
           (Inl err, s1) \<Rightarrow> (Some err, s1)
         | (Inr rule, s1) \<Rightarrow>
        (case insertRule m rule s1 of
           (Inl err, s2) \<Rightarrow> (Some err, s2)
         | (Inr rule', s2) \<Rightarrow> sess_Insert_version m (makeVersion m rule') s2)))"

text \<open>\<open>da.DashboardUID = dashIDMap[[2]int64{da.OrgId, da.DashboardId}]\<close>\<close>

definition resolveDashboardUID :: "idmap \<Rightarrow> 'p dashAlert \<Rightarrow> 'p dashAlert" where
  "resolveDashboardUID dashIDMap da =
     da\<lparr>alert_DashboardUID := index dashIDMap (alert_OrgId da, alert_DashboardId da)\<rparr>"

text \<open>One iteration of \<open>for _, da := range dashAlerts\<close>.\<close>

definition migrateAlert ::
  "('s, 'p, 'c, 'a, 'v) migration \<Rightarrow> idmap \<Rightarrow> idmap \<Rightarrow> 'p dashAlert \<Rightarrow> 's \<Rightarrow> error option \<times> 's" where
  "migrateAlert m dsIDMap dashIDMap da0 s =
     (case transConditions m (alert_ParsedSettings da0) (alert_OrgId da0) dsIDMap of
        Inl err \<Rightarrow> (Some err, s)
      | Inr newCond \<Rightarrow>
          (let da = resolveDashboardUID dashIDMap da0
           in case getDashboard m da s of
                (Inl err, s1) \<Rightarrow> (Some err, s1)
              | (Inr dash, s1) \<Rightarrow>
             (case getFolder m da dash s1 of
                (Inl err, s2) \<Rightarrow> (Some err, s2)
              | (Inr folder, s2) \<Rightarrow>
             (case switchFolder m da dash folder s2 of
                (Inl err, s3) \<Rightarrow> (Some err, s3)
              | (Inr folder', s3) \<Rightarrow> persistRule m newCond da folder' s3))))"

text \<open>The loop: the first error ends it.\<close>

fun migrateAlerts ::
  "('s, 'p, 'c, 'a, 'v) migration \<Rightarrow> idmap \<Rightarrow> idmap \<Rightarrow> 'p dashAlert list \<Rightarrow> 's
     \<Rightarrow> error option \<times> 's" where
  "migrateAlerts m dsIDMap dashIDMap [] s = (None, s)"
| "migrateAlerts m dsIDMap dashIDMap (da # das) s =
     (case migrateAlert m dsIDMap dashIDMap da s of
        (Some err, s1) \<Rightarrow> (Some err, s1)
      | (None, s1) \<Rightarrow> migrateAlerts m dsIDMap dashIDMap das s1)"

definition Exec :: "('s, 'p, 'c, 'a, 'v) migration \<Rightarrow> 's \<Rightarrow> error option \<times> 's" where
  "Exec m s =
     (case slurpDashAlerts m s of
        (Inl err, s1) \<Rightarrow> (Some err, s1)
      | (Inr dashAlerts, s1) \<Rightarrow>
     (case slurpDSIDs m s1 of
        (Inl err, s2) \<Rightarrow> (Some err, s2)
      | (Inr dsIDMap, s2) \<Rightarrow>
     (case slurpDashUIDs m s2 of
        (Inl err, s3) \<Rightarrow> (Some err, s3)
      | (Inr dashIDMap, s3) \<Rightarrow> migrateAlerts m dsIDMap dashIDMap dashAlerts s3)))"

subsection \<open>A relational store\<close>

text \<open>
  Modelled from the spec: the tables behind the session and the helpers of \<open>migration\<close>
  whose code is missing (\<open>slurpDashAlerts\<close>, \<open>slurpDSIDs\<close>, \<open>slurpDashUIDs\<close>,
  \<open>transConditions\<close>, \<open>getMigrationString\<close>, \<open>createFolder\<close>, \<open>getACL\<close>, \<open>setACL\<close>,
  \<open>getOrCreateGeneralFolder\<close>, \<open>makeAlertRule\<close>, \<open>makeVersion\<close>). A table is the list of its rows. The parsed settings of an alert are
  the datasource ids of its conditions, a translated condition is the list of their
  UIDs. An ACL entry grants a permission level to a user, a team or a role on a
  dashboard.
\<close>

record dashboardAcl =
  acl_OrgId :: int
  acl_DashboardId :: int
  acl_UserId :: int
  acl_TeamId :: int
  acl_Role :: string
  acl_Permission :: int

record alertRuleVersion =
  ver_RuleUid :: string
  ver_RuleOrgId :: int
  ver_RuleNamespaceUID :: string
  ver_Title :: string
  ver_RuleGroup :: string
  ver_Condition :: "string list"

record db =
  tbl_alert :: "int list dashAlert list"
  tbl_data_source :: "(int \<times> int \<times> string) list"
  tbl_dashboard :: "dashboard list"
  tbl_dashboard_acl :: "dashboardAcl list"
  tbl_alert_rule :: "string list alertRule list"
  tbl_alert_rule_version :: "alertRuleVersion list"
  tbl_alert_configuration :: "int list"
  tbl_alert_instance :: "int list"
  uid_counter :: nat

text \<open>
  The statements of \<open>rmMigration.Exec\<close>, executed on the tables. \<open>fault\<close> is the
  failure of the store itself: a statement that fails changes nothing.
\<close>

definition db_Exec ::
  "(string \<Rightarrow> db \<Rightarrow> error option) \<Rightarrow> string \<Rightarrow> int list \<Rightarrow> db \<Rightarrow> error option \<times> db" where
  "db_Exec fault q args d =
     (case fault q d of
        Some err \<Rightarrow> (Some err, d)
      | None \<Rightarrow>
          if q = ''delete from alert_rule'' then (None, d\<lparr>tbl_alert_rule := []\<rparr>)
          else if q = ''delete from alert_rule_version'' then (None, d\<lparr>tbl_alert_rule_version := []\<rparr>)
          else if q = ''delete from alert_configuration'' then (None, d\<lparr>tbl_alert_configuration := []\<rparr>)
          else if q = ''delete from alert_instance'' then (None, d\<lparr>tbl_alert_instance := []\<rparr>)
          else if q = ''delete from dashboard where created_by = ?'' then
            (case args of
               [c] \<Rightarrow> (None, d\<lparr>tbl_dashboard := filter (\<lambda>r. dash_CreatedBy r \<noteq> c) (tbl_dashboard d)\<rparr>)
             | _ \<Rightarrow> (Some (ExternalError ''wrong number of arguments''), d))
          else if q = ''delete from dashboard_acl where dashboard_id IN (select id from dashboard where created_by = ?)'' then
            (case args of
               [c] \<Rightarrow>
                 (None, d\<lparr>tbl_dashboard_acl :=
                    filter (\<lambda>a. acl_DashboardId a \<notin>
                                  set (map dash_Id (filter (\<lambda>r. dash_CreatedBy r = c) (tbl_dashboard d))))
                      (tbl_dashboard_acl d)\<rparr>)
             | _ \<Rightarrow> (Some (ExternalError ''wrong number of arguments''), d))
          else (Some (ExternalError ''unknown statement''), d))"

text \<open>
  Modelled from the spec: \<open>slurpDashAlerts\<close>, \<open>slurpDSIDs\<close> and \<open>slurpDashUIDs\<close>, the
  three bulk reads: the legacy alerts, the UID of a datasource by organisation and id, the
  UID of a dashboard by organisation and id.
\<close>

definition db_slurpDashAlerts :: "db \<Rightarrow> (error + int list dashAlert list) \<times> db" where
  "db_slurpDashAlerts d = (Inr (tbl_alert d), d)"

definition dsIDs_of :: "db \<Rightarrow> idmap" where
  "dsIDs_of d = map_of (map (\<lambda>(org, i, uid). ((org, i), uid)) (tbl_data_source d))"

definition db_slurpDSIDs :: "db \<Rightarrow> (error + idmap) \<times> db" where
  "db_slurpDSIDs d = (Inr (dsIDs_of d), d)"

definition dashUIDs_of :: "db \<Rightarrow> idmap" where
  "dashUIDs_of d = map_of (map (\<lambda>r. ((dash_OrgId r, dash_Id r), dash_Uid r)) (tbl_dashboard d))"

definition db_slurpDashUIDs :: "db \<Rightarrow> (error + idmap) \<times> db" where
  "db_slurpDashUIDs d = (Inr (dashUIDs_of d), d)"

text \<open>
  Modelled from the spec: \<open>transConditions\<close>. The translation maps every datasource id
  through the lookup, in order; an id without a UID is the spec's
  \<open>UnresolvedDatasourceError\<close>.
\<close>

fun db_transConditions :: "int list \<Rightarrow> int \<Rightarrow> idmap \<Rightarrow> error + string list" where
  "db_transConditions [] orgID dsIDMap = Inr []"
| "db_transConditions (i # is) orgID dsIDMap =
     (case dsIDMap (orgID, i) of
        None \<Rightarrow> Inl (ExternalError ''UnresolvedDatasourceError'')
      | Some uid \<Rightarrow>
          (case db_transConditions is orgID dsIDMap of
             Inl err \<Rightarrow> Inl err
           | Inr uids \<Rightarrow> Inr (uid # uids)))"

text \<open>
  Modelled from the spec: \<open>getMigrationString\<close>, "derived from alert identity"; here the
  UID of the alert's dashboard.
\<close>

definition db_getMigrationString :: "int list dashAlert \<Rightarrow> string" where
  "db_getMigrationString da = alert_DashboardUID da"

text \<open>The two single-row reads of the session: the first row that matches, if any.\<close>

definition db_Get_dashboard :: "int \<Rightarrow> string \<Rightarrow> db \<Rightarrow> (error + dashboard option) \<times> db" where
  "db_Get_dashboard org uid d =
     (Inr (find (\<lambda>r. dash_OrgId r = org \<and> dash_Uid r = uid) (tbl_dashboard d)), d)"

definition db_Get_folder :: "int \<Rightarrow> db \<Rightarrow> (error + dashboard option) \<times> db" where
  "db_Get_folder i d = (Inr (find (\<lambda>r. dash_Id r = i) (tbl_dashboard d)), d)"

text \<open>
  Modelled from the spec: the generated UID. The source generates UIDs at random. Here the \<open>n\<close>-th generated UID is \<open>u\<close> followed
  by \<open>n\<close> times \<open>x\<close>: never empty, and different for different \<open>n\<close>.
\<close>

definition genUID :: "nat \<Rightarrow> string" where
  "genUID n = CHR ''u'' # replicate n (CHR ''x'')"

definition next_id :: "dashboard list \<Rightarrow> int" where
  "next_id rows = fold max (map dash_Id rows) 0 + 1"

text \<open>
  Modelled from the spec: \<open>createFolder\<close>. A synthesized folder gets a fresh id and UID
  and carries the reserved creator marker.
\<close>

definition db_createFolder :: "int \<Rightarrow> string \<Rightarrow> db \<Rightarrow> (error + dashboard) \<times> db" where
  "db_createFolder org title d =
     (let folder = \<lparr>dash_Id = next_id (tbl_dashboard d), dash_OrgId = org,
                     dash_Uid = genUID (uid_counter d), dash_FolderId = 0, dash_HasAcl = False,
                     dash_IsFolder = True, dash_Title = title,
                     dash_CreatedBy = FOLDER_CREATED_BY\<rparr>
      in (Inr folder, d\<lparr>tbl_dashboard := tbl_dashboard d @ [folder],
                         uid_counter := Suc (uid_counter d)\<rparr>))"

text \<open>
  Modelled from the spec: \<open>getACL\<close> and \<open>setACL\<close>. The effective ACL of a dashboard is
  its own entries and those of its folder; \<open>setACL\<close> stores the entries for the
  dashboard it is given.
\<close>

definition db_getACL :: "int \<Rightarrow> int \<Rightarrow> db \<Rightarrow> (error + dashboardAcl list) \<times> db" where
  "db_getACL org dashId d =
     (let parents = map dash_FolderId
            (filter (\<lambda>r. dash_OrgId r = org \<and> dash_Id r = dashId \<and> dash_FolderId r > 0)
               (tbl_dashboard d))
      in (Inr (filter (\<lambda>a. acl_OrgId a = org \<and>
                            (acl_DashboardId a = dashId \<or> acl_DashboardId a \<in> set parents))
                 (tbl_dashboard_acl d)), d))"

definition db_setACL :: "int \<Rightarrow> int \<Rightarrow> dashboardAcl list \<Rightarrow> db \<Rightarrow> error option \<times> db" where
  "db_setACL org dashId permissions d =
     (None, d\<lparr>tbl_dashboard_acl := tbl_dashboard_acl d @
                 map (\<lambda>a. a\<lparr>acl_OrgId := org, acl_DashboardId := dashId\<rparr>) permissions\<rparr>)"

text \<open>
  Modelled from the spec: \<open>getOrCreateGeneralFolder\<close>, "get-or-create a single
  per-organization General Alerting folder".
\<close>

definition db_getOrCreateGeneralFolder :: "int \<Rightarrow> db \<Rightarrow> (error + dashboard) \<times> db" where
  "db_getOrCreateGeneralFolder org d =
     (case find (\<lambda>r. dash_OrgId r = org \<and> dash_Title r = GENERAL_FOLDER) (tbl_dashboard d) of
        Some folder \<Rightarrow> (Inr folder, d)
      | None \<Rightarrow> db_createFolder org GENERAL_FOLDER d)"

text \<open>
  Modelled from the spec: \<open>makeAlertRule\<close> and \<open>makeVersion\<close>. Title and rule group are
  the name of the alert, the UID is generated, the folder UID is the one given; the version
  is a copy of the rule.
\<close>

definition db_makeAlertRule ::
  "string list \<Rightarrow> int list dashAlert \<Rightarrow> string \<Rightarrow> db \<Rightarrow> (error + string list alertRule) \<times> db" where
  "db_makeAlertRule cond da folderUID d =
     (Inr \<lparr>rule_Uid = genUID (uid_counter d), rule_OrgId = alert_OrgId da,
           rule_NamespaceUID = folderUID, rule_Title = alert_Name da,
           rule_RuleGroup = alert_Name da, rule_Condition = cond\<rparr>,
      d\<lparr>uid_counter := Suc (uid_counter d)\<rparr>)"

definition db_makeVersion :: "string list alertRule \<Rightarrow> alertRuleVersion" where
  "db_makeVersion r =
     \<lparr>ver_RuleUid = rule_Uid r, ver_RuleOrgId = rule_OrgId r,
      ver_RuleNamespaceUID = rule_NamespaceUID r, ver_Title = rule_Title r,
      ver_RuleGroup = rule_RuleGroup r, ver_Condition = rule_Condition r\<rparr>"

text \<open>
  The inserts of the session. A rule is refused when the table has a rule of the same
  title in the same organisation and folder, or a rule of the same UID.
\<close>

definition db_Insert_rule :: "string list alertRule \<Rightarrow> db \<Rightarrow> error option \<times> db" where
  "db_Insert_rule r d =
     (if list_ex (\<lambda>x. (rule_OrgId x = rule_OrgId r \<and> rule_NamespaceUID x = rule_NamespaceUID r
                          \<and> rule_Title x = rule_Title r) \<or> rule_Uid x = rule_Uid r)
           (tbl_alert_rule d)
      then (Some (ExternalError ''UNIQUE constraint failed''), d)
      else (None, d\<lparr>tbl_alert_rule := tbl_alert_rule d @ [r]\<rparr>))"

definition db_Insert_version :: "alertRuleVersion \<Rightarrow> db \<Rightarrow> error option \<times> db" where
  "db_Insert_version v d = (None, d\<lparr>tbl_alert_rule_version := tbl_alert_rule_version d @ [v]\<rparr>)"

definition db_migration :: "(db, int list, string list, dashboardAcl, alertRuleVersion) migration" where
  "db_migration =
     \<lparr>slurpDashAlerts = db_slurpDashAlerts,
      slurpDSIDs = db_slurpDSIDs,
      slurpDashUIDs = db_slurpDashUIDs,
      transConditions = db_transConditions,
      getMigrationString = db_getMigrationString,
      sess_Get_dashboard = db_Get_dashboard,
      sess_Get_folder = db_Get_folder,
      createFolder = db_createFolder,
      getACL = db_getACL,
      setACL = db_setACL,
      getOrCreateGeneralFolder = db_getOrCreateGeneralFolder,
      makeAlertRule = db_makeAlertRule,
      makeVersion = db_makeVersion,
      sess_Insert_rule = db_Insert_rule,
      sess_Insert_version = db_Insert_version\<rparr>"

subsection \<open>Auxiliary notions\<close>

text \<open>Statements run one after the other until one fails.\<close>

fun run_stmts ::
  "(string \<Rightarrow> int list \<Rightarrow> 's \<Rightarrow> error option \<times> 's) \<Rightarrow> (string \<times> int list) list \<Rightarrow> 's
     \<Rightarrow> error option \<times> 's" where
  "run_stmts ex [] s = (None, s)"
| "run_stmts ex (qa # qs) s =
     (case ex (fst qa) (snd qa) s of
        (Some err, s1) \<Rightarrow> (Some err, s1)
      | (None, s1) \<Rightarrow> run_stmts ex qs s1)"

text \<open>The statements of the removal migration, in the order in which it issues them.\<close>

definition removal_order :: "(string \<times> int list) list" where
  "removal_order =
     [(''delete from alert_rule'', []),
      (''delete from alert_rule_version'', []),
      (''delete from dashboard_acl where dashboard_id IN (select id from dashboard where created_by = ?)'',
       [FOLDER_CREATED_BY]),
      (''delete from dashboard where created_by = ?'', [FOLDER_CREATED_BY]),
      (''delete from alert_configuration'', []),
      (''delete from alert_instance'', [])]"

text \<open>The ids of the dashboard rows that carry the creator marker.\<close>

definition marked_ids :: "db \<Rightarrow> int set" where
  "marked_ids d =
     set (map dash_Id (filter (\<lambda>x. dash_CreatedBy x = FOLDER_CREATED_BY) (tbl_dashboard d)))"

subsection \<open>Example data\<close>

text \<open>
  A migrator whose log cannot be read, one with an empty log and the toggle on, and one
  with the forward entry in the log and the toggle off.
\<close>

definition mg_unreadable :: mgstate where
  "mg_unreadable =
     \<lparr>migration_log = Map.empty, migrations = [], ngalert_enabled = True, logged = [],
      log_failure = Some (ExternalError ''no such table: migration_log''),
      clear_failure = (\<lambda>n. None)\<rparr>"

definition mg_fresh :: mgstate where
  "mg_fresh =
     \<lparr>migration_log = Map.empty, migrations = [], ngalert_enabled = True, logged = [],
      log_failure = None, clear_failure = (\<lambda>n. None)\<rparr>"

definition mg_migrated :: mgstate where
  "mg_migrated =
     \<lparr>migration_log = [migTitle \<mapsto> ()], migrations = [], ngalert_enabled = False, logged = [],
      log_failure = None, clear_failure = (\<lambda>n. None)\<rparr>"

definition env_backup :: "string \<Rightarrow> string" where
  "env_backup name = (if name = ''UALERT_MIG'' then ''iDidBackup'' else [])"

definition env_unset :: "string \<Rightarrow> string" where
  "env_unset name = []"

text \<open>
  One organisation with a folder, a dashboard at the root, a dashboard in the folder and
  a dashboard in the folder with permissions of its own; four alerts, the first two of
  the same name on the same dashboard.
\<close>

definition f5 :: dashboard where
  "f5 = \<lparr>dash_Id = 5, dash_OrgId = 1, dash_Uid = ''f5'', dash_FolderId = 0, dash_HasAcl = False,
          dash_IsFolder = True, dash_Title = ''Ops'', dash_CreatedBy = 2\<rparr>"

definition d10 :: dashboard where
  "d10 = \<lparr>dash_Id = 10, dash_OrgId = 1, dash_Uid = ''d10'', dash_FolderId = 0, dash_HasAcl = False,
           dash_IsFolder = False, dash_Title = ''Hosts'', dash_CreatedBy = 2\<rparr>"

definition d11 :: dashboard where
  "d11 = \<lparr>dash_Id = 11, dash_OrgId = 1, dash_Uid = ''d11'', dash_FolderId = 5, dash_HasAcl = False,
           dash_IsFolder = False, dash_Title = ''Queues'', dash_CreatedBy = 2\<rparr>"

definition d12 :: dashboard where
  "d12 = \<lparr>dash_Id = 12, dash_OrgId = 1, dash_Uid = ''d12'', dash_FolderId = 5, dash_HasAcl = True,
           dash_IsFolder = False, dash_Title = ''Billing'', dash_CreatedBy = 2\<rparr>"

definition mk_alert :: "int \<Rightarrow> int \<Rightarrow> string \<Rightarrow> int list \<Rightarrow> int list dashAlert" where
  "mk_alert i dash n ds =
     \<lparr>alert_Id = i, alert_OrgId = 1, alert_DashboardId = dash, alert_DashboardUID = [],
      alert_Name = n, alert_ParsedSettings = ds\<rparr>"

definition acl12 :: dashboardAcl where
  "acl12 = \<lparr>acl_OrgId = 1, acl_DashboardId = 12, acl_UserId = 7, acl_TeamId = 0, acl_Role = [],
             acl_Permission = 2\<rparr>"

definition example_db :: db where
  "example_db =
     \<lparr>tbl_alert = [mk_alert 1 10 ''cpu'' [3], mk_alert 2 10 ''cpu'' [3],
                   mk_alert 3 11 ''mem'' [3], mk_alert 4 12 ''disk'' [3]],
      tbl_data_source = [(1, 3, ''ds3'')],
      tbl_dashboard = [f5, d10, d11, d12],
      tbl_dashboard_acl = [acl12],
      tbl_alert_rule = [], tbl_alert_rule_version = [],
      tbl_alert_configuration = [1], tbl_alert_instance = [1, 2],
      uid_counter = 0\<rparr>"

text \<open>
  The folders that the migration of this store makes first: the one for the dashboards at
  the root, and the one for the dashboard with permissions of its own, with its entry.
\<close>

definition general13 :: dashboard where
  "general13 =
     \<lparr>dash_Id = 13, dash_OrgId = 1, dash_Uid = ''u'', dash_FolderId = 0, dash_HasAcl = False,
      dash_IsFolder = True, dash_Title = ''General Alerting'', dash_CreatedBy = - 8\<rparr>"

definition migrated13 :: dashboard where
  "migrated13 =
     \<lparr>dash_Id = 13, dash_OrgId = 1, dash_Uid = ''u'', dash_FolderId = 0, dash_HasAcl = False,
      dash_IsFolder = True, dash_Title = ''Migrated d12'', dash_CreatedBy = - 8\<rparr>"

definition acl13 :: dashboardAcl where
  "acl13 = \<lparr>acl_OrgId = 1, acl_DashboardId = 13, acl_UserId = 7, acl_TeamId = 0, acl_Role = [],
             acl_Permission = 2\<rparr>"

text \<open>
  Dashboards with a wrong parent: \<open>d20\<close> is in a folder that does not exist, \<open>d21\<close>
  is in \<open>d10\<close>, which is a dashboard, and \<open>d22\<close> is in a folder without a UID.
\<close>

definition d20 :: dashboard where
  "d20 = \<lparr>dash_Id = 20, dash_OrgId = 1, dash_Uid = ''d20'', dash_FolderId = 77, dash_HasAcl = False,
           dash_IsFolder = False, dash_Title = ''Orphan'', dash_CreatedBy = 2\<rparr>"

definition d21 :: dashboard where
  "d21 = \<lparr>dash_Id = 21, dash_OrgId = 1, dash_Uid = ''d21'', dash_FolderId = 10, dash_HasAcl = False,
           dash_IsFolder = False, dash_Title = ''Nested'', dash_CreatedBy = 2\<rparr>"

definition f6 :: dashboard where
  "f6 = \<lparr>dash_Id = 6, dash_OrgId = 1, dash_Uid = [], dash_FolderId = 0, dash_HasAcl = False,
          dash_IsFolder = True, dash_Title = ''Nameless'', dash_CreatedBy = 2\<rparr>"

definition d22 :: dashboard where
  "d22 = \<lparr>dash_Id = 22, dash_OrgId = 1, dash_Uid = ''d22'', dash_FolderId = 6, dash_HasAcl = False,
           dash_IsFolder = False, dash_Title = ''Lost'', dash_CreatedBy = 2\<rparr>"

definition odd_db :: db where
  "odd_db = example_db\<lparr>tbl_dashboard := [f5, f6, d10, d20, d21, d22]\<rparr>"

text \<open>
  A store whose second alert reads a datasource that does not exist, and a store that
  already has a rule with the UID that the first migrated rule will get. \<open>rule1\<close> and
  \<open>rule2\<close> are the rules made for the first two alerts of \<open>example_db\<close>.
\<close>

definition broken_db :: db where
  "broken_db =
     example_db\<lparr>tbl_alert := [mk_alert 1 10 ''cpu'' [3], mk_alert 2 11 ''mem'' [9],
                              mk_alert 3 12 ''disk'' [3]]\<rparr>"

definition rule1 :: "string list alertRule" where
  "rule1 = \<lparr>rule_Uid = ''ux'', rule_OrgId = 1, rule_NamespaceUID = ''u'',
             rule_Title = ''cpu'', rule_RuleGroup = ''cpu'', rule_Condition = [''ds3'']\<rparr>"

definition rule2 :: "string list alertRule" where
  "rule2 = \<lparr>rule_Uid = ''uxx'', rule_OrgId = 1, rule_NamespaceUID = ''u'',
             rule_Title = ''cpu'', rule_RuleGroup = ''cpu'', rule_Condition = [''ds3'']\<rparr>"

definition rule0 :: "string list alertRule" where
  "rule0 = \<lparr>rule_Uid = ''ux'', rule_OrgId = 1, rule_NamespaceUID = ''f5'',
             rule_Title = ''old'', rule_RuleGroup = ''old'', rule_Condition = []\<rparr>"

definition taken_db :: db where
  "taken_db = example_db\<lparr>tbl_alert_rule := [rule0]\<rparr>"

text \<open>
  The migration on the store, with one operation that fails whatever it is given: the
  lookup of the dashboard, the lookup of the folder, \<open>createFolder\<close>, \<open>getACL\<close>, \<open>setACL\<close>,
  \<open>getOrCreateGeneralFolder\<close>, \<open>makeAlertRule\<close>, the insert of the version.
\<close>

definition locked :: error where
  "locked = ExternalError ''database is locked''"

definition no_lookup :: "(db, int list, string list, dashboardAcl, alertRuleVersion) migration" where
  "no_lookup = db_migration\<lparr>sess_Get_dashboard := (\<lambda>org uid d. (Inl locked, d))\<rparr>"

definition no_folder_lookup :: "(db, int list, string list, dashboardAcl, alertRuleVersion) migration" where
  "no_folder_lookup = db_migration\<lparr>sess_Get_folder := (\<lambda>i d. (Inl locked, d))\<rparr>"

definition no_createFolder :: "(db, int list, string list, dashboardAcl, alertRuleVersion) migration" where
  "no_createFolder = db_migration\<lparr>createFolder := (\<lambda>org title d. (Inl locked, d))\<rparr>"

definition no_getACL :: "(db, int list, string list, dashboardAcl, alertRuleVersion) migration" where
  "no_getACL = db_migration\<lparr>getACL := (\<lambda>org i d. (Inl locked, d))\<rparr>"

definition no_setACL :: "(db, int list, string list, dashboardAcl, alertRuleVersion) migration" where
  "no_setACL = db_migration\<lparr>setACL := (\<lambda>org i permissions d. (Some locked, d))\<rparr>"

definition no_general :: "(db, int list, string list, dashboardAcl, alertRuleVersion) migration" where
  "no_general = db_migration\<lparr>getOrCreateGeneralFolder := (\<lambda>org d. (Inl locked, d))\<rparr>"

definition no_makeAlertRule :: "(db, int list, string list, dashboardAcl, alertRuleVersion) migration" where
  "no_makeAlertRule = db_migration\<lparr>makeAlertRule := (\<lambda>c a u d. (Inl locked, d))\<rparr>"

definition no_version :: "(db, int list, string list, dashboardAcl, alertRuleVersion) migration" where
  "no_version = db_migration\<lparr>sess_Insert_version := (\<lambda>v d. (Some locked, d))\<rparr>"

text \<open>A store after a forward migration: a synthesized folder with one ACL entry.\<close>

definition f14 :: dashboard where
  "f14 = \<lparr>dash_Id = 14, dash_OrgId = 1, dash_Uid = ''uxxxx'', dash_FolderId = 0, dash_HasAcl = False,
           dash_IsFolder = True, dash_Title = ''Migrated d12'', dash_CreatedBy = - 8\<rparr>"

definition acl14 :: dashboardAcl where
  "acl14 = \<lparr>acl_OrgId = 1, acl_DashboardId = 14, acl_UserId = 7, acl_TeamId = 0, acl_Role = [],
             acl_Permission = 2\<rparr>"

definition rule4 :: "string list alertRule" where
  "rule4 = \<lparr>rule_Uid = ''uxxxxx'', rule_OrgId = 1, rule_NamespaceUID = ''uxxxx'',
             rule_Title = ''disk'', rule_RuleGroup = ''disk'', rule_Condition = [''ds3'']\<rparr>"

definition migrated_db :: db where
  "migrated_db =
     \<lparr>tbl_alert = [], tbl_data_source = [],
      tbl_dashboard = [f5, d12, f14],
      tbl_dashboard_acl = [acl12, acl14],
      tbl_alert_rule = [rule4], tbl_alert_rule_version = [db_makeVersion rule4],
      tbl_alert_configuration = [1], tbl_alert_instance = [1, 2],
      uid_counter = 6\<rparr>"

text \<open>A store that fails on one statement and on no other.\<close>

definition fault_on :: "string \<Rightarrow> string \<Rightarrow> db \<Rightarrow> error option" where
  "fault_on q0 q d = (if q = q0 then Some (ExternalError ''database is locked'') else None)"

section \<open>Properties\<close>

subsection \<open>Registration\<close>

lemma mem_migrator_simps:
  "GetMigrationLog mem_migrator = mem_GetMigrationLog"
  "IsNgAlertEnabled mem_migrator = ngalert_enabled"
  "ClearMigrationEntry mem_migrator = mem_ClearMigrationEntry"
  "mg_AddMigration mem_migrator = mem_AddMigration"
  "Logger_Crit mem_migrator = mem_Logger ''crit''"
  "Logger_Error mem_migrator = mem_Logger ''error''"
  by (simp_all add: mem_migrator_def)

lemma mem_registered:
  "migrations (outcome_state (AddMigration mem_migrator getenv mg)) =
     migrations mg @
       (if getenv ''UALERT_MIG'' = ''iDidBackup'' \<and> log_failure mg = None \<and>
           ngalert_enabled mg \<and> migration_log mg migTitle = None
        then [(migTitle, Migration)]
        else if getenv ''UALERT_MIG'' = ''iDidBackup'' \<and> log_failure mg = None \<and>
           \<not> ngalert_enabled mg \<and> migration_log mg migTitle \<noteq> None
        then [(rmMigTitle, RmMigration)]
        else [])"
  by (auto simp add: AddMigration_def mem_migrator_simps mem_GetMigrationLog_def
        mem_ClearMigrationEntry_def mem_AddMigration_def mem_Logger_def Let_def
      split: option.splits)

lemma mem_forward_state:
  assumes "getenv ''UALERT_MIG'' = ''iDidBackup''" "log_failure mg = None" "ngalert_enabled mg"
    "migration_log mg migTitle = None"
  shows "\<exists>mg'. AddMigration mem_migrator getenv mg = Returned mg' \<and> log_failure mg' = None \<and>
           ngalert_enabled mg'"
  using assms
  by (auto simp add: AddMigration_def mem_migrator_simps mem_GetMigrationLog_def
        mem_ClearMigrationEntry_def mem_AddMigration_def mem_Logger_def Let_def
      split: option.splits)

lemma mem_second_run:
  assumes "getenv ''UALERT_MIG'' = ''iDidBackup''" "log_failure mg = None" "ngalert_enabled mg"
    "migration_log mg migTitle = None"
  shows "AddMigration mem_migrator getenv
           (record_completed migTitle (outcome_state (AddMigration mem_migrator getenv mg))) =
         Returned (record_completed migTitle (outcome_state (AddMigration mem_migrator getenv mg)))"
proof -
  from mem_forward_state [of getenv mg, OF assms] obtain mg' where
    mg': "AddMigration mem_migrator getenv mg = Returned mg'" "log_failure mg' = None"
      "ngalert_enabled mg'"
    by (elim exE conjE)
  have "AddMigration mem_migrator getenv (record_completed migTitle mg') =
          Returned (record_completed migTitle mg')"
    using assms(1) mg'(2,3)
    by (simp add: AddMigration_def mem_migrator_simps mem_GetMigrationLog_def record_completed_def)
  then show ?thesis by (simp add: mg'(1))
qed

text \<open>
  Claim C5. For every migrator: when \<open>UALERT_MIG\<close> is \<open>iDidBackup\<close>, the log is read,
  the toggle is on and the log has no entry for the forward migration, the last thing
  \<open>AddMigration\<close> does is to register the forward migration; when the toggle is off and
  the log has the forward entry, it is to register the removal migration. With the
  migrator of the spec, the forward migration is registered exactly when the flag is set,
  the log can be read, the toggle is on and the log has no forward entry, and the removal
  migration exactly when the flag is set, the log can be read, the toggle is off and the
  log has the forward entry. Once a forward run that was registered this way is recorded
  as completed, the next call of \<open>AddMigration\<close> changes nothing: it registers no
  migration, so no rule is made twice.
\<close>

theorem AddMigration_triggers:
  "(getenv ''UALERT_MIG'' = ''iDidBackup'' \<and> GetMigrationLog mgo s = (Inr logs, s1) \<and>
    IsNgAlertEnabled mgo s1 \<and> logs migTitle = None
    \<longrightarrow> (\<exists>s2. AddMigration mgo getenv s = Returned (mg_AddMigration mgo migTitle Migration s2))) \<and>
   (getenv ''UALERT_MIG'' = ''iDidBackup'' \<and> GetMigrationLog mgo s = (Inr logs, s1) \<and>
    \<not> IsNgAlertEnabled mgo s1 \<and> logs migTitle \<noteq> None
    \<longrightarrow> (\<exists>s2. AddMigration mgo getenv s = Returned (mg_AddMigration mgo rmMigTitle RmMigration s2))) \<and>
   (migrations (outcome_state (AddMigration mem_migrator getenv mg)) =
        migrations mg @ [(migTitle, Migration)]
      \<longleftrightarrow> getenv ''UALERT_MIG'' = ''iDidBackup'' \<and> log_failure mg = None \<and>
          ngalert_enabled mg \<and> migration_log mg migTitle = None) \<and>
   (migrations (outcome_state (AddMigration mem_migrator getenv mg)) =
        migrations mg @ [(rmMigTitle, RmMigration)]
      \<longleftrightarrow> getenv ''UALERT_MIG'' = ''iDidBackup'' \<and> log_failure mg = None \<and>
          \<not> ngalert_enabled mg \<and> migration_log mg migTitle \<noteq> None) \<and>
   (getenv ''UALERT_MIG'' = ''iDidBackup'' \<and> log_failure mg = None \<and>
      ngalert_enabled mg \<and> migration_log mg migTitle = None \<longrightarrow>
    AddMigration mem_migrator getenv
        (record_completed migTitle (outcome_state (AddMigration mem_migrator getenv mg))) =
      Returned (record_completed migTitle (outcome_state (AddMigration mem_migrator getenv mg))))"
proof (intro conjI)
  show "getenv ''UALERT_MIG'' = ''iDidBackup'' \<and> GetMigrationLog mgo s = (Inr logs, s1) \<and>
    IsNgAlertEnabled mgo s1 \<and> logs migTitle = None
    \<longrightarrow> (\<exists>s2. AddMigration mgo getenv s = Returned (mg_AddMigration mgo migTitle Migration s2))"
    by (cases "ClearMigrationEntry mgo rmMigTitle s1")
      (auto simp add: AddMigration_def split: option.splits)
  show "getenv ''UALERT_MIG'' = ''iDidBackup'' \<and> GetMigrationLog mgo s = (Inr logs, s1) \<and>
    \<not> IsNgAlertEnabled mgo s1 \<and> logs migTitle \<noteq> None
    \<longrightarrow> (\<exists>s2. AddMigration mgo getenv s = Returned (mg_AddMigration mgo rmMigTitle RmMigration s2))"
    by (cases "ClearMigrationEntry mgo migTitle s1")
      (auto simp add: AddMigration_def split: option.splits)
  show "(migrations (outcome_state (AddMigration mem_migrator getenv mg)) =
        migrations mg @ [(migTitle, Migration)]
      \<longleftrightarrow> getenv ''UALERT_MIG'' = ''iDidBackup'' \<and> log_failure mg = None \<and>
          ngalert_enabled mg \<and> migration_log mg migTitle = None)"
    by (simp add: mem_registered migTitle_def rmMigTitle_def)
  show "(migrations (outcome_state (AddMigration mem_migrator getenv mg)) =
        migrations mg @ [(rmMigTitle, RmMigration)]
      \<longleftrightarrow> getenv ''UALERT_MIG'' = ''iDidBackup'' \<and> log_failure mg = None \<and>
          \<not> ngalert_enabled mg \<and> migration_log mg migTitle \<noteq> None)"
    by (simp add: mem_registered)
  show "getenv ''UALERT_MIG'' = ''iDidBackup'' \<and> log_failure mg = None \<and>
      ngalert_enabled mg \<and> migration_log mg migTitle = None \<longrightarrow>
    AddMigration mem_migrator getenv
        (record_completed migTitle (outcome_state (AddMigration mem_migrator getenv mg))) =
      Returned (record_completed migTitle (outcome_state (AddMigration mem_migrator getenv mg)))"
    using mem_second_run [of getenv mg] by simp
qed

theorem AddMigration_triggers_witness:
  "AddMigration mem_migrator env_backup mg_fresh =
     Returned (mg_fresh\<lparr>migrations := [(migTitle, Migration)]\<rparr>) \<and>
   AddMigration mem_migrator env_backup mg_migrated =
     Returned (mg_migrated\<lparr>migration_log := Map.empty, migrations := [(rmMigTitle, RmMigration)]\<rparr>) \<and>
   AddMigration mem_migrator env_backup
       (record_completed migTitle (mg_fresh\<lparr>migrations := [(migTitle, Migration)]\<rparr>)) =
     Returned (record_completed migTitle (mg_fresh\<lparr>migrations := [(migTitle, Migration)]\<rparr>)) \<and>
   (\<exists>s2. AddMigration mem_migrator env_backup mg_fresh =
           Returned (mg_AddMigration mem_migrator migTitle Migration s2)) \<and>
   (\<exists>s2. AddMigration mem_migrator env_backup mg_migrated =
           Returned (mg_AddMigration mem_migrator rmMigTitle RmMigration s2))"
proof -
  have e: "env_backup ''UALERT_MIG'' = ''iDidBackup''"
    by (simp add: env_backup_def)
  have f: "GetMigrationLog mem_migrator mg_fresh = (Inr Map.empty, mg_fresh) \<and>
           IsNgAlertEnabled mem_migrator mg_fresh \<and> Map.empty migTitle = (None :: unit option)"
    by (simp add: mem_migrator_simps mem_GetMigrationLog_def mg_fresh_def)
  have g: "GetMigrationLog mem_migrator mg_migrated = (Inr [migTitle \<mapsto> ()], mg_migrated) \<and>
           \<not> IsNgAlertEnabled mem_migrator mg_migrated \<and> [migTitle \<mapsto> ()] migTitle \<noteq> None"
    by (simp add: mem_migrator_simps mem_GetMigrationLog_def mg_migrated_def)
  have r1: "AddMigration mem_migrator env_backup mg_fresh =
     Returned (mg_fresh\<lparr>migrations := [(migTitle, Migration)]\<rparr>)"
    by (simp add: AddMigration_def mem_migrator_simps mem_GetMigrationLog_def
          mem_ClearMigrationEntry_def mem_AddMigration_def mg_fresh_def env_backup_def)
  have r2: "AddMigration mem_migrator env_backup mg_migrated =
     Returned (mg_migrated\<lparr>migration_log := Map.empty, migrations := [(rmMigTitle, RmMigration)]\<rparr>)"
    by (simp add: AddMigration_def mem_migrator_simps mem_GetMigrationLog_def
          mem_ClearMigrationEntry_def mem_AddMigration_def mg_migrated_def env_backup_def)
  have h: "log_failure mg_fresh = None \<and> ngalert_enabled mg_fresh \<and>
           migration_log mg_fresh migTitle = None"
    by (simp add: mg_fresh_def)
  note t = AddMigration_triggers [where getenv = env_backup and mgo = mem_migrator]
  from e f t [where s = mg_fresh and logs = Map.empty and ?s1.0 = mg_fresh, THEN conjunct1]
  have 1: "\<exists>s2. AddMigration mem_migrator env_backup mg_fresh =
           Returned (mg_AddMigration mem_migrator migTitle Migration s2)"
    by simp
  from e g t [where s = mg_migrated and logs = "[migTitle \<mapsto> ()]" and ?s1.0 = mg_migrated,
      THEN conjunct2, THEN conjunct1]
  have 2: "\<exists>s2. AddMigration mem_migrator env_backup mg_migrated =
           Returned (mg_AddMigration mem_migrator rmMigTitle RmMigration s2)"
    by simp
  from e h t [where mg = mg_fresh, THEN conjunct2, THEN conjunct2, THEN conjunct2, THEN conjunct2]
  have "AddMigration mem_migrator env_backup
        (record_completed migTitle (outcome_state (AddMigration mem_migrator env_backup mg_fresh))) =
      Returned (record_completed migTitle
        (outcome_state (AddMigration mem_migrator env_backup mg_fresh)))"
    by simp
  then have 3: "AddMigration mem_migrator env_backup
       (record_completed migTitle (mg_fresh\<lparr>migrations := [(migTitle, Migration)]\<rparr>)) =
     Returned (record_completed migTitle (mg_fresh\<lparr>migrations := [(migTitle, Migration)]\<rparr>))"
    by (simp add: r1)
  from r1 r2 3 1 2 show ?thesis by (intro conjI)
qed

text \<open>
  Claim C10. When \<open>UALERT_MIG\<close> is not exactly \<open>iDidBackup\<close>, \<open>AddMigration\<close> returns
  the migrator as it got it, whatever the migrator's methods do: none of them is called,
  the log is not read. When the flag is set and the toggle is on with the forward entry
  in the log, or off without it, only the log is read. With the migrator of the spec,
  outside the two trigger conditions the list of registered migrations is unchanged.
\<close>

theorem AddMigration_idle:
  "(getenv ''UALERT_MIG'' \<noteq> ''iDidBackup'' \<longrightarrow> AddMigration mgo getenv mg = Returned mg) \<and>
   (getenv ''UALERT_MIG'' = ''iDidBackup'' \<and> GetMigrationLog mgo mg = (Inr logs, mg1) \<and>
      (IsNgAlertEnabled mgo mg1 \<and> logs migTitle \<noteq> None \<or>
       \<not> IsNgAlertEnabled mgo mg1 \<and> logs migTitle = None) \<longrightarrow>
    AddMigration mgo getenv mg = Returned mg1) \<and>
   (\<not> (env ''UALERT_MIG'' = ''iDidBackup'' \<and> log_failure ms = None \<and>
        (ngalert_enabled ms \<and> migration_log ms migTitle = None \<or>
         \<not> ngalert_enabled ms \<and> migration_log ms migTitle \<noteq> None)) \<longrightarrow>
    migrations (outcome_state (AddMigration mem_migrator env ms)) = migrations ms)"
proof (intro conjI impI)
  assume "getenv ''UALERT_MIG'' \<noteq> ''iDidBackup''"
  then show "AddMigration mgo getenv mg = Returned mg"
    by (simp add: AddMigration_def)
next
  assume "getenv ''UALERT_MIG'' = ''iDidBackup'' \<and> GetMigrationLog mgo mg = (Inr logs, mg1) \<and>
      (IsNgAlertEnabled mgo mg1 \<and> logs migTitle \<noteq> None \<or>
       \<not> IsNgAlertEnabled mgo mg1 \<and> logs migTitle = None)"
  then show "AddMigration mgo getenv mg = Returned mg1"
    by (auto simp add: AddMigration_def Let_def)
next
  assume "\<not> (env ''UALERT_MIG'' = ''iDidBackup'' \<and> log_failure ms = None \<and>
        (ngalert_enabled ms \<and> migration_log ms migTitle = None \<or>
         \<not> ngalert_enabled ms \<and> migration_log ms migTitle \<noteq> None))"
  then show "migrations (outcome_state (AddMigration mem_migrator env ms)) = migrations ms"
    by (auto simp add: mem_registered)
qed

theorem AddMigration_idle_witness:
  "AddMigration mem_migrator env_unset mg_unreadable = Returned mg_unreadable \<and>
   AddMigration mem_migrator env_backup (mg_migrated\<lparr>ngalert_enabled := True\<rparr>) =
     Returned (mg_migrated\<lparr>ngalert_enabled := True\<rparr>) \<and>
   AddMigration mem_migrator env_backup (mg_fresh\<lparr>ngalert_enabled := False\<rparr>) =
     Returned (mg_fresh\<lparr>ngalert_enabled := False\<rparr>) \<and>
   migrations (outcome_state (AddMigration mem_migrator env_backup mg_unreadable)) = []"
  using
    AddMigration_idle [of env_unset mem_migrator mg_unreadable]
    AddMigration_idle [of env_backup mem_migrator "mg_migrated\<lparr>ngalert_enabled := True\<rparr>"
       "migration_log mg_migrated" "mg_migrated\<lparr>ngalert_enabled := True\<rparr>"]
    AddMigration_idle [of env_backup mem_migrator "mg_fresh\<lparr>ngalert_enabled := False\<rparr>"
       "migration_log mg_fresh" "mg_fresh\<lparr>ngalert_enabled := False\<rparr>"]
    AddMigration_idle [of _ _ _ _ _ env_backup mg_unreadable]
  by (simp add: env_unset_def env_backup_def mem_migrator_simps mem_GetMigrationLog_def
        mg_migrated_def mg_fresh_def mg_unreadable_def)

subsection \<open>Removal\<close>

lemma rmMigration_Exec_run:
  "rmMigration_Exec ex s =
     run_stmts ex
       [(''delete from alert_rule'', []),
        (''delete from alert_rule_version'', []),
        (''delete from dashboard_acl where dashboard_id IN (select id from dashboard where created_by = ?)'',
         [FOLDER_CREATED_BY]),
        (''delete from dashboard where created_by = ?'', [FOLDER_CREATED_BY]),
        (''delete from alert_configuration'', []),
        (''delete from alert_instance'', [])] s"
  by (simp add: rmMigration_Exec_def split: prod.split option.split)

lemma run_recording:
  "\<exists>n. snd (run_stmts (recording_Exec fails) qs tr) = tr @ take n qs \<and>
       (qs \<noteq> [] \<longrightarrow> 0 < n) \<and>
       (fst (run_stmts (recording_Exec fails) qs tr) = None \<longrightarrow> n = length qs)"
proof (induction qs arbitrary: tr)
  case Nil
  show ?case by simp
next
  case (Cons qa qs)
  show ?case
  proof (cases "fails (fst qa)")
    case True
    then have "run_stmts (recording_Exec fails) (qa # qs) tr =
                 (Some (ExternalError (fst qa)), tr @ [qa])"
      by (simp add: recording_Exec_def)
    then show ?thesis
      by (intro exI [of _ 1]) (simp del: run_stmts.simps)
  next
    case False
    then have eq: "run_stmts (recording_Exec fails) (qa # qs) tr =
                     run_stmts (recording_Exec fails) qs (tr @ [qa])"
      by (simp add: recording_Exec_def)
    from Cons.IH [of "tr @ [qa]"] obtain n where
      n: "snd (run_stmts (recording_Exec fails) qs (tr @ [qa])) = (tr @ [qa]) @ take n qs"
         "fst (run_stmts (recording_Exec fails) qs (tr @ [qa])) = None \<longrightarrow> n = length qs"
      by (elim exE conjE)
    show ?thesis
      using n by (intro exI [of _ "Suc n"]) (simp add: eq del: run_stmts.simps)
  qed
qed

lemma db_Exec_stmts:
  "db_Exec fault ''delete from alert_rule'' [] d =
     (case fault ''delete from alert_rule'' d of
        Some err \<Rightarrow> (Some err, d)
      | None \<Rightarrow> (None, d\<lparr>tbl_alert_rule := []\<rparr>))"
  "db_Exec fault ''delete from alert_rule_version'' [] d =
     (case fault ''delete from alert_rule_version'' d of
        Some err \<Rightarrow> (Some err, d)
      | None \<Rightarrow> (None, d\<lparr>tbl_alert_rule_version := []\<rparr>))"
  "db_Exec fault ''delete from alert_configuration'' [] d =
     (case fault ''delete from alert_configuration'' d of
        Some err \<Rightarrow> (Some err, d)
      | None \<Rightarrow> (None, d\<lparr>tbl_alert_configuration := []\<rparr>))"
  "db_Exec fault ''delete from alert_instance'' [] d =
     (case fault ''delete from alert_instance'' d of
        Some err \<Rightarrow> (Some err, d)
      | None \<Rightarrow> (None, d\<lparr>tbl_alert_instance := []\<rparr>))"
  "db_Exec fault ''delete from dashboard where created_by = ?'' [c] d =
     (case fault ''delete from dashboard where created_by = ?'' d of
        Some err \<Rightarrow> (Some err, d)
      | None \<Rightarrow>
          (None, d\<lparr>tbl_dashboard := filter (\<lambda>r. dash_CreatedBy r \<noteq> c) (tbl_dashboard d)\<rparr>))"
  "db_Exec fault
      ''delete from dashboard_acl where dashboard_id IN (select id from dashboard where created_by = ?)''
      [c] d =
     (case fault
             ''delete from dashboard_acl where dashboard_id IN (select id from dashboard where created_by = ?)''
             d of
        Some err \<Rightarrow> (Some err, d)
      | None \<Rightarrow>
          (None, d\<lparr>tbl_dashboard_acl :=
             filter (\<lambda>a. acl_DashboardId a \<notin>
                           set (map dash_Id (filter (\<lambda>r. dash_CreatedBy r = c) (tbl_dashboard d))))
               (tbl_dashboard_acl d)\<rparr>))"
  by (simp_all add: db_Exec_def split: option.splits)

lemma rollback_tables:
  assumes "rmMigration_Exec (db_Exec fault) d = (r, d')"
  shows "(tbl_dashboard d' = tbl_dashboard d \<or>
          tbl_dashboard d' =
            filter (\<lambda>x. dash_CreatedBy x \<noteq> FOLDER_CREATED_BY) (tbl_dashboard d)) \<and>
         (tbl_dashboard_acl d' = tbl_dashboard_acl d \<or>
          tbl_dashboard_acl d' =
            filter (\<lambda>a. acl_DashboardId a \<notin> marked_ids d) (tbl_dashboard_acl d))"
  using assms unfolding rmMigration_Exec_def db_Exec_stmts marked_ids_def
  by (auto split: option.splits)

lemma rollback_success:
  assumes "rmMigration_Exec (db_Exec fault) d = (None, d')"
  shows "d' = d\<lparr>tbl_alert_rule := [], tbl_alert_rule_version := [],
            tbl_dashboard_acl :=
              filter (\<lambda>a. acl_DashboardId a \<notin> marked_ids d) (tbl_dashboard_acl d),
            tbl_dashboard :=
              filter (\<lambda>x. dash_CreatedBy x \<noteq> FOLDER_CREATED_BY) (tbl_dashboard d),
            tbl_alert_configuration := [], tbl_alert_instance := []\<rparr>"
  using assms unfolding rmMigration_Exec_def db_Exec_stmts marked_ids_def
  by (auto split: option.splits)

lemma run_recording_exact:
  "run_stmts (recording_Exec fails) qs tr =
     (map_option (\<lambda>qa. ExternalError (fst qa)) (find (\<lambda>qa. fails (fst qa)) qs),
      tr @ take (Suc (length (takeWhile (\<lambda>qa. \<not> fails (fst qa)) qs))) qs)"
proof (induction qs arbitrary: tr)
  case Nil
  show ?case by simp
next
  case (Cons qa qs)
  show ?case
  proof (cases "fails (fst qa)")
    case True
    then show ?thesis by (simp add: recording_Exec_def)
  next
    case False
    then have eq: "run_stmts (recording_Exec fails) (qa # qs) tr =
                     run_stmts (recording_Exec fails) qs (tr @ [qa])"
      by (simp add: recording_Exec_def)
    show ?thesis unfolding eq Cons.IH using False by simp
  qed
qed

lemma rmMigration_Exec_removal_order:
  "rmMigration_Exec ex s = run_stmts ex removal_order s"
  unfolding removal_order_def by (rule rmMigration_Exec_run)

text \<open>
  Claim C4, as amended. The removal migration issues its statements in this order:
  rules, rule versions, the ACL entries of the dashboards with the creator marker, the
  dashboards with the creator marker, alert configurations, alert instances. The first,
  second, fifth and sixth statement have no condition; the third and fourth are bound to
  the marker only.

  It stops at the first statement that fails, on every session: when a statement fails
  after the statements before it have succeeded, the result of the migration is the error
  and the state of that statement, and the result of the sixth statement is the result of
  the migration. On a session that records the statements it is given, the statements
  issued are those up to and including the first one that fails, all six when none does,
  and the error is that of the first one that fails. On such a session hence a non-empty
  prefix of the sequence is issued, and all six statements when the migration succeeds.
  On the tables, a removal that succeeds leaves the four tables of rules, versions,
  configurations and instances empty whatever they held, and filters the two others by the
  marker.
\<close>

theorem rmMigration_order:
  "((ex ''delete from alert_rule'' [] s = (Some err, s1) \<longrightarrow>
       rmMigration_Exec ex s = (Some err, s1)) \<and>
    (ex ''delete from alert_rule'' [] s = (None, s1) \<longrightarrow>
    (ex ''delete from alert_rule_version'' [] s1 = (Some err, s2) \<longrightarrow>
       rmMigration_Exec ex s = (Some err, s2)) \<and>
    (ex ''delete from alert_rule_version'' [] s1 = (None, s2) \<longrightarrow>
    (ex ''delete from dashboard_acl where dashboard_id IN (select id from dashboard where created_by = ?)''
        [FOLDER_CREATED_BY] s2 = (Some err, s3) \<longrightarrow>
       rmMigration_Exec ex s = (Some err, s3)) \<and>
    (ex ''delete from dashboard_acl where dashboard_id IN (select id from dashboard where created_by = ?)''
        [FOLDER_CREATED_BY] s2 = (None, s3) \<longrightarrow>
    (ex ''delete from dashboard where created_by = ?'' [FOLDER_CREATED_BY] s3 = (Some err, s4) \<longrightarrow>
       rmMigration_Exec ex s = (Some err, s4)) \<and>
    (ex ''delete from dashboard where created_by = ?'' [FOLDER_CREATED_BY] s3 = (None, s4) \<longrightarrow>
    (ex ''delete from alert_configuration'' [] s4 = (Some err, s5) \<longrightarrow>
       rmMigration_Exec ex s = (Some err, s5)) \<and>
    (ex ''delete from alert_configuration'' [] s4 = (None, s5) \<longrightarrow>
       rmMigration_Exec ex s = ex ''delete from alert_instance'' [] s5)))))) \<and>
   rmMigration_Exec (recording_Exec fails) tr =
     (map_option (\<lambda>qa. ExternalError (fst qa)) (find (\<lambda>qa. fails (fst qa)) removal_order),
      tr @ take (Suc (length (takeWhile (\<lambda>qa. \<not> fails (fst qa)) removal_order))) removal_order) \<and>
   (\<exists>n. snd (rmMigration_Exec (recording_Exec fails) tr) =
          tr @ take n
            [(''delete from alert_rule'', []),
             (''delete from alert_rule_version'', []),
             (''delete from dashboard_acl where dashboard_id IN (select id from dashboard where created_by = ?)'',
              [FOLDER_CREATED_BY]),
             (''delete from dashboard where created_by = ?'', [FOLDER_CREATED_BY]),
             (''delete from alert_configuration'', []),
             (''delete from alert_instance'', [])] \<and>
        0 < n \<and>
        (fst (rmMigration_Exec (recording_Exec fails) tr) = None \<longrightarrow> n = 6)) \<and>
   (rmMigration_Exec (db_Exec fault) d = (None, d') \<longrightarrow>
      d' = d\<lparr>tbl_alert_rule := [], tbl_alert_rule_version := [],
              tbl_dashboard_acl :=
                filter (\<lambda>a. acl_DashboardId a \<notin> marked_ids d) (tbl_dashboard_acl d),
              tbl_dashboard :=
                filter (\<lambda>x. dash_CreatedBy x \<noteq> FOLDER_CREATED_BY) (tbl_dashboard d),
              tbl_alert_configuration := [], tbl_alert_instance := []\<rparr>)"
  apply (intro conjI impI)
  subgoal by (simp add: rmMigration_Exec_def)
  subgoal by (simp add: rmMigration_Exec_def)
  subgoal by (simp add: rmMigration_Exec_def)
  subgoal by (simp add: rmMigration_Exec_def)
  subgoal by (simp add: rmMigration_Exec_def)
  subgoal by (simp add: rmMigration_Exec_def split: prod.split option.split)
  subgoal unfolding rmMigration_Exec_removal_order by (rule run_recording_exact)
  subgoal
    using run_recording [of fails
            "[(''delete from alert_rule'', []),
             (''delete from alert_rule_version'', []),
             (''delete from dashboard_acl where dashboard_id IN (select id from dashboard where created_by = ?)'',
              [FOLDER_CREATED_BY]),
             (''delete from dashboard where created_by = ?'', [FOLDER_CREATED_BY]),
             (''delete from alert_configuration'', []),
             (''delete from alert_instance'', [])]" tr]
    unfolding rmMigration_Exec_run by (simp del: run_stmts.simps add: eval_nat_numeral)
  subgoal by (rule rollback_success)
  done

theorem rmMigration_order_witness:
  "rmMigration_Exec (recording_Exec (\<lambda>q. False)) [] =
     (None,
      [(''delete from alert_rule'', []),
       (''delete from alert_rule_version'', []),
       (''delete from dashboard_acl where dashboard_id IN (select id from dashboard where created_by = ?)'',
        [- 8]),
       (''delete from dashboard where created_by = ?'', [- 8]),
       (''delete from alert_configuration'', []),
       (''delete from alert_instance'', [])]) \<and>
   rmMigration_Exec (db_Exec (\<lambda>q d. None)) migrated_db =
     (None,
      migrated_db\<lparr>tbl_alert_rule := [], tbl_alert_rule_version := [],
                  tbl_dashboard_acl := [acl12], tbl_dashboard := [f5, d12],
                  tbl_alert_configuration := [], tbl_alert_instance := []\<rparr>) \<and>
   rmMigration_Exec (recording_Exec (\<lambda>q. q = ''delete from alert_rule_version'')) [] =
     (Some (ExternalError ''delete from alert_rule_version''),
      [(''delete from alert_rule'', []), (''delete from alert_rule_version'', [])]) \<and>
   rmMigration_Exec (recording_Exec (\<lambda>q. q = ''delete from dashboard where created_by = ?'')) [] =
     (Some (ExternalError ''delete from dashboard where created_by = ?''),
      [(''delete from alert_rule'', []),
       (''delete from alert_rule_version'', []),
       (''delete from dashboard_acl where dashboard_id IN (select id from dashboard where created_by = ?)'',
        [- 8]),
       (''delete from dashboard where created_by = ?'', [- 8])]) \<and>
   rmMigration_Exec (db_Exec (fault_on ''delete from alert_rule'')) migrated_db =
     (Some (ExternalError ''database is locked''), migrated_db) \<and>
   rmMigration_Exec (db_Exec (fault_on ''delete from alert_rule_version'')) migrated_db =
     (Some (ExternalError ''database is locked''), migrated_db\<lparr>tbl_alert_rule := []\<rparr>) \<and>
   rmMigration_Exec (db_Exec (fault_on ''delete from alert_configuration'')) migrated_db =
     (Some (ExternalError ''database is locked''),
      migrated_db\<lparr>tbl_alert_rule := [], tbl_alert_rule_version := [],
                  tbl_dashboard_acl := [acl12], tbl_dashboard := [f5, d12]\<rparr>)"
proof -
  have none: "fst (rmMigration_Exec (recording_Exec (\<lambda>q. False)) []) = None"
    by (simp add: rmMigration_Exec_def recording_Exec_def)
  have run: "fst (rmMigration_Exec (db_Exec (\<lambda>q d. None)) migrated_db) = None"
    by code_simp
  then have run': "rmMigration_Exec (db_Exec (\<lambda>q d. None)) migrated_db =
      (None, snd (rmMigration_Exec (db_Exec (\<lambda>q d. None)) migrated_db))"
    by (simp add: prod_eq_iff)
  have filters: "filter (\<lambda>a. acl_DashboardId a \<notin> marked_ids migrated_db)
                   (tbl_dashboard_acl migrated_db) = [acl12] \<and>
                 filter (\<lambda>x. dash_CreatedBy x \<noteq> FOLDER_CREATED_BY) (tbl_dashboard migrated_db) =
                   [f5, d12]"
    by code_simp
  note order = rmMigration_order [THEN conjunct2, THEN conjunct2]
  from order [of "\<lambda>q. False" "[]" "\<lambda>q d. None" migrated_db
      "snd (rmMigration_Exec (db_Exec (\<lambda>q d. None)) migrated_db)"] none run'
  obtain n where n:
    "snd (rmMigration_Exec (recording_Exec (\<lambda>q. False)) []) =
       take n
         [(''delete from alert_rule'', []),
          (''delete from alert_rule_version'', []),
          (''delete from dashboard_acl where dashboard_id IN (select id from dashboard where created_by = ?)'',
           [FOLDER_CREATED_BY]),
          (''delete from dashboard where created_by = ?'', [FOLDER_CREATED_BY]),
          (''delete from alert_configuration'', []),
          (''delete from alert_instance'', [])]"
    "n = 6"
    "snd (rmMigration_Exec (db_Exec (\<lambda>q d. None)) migrated_db) =
       migrated_db\<lparr>tbl_alert_rule := [], tbl_alert_rule_version := [],
                   tbl_dashboard_acl :=
                     filter (\<lambda>a. acl_DashboardId a \<notin> marked_ids migrated_db)
                       (tbl_dashboard_acl migrated_db),
                   tbl_dashboard :=
                     filter (\<lambda>x. dash_CreatedBy x \<noteq> FOLDER_CREATED_BY)
                       (tbl_dashboard migrated_db),
                   tbl_alert_configuration := [], tbl_alert_instance := []\<rparr>"
    by auto
  from n(1,2) none
  have 1: "rmMigration_Exec (recording_Exec (\<lambda>q. False)) [] =
     (None,
      [(''delete from alert_rule'', []),
       (''delete from alert_rule_version'', []),
       (''delete from dashboard_acl where dashboard_id IN (select id from dashboard where created_by = ?)'',
        [- 8]),
       (''delete from dashboard where created_by = ?'', [- 8]),
       (''delete from alert_configuration'', []),
       (''delete from alert_instance'', [])])"
    by (simp add: prod_eq_iff FOLDER_CREATED_BY_def)
  from n(3) run filters
  have 2: "rmMigration_Exec (db_Exec (\<lambda>q d. None)) migrated_db =
     (None,
      migrated_db\<lparr>tbl_alert_rule := [], tbl_alert_rule_version := [],
                  tbl_dashboard_acl := [acl12], tbl_dashboard := [f5, d12],
                  tbl_alert_configuration := [], tbl_alert_instance := []\<rparr>)"
    by (simp add: prod_eq_iff)
  note trace = rmMigration_order [THEN conjunct2, THEN conjunct1]
  from trace [of "\<lambda>q. q = ''delete from alert_rule_version''" "[]"]
  have 3: "rmMigration_Exec (recording_Exec (\<lambda>q. q = ''delete from alert_rule_version'')) [] =
     (Some (ExternalError ''delete from alert_rule_version''),
      [(''delete from alert_rule'', []), (''delete from alert_rule_version'', [])])"
    by (simp add: removal_order_def)
  from trace [of "\<lambda>q. q = ''delete from dashboard where created_by = ?''" "[]"]
  have 4: "rmMigration_Exec (recording_Exec (\<lambda>q. q = ''delete from dashboard where created_by = ?'')) [] =
     (Some (ExternalError ''delete from dashboard where created_by = ?''),
      [(''delete from alert_rule'', []),
       (''delete from alert_rule_version'', []),
       (''delete from dashboard_acl where dashboard_id IN (select id from dashboard where created_by = ?)'',
        [- 8]),
       (''delete from dashboard where created_by = ?'', [- 8])])"
    by (simp add: removal_order_def FOLDER_CREATED_BY_def)
  have a1: "db_Exec (fault_on ''delete from alert_rule'') ''delete from alert_rule'' [] migrated_db =
              (Some (ExternalError ''database is locked''), migrated_db)"
    by (simp add: db_Exec_def fault_on_def)
  have 5: "rmMigration_Exec (db_Exec (fault_on ''delete from alert_rule'')) migrated_db =
     (Some (ExternalError ''database is locked''), migrated_db)"
    by (rule rmMigration_order [where ex = "db_Exec (fault_on ''delete from alert_rule'')",
          THEN conjunct1, THEN conjunct1, THEN mp, OF a1])
  have b1: "db_Exec (fault_on ''delete from alert_rule_version'') ''delete from alert_rule'' [] migrated_db =
              (None, migrated_db\<lparr>tbl_alert_rule := []\<rparr>)"
    by (simp add: db_Exec_def fault_on_def)
  have b2: "db_Exec (fault_on ''delete from alert_rule_version'') ''delete from alert_rule_version'' []
              (migrated_db\<lparr>tbl_alert_rule := []\<rparr>) =
              (Some (ExternalError ''database is locked''), migrated_db\<lparr>tbl_alert_rule := []\<rparr>)"
    by (simp add: db_Exec_def fault_on_def)
  have 6: "rmMigration_Exec (db_Exec (fault_on ''delete from alert_rule_version'')) migrated_db =
     (Some (ExternalError ''database is locked''), migrated_db\<lparr>tbl_alert_rule := []\<rparr>)"
    by (rule rmMigration_order [where ex = "db_Exec (fault_on ''delete from alert_rule_version'')",
          THEN conjunct1, THEN conjunct2, THEN mp, OF b1, THEN conjunct1, THEN mp, OF b2])
  have c1: "db_Exec (fault_on ''delete from alert_configuration'') ''delete from alert_rule'' [] migrated_db =
              (None, migrated_db\<lparr>tbl_alert_rule := []\<rparr>)"
    by (simp add: db_Exec_def fault_on_def)
  have c2: "db_Exec (fault_on ''delete from alert_configuration'') ''delete from alert_rule_version'' []
              (migrated_db\<lparr>tbl_alert_rule := []\<rparr>) =
              (None, migrated_db\<lparr>tbl_alert_rule := [], tbl_alert_rule_version := []\<rparr>)"
    by (simp add: db_Exec_def fault_on_def)
  have c3: "db_Exec (fault_on ''delete from alert_configuration'')
              ''delete from dashboard_acl where dashboard_id IN (select id from dashboard where created_by = ?)''
              [FOLDER_CREATED_BY]
              (migrated_db\<lparr>tbl_alert_rule := [], tbl_alert_rule_version := []\<rparr>) =
              (None, migrated_db\<lparr>tbl_alert_rule := [], tbl_alert_rule_version := [],
                                 tbl_dashboard_acl := [acl12]\<rparr>)"
    by code_simp
  have c4: "db_Exec (fault_on ''delete from alert_configuration'')
              ''delete from dashboard where created_by = ?'' [FOLDER_CREATED_BY]
              (migrated_db\<lparr>tbl_alert_rule := [], tbl_alert_rule_version := [],
                          tbl_dashboard_acl := [acl12]\<rparr>) =
              (None, migrated_db\<lparr>tbl_alert_rule := [], tbl_alert_rule_version := [],
                                 tbl_dashboard_acl := [acl12], tbl_dashboard := [f5, d12]\<rparr>)"
    by code_simp
  have c5: "db_Exec (fault_on ''delete from alert_configuration'') ''delete from alert_configuration'' []
              (migrated_db\<lparr>tbl_alert_rule := [], tbl_alert_rule_version := [],
                          tbl_dashboard_acl := [acl12], tbl_dashboard := [f5, d12]\<rparr>) =
              (Some (ExternalError ''database is locked''),
               migrated_db\<lparr>tbl_alert_rule := [], tbl_alert_rule_version := [],
                           tbl_dashboard_acl := [acl12], tbl_dashboard := [f5, d12]\<rparr>)"
    by (simp add: db_Exec_def fault_on_def)
  have 7: "rmMigration_Exec (db_Exec (fault_on ''delete from alert_configuration'')) migrated_db =
     (Some (ExternalError ''database is locked''),
      migrated_db\<lparr>tbl_alert_rule := [], tbl_alert_rule_version := [],
                  tbl_dashboard_acl := [acl12], tbl_dashboard := [f5, d12]\<rparr>)"
    by (rule rmMigration_order [where ex = "db_Exec (fault_on ''delete from alert_configuration'')",
          THEN conjunct1, THEN conjunct2, THEN mp, OF c1, THEN conjunct2, THEN mp, OF c2,
          THEN conjunct2, THEN mp, OF c3, THEN conjunct2, THEN mp, OF c4,
          THEN conjunct1, THEN mp, OF c5])
  from 1 2 3 4 5 6 7 show ?thesis by (intro conjI)
qed

text \<open>
  The order of the claim as it was stated, rule versions before rules, is not the order
  of the code: a store that fails on the second statement has lost its rules and kept
  their versions.
\<close>

theorem rmMigration_order_counterexample:
  "snd (rmMigration_Exec (recording_Exec (\<lambda>q. False)) []) \<noteq>
     [(''delete from alert_rule_version'', []),
      (''delete from alert_rule'', []),
      (''delete from dashboard_acl where dashboard_id IN (select id from dashboard where created_by = ?)'',
       [- 8]),
      (''delete from dashboard where created_by = ?'', [- 8]),
      (''delete from alert_configuration'', []),
      (''delete from alert_instance'', [])] \<and>
   tbl_alert_rule (snd (rmMigration_Exec (db_Exec (fault_on ''delete from alert_rule_version'')) migrated_db)) = [] \<and>
   tbl_alert_rule_version (snd (rmMigration_Exec (db_Exec (fault_on ''delete from alert_rule_version'')) migrated_db))
     = [db_makeVersion rule4]"
  by (simp add: rmMigration_Exec_def recording_Exec_def db_Exec_def fault_on_def migrated_db_def)

text \<open>
  Claim C6. Whatever statement fails, the removal migration leaves every dashboard row
  whose creator is not the marker in the table, in its place, and adds no row; it leaves
  every ACL entry whose dashboard is not a row with the marker. When it succeeds, the
  rows it removed from the two tables are exactly those.
\<close>

theorem rollback_frame:
  assumes "rmMigration_Exec (db_Exec fault) d = (r, d')"
  shows "filter (\<lambda>x. dash_CreatedBy x \<noteq> FOLDER_CREATED_BY) (tbl_dashboard d') =
           filter (\<lambda>x. dash_CreatedBy x \<noteq> FOLDER_CREATED_BY) (tbl_dashboard d) \<and>
         set (tbl_dashboard d') \<subseteq> set (tbl_dashboard d) \<and>
         (\<forall>x \<in> set (tbl_dashboard d).
            dash_CreatedBy x \<noteq> FOLDER_CREATED_BY \<longrightarrow> x \<in> set (tbl_dashboard d')) \<and>
         filter (\<lambda>a. acl_DashboardId a \<notin> marked_ids d) (tbl_dashboard_acl d') =
           filter (\<lambda>a. acl_DashboardId a \<notin> marked_ids d) (tbl_dashboard_acl d) \<and>
         set (tbl_dashboard_acl d') \<subseteq> set (tbl_dashboard_acl d) \<and>
         (\<forall>a \<in> set (tbl_dashboard_acl d).
            acl_DashboardId a \<notin> marked_ids d \<longrightarrow> a \<in> set (tbl_dashboard_acl d')) \<and>
         (r = None \<longrightarrow>
            tbl_dashboard d' =
              filter (\<lambda>x. dash_CreatedBy x \<noteq> FOLDER_CREATED_BY) (tbl_dashboard d) \<and>
            tbl_dashboard_acl d' =
              filter (\<lambda>a. acl_DashboardId a \<notin> marked_ids d) (tbl_dashboard_acl d))"
proof -
  from rollback_tables [OF assms]
  have dash: "tbl_dashboard d' = tbl_dashboard d \<or>
          tbl_dashboard d' =
            filter (\<lambda>x. dash_CreatedBy x \<noteq> FOLDER_CREATED_BY) (tbl_dashboard d)"
    and acl: "tbl_dashboard_acl d' = tbl_dashboard_acl d \<or>
          tbl_dashboard_acl d' =
            filter (\<lambda>a. acl_DashboardId a \<notin> marked_ids d) (tbl_dashboard_acl d)"
    by simp_all
  have 1: "filter (\<lambda>x. dash_CreatedBy x \<noteq> FOLDER_CREATED_BY) (tbl_dashboard d') =
           filter (\<lambda>x. dash_CreatedBy x \<noteq> FOLDER_CREATED_BY) (tbl_dashboard d)"
    using dash by auto
  have 2: "set (tbl_dashboard d') \<subseteq> set (tbl_dashboard d)"
    using dash by auto
  have 3: "\<forall>x \<in> set (tbl_dashboard d).
            dash_CreatedBy x \<noteq> FOLDER_CREATED_BY \<longrightarrow> x \<in> set (tbl_dashboard d')"
    using dash by auto
  have 4: "filter (\<lambda>a. acl_DashboardId a \<notin> marked_ids d) (tbl_dashboard_acl d') =
           filter (\<lambda>a. acl_DashboardId a \<notin> marked_ids d) (tbl_dashboard_acl d)"
    using acl by auto
  have 5: "set (tbl_dashboard_acl d') \<subseteq> set (tbl_dashboard_acl d)"
    using acl by auto
  have 6: "\<forall>a \<in> set (tbl_dashboard_acl d).
            acl_DashboardId a \<notin> marked_ids d \<longrightarrow> a \<in> set (tbl_dashboard_acl d')"
    using acl by auto
  have 7: "r = None \<longrightarrow>
            tbl_dashboard d' =
              filter (\<lambda>x. dash_CreatedBy x \<noteq> FOLDER_CREATED_BY) (tbl_dashboard d) \<and>
            tbl_dashboard_acl d' =
              filter (\<lambda>a. acl_DashboardId a \<notin> marked_ids d) (tbl_dashboard_acl d)"
  proof
    assume "r = None"
    with assms have "rmMigration_Exec (db_Exec fault) d = (None, d')" by simp
    from rollback_success [OF this] show "tbl_dashboard d' =
              filter (\<lambda>x. dash_CreatedBy x \<noteq> FOLDER_CREATED_BY) (tbl_dashboard d) \<and>
            tbl_dashboard_acl d' =
              filter (\<lambda>a. acl_DashboardId a \<notin> marked_ids d) (tbl_dashboard_acl d)"
      by simp
  qed
  from 1 2 3 4 5 6 7 show ?thesis by (intro conjI)
qed

theorem rollback_frame_witness:
  "rmMigration_Exec (db_Exec (\<lambda>q d. None)) migrated_db =
     (None, migrated_db\<lparr>tbl_dashboard := [f5, d12], tbl_dashboard_acl := [acl12],
                tbl_alert_rule := [], tbl_alert_rule_version := [],
                tbl_alert_configuration := [], tbl_alert_instance := []\<rparr>) \<and>
   filter (\<lambda>x. dash_CreatedBy x \<noteq> FOLDER_CREATED_BY)
      (tbl_dashboard (snd (rmMigration_Exec (db_Exec (\<lambda>q d. None)) migrated_db))) = [f5, d12]"
proof -
  have run: "rmMigration_Exec (db_Exec (\<lambda>q d. None)) migrated_db =
     (None, migrated_db\<lparr>tbl_dashboard := [f5, d12], tbl_dashboard_acl := [acl12],
                tbl_alert_rule := [], tbl_alert_rule_version := [],
                tbl_alert_configuration := [], tbl_alert_instance := []\<rparr>)"
    by code_simp
  from rollback_frame [OF run] show ?thesis
    by (simp add: run)
qed

subsection \<open>Forward migration\<close>

lemma getDashboard_Inl:
  assumes "getDashboard m da s = (Inl e, s')"
  shows "\<exists>f args c. e = MigrationError (alert_Id da) (Errorf f args c)"
  using assms
  by (auto simp add: getDashboard_def split: prod.splits sum.splits option.splits)

lemma getFolder_Inl:
  assumes "getFolder m da dash s = (Inl e, s')"
  shows "\<exists>f args c. e = MigrationError (alert_Id da) (Errorf f args c)"
  using assms
  by (auto simp add: getFolder_def split: prod.splits sum.splits option.splits if_splits)

lemma switchFolder_Inl:
  assumes "switchFolder m da dash folder s = (Inl e, s')"
  shows "\<exists>f args c. e = MigrationError (alert_Id da) (Errorf f args c)"
  using assms
  by (auto simp add: switchFolder_def split: prod.splits sum.splits option.splits if_splits)

lemma insertRule_Inl:
  assumes "insertRule m rule s = (Inl e, s')"
  shows "\<exists>r st. sess_Insert_rule m r st = (Some e, s')"
  using assms
  by (auto simp add: insertRule_def Let_def split: prod.splits option.splits)

lemma insertRule_Inr:
  assumes "insertRule m rule s = (Inr rule', s')"
  shows "\<exists>st. sess_Insert_rule m rule' st = (None, s') \<and>
           (rule' = rule \<or>
            rule' = rule\<lparr>rule_Title := rule_Title rule @ '' '' @ rule_Uid rule,
                          rule_RuleGroup := rule_RuleGroup rule @ '' '' @ rule_Uid rule\<rparr>)"
  using assms
  by (auto simp add: insertRule_def Let_def split: prod.splits option.splits)

lemma persistRule_Some:
  assumes "persistRule m newCond da folder s = (Some e, s')"
  shows "(\<exists>f args c. e = MigrationError (alert_Id da) (Errorf f args c)) \<or>
         (\<exists>st. makeAlertRule m newCond da (dash_Uid folder) st = (Inl e, s')) \<or>
         (\<exists>r st. sess_Insert_rule m r st = (Some e, s')) \<or>
         (\<exists>v st. sess_Insert_version m v st = (Some e, s'))"
proof (cases "dash_Uid folder = []")
  case True
  with assms show ?thesis by (auto simp add: persistRule_def)
next
  case False
  show ?thesis
  proof (cases "makeAlertRule m newCond da (dash_Uid folder) s")
    case (Pair res s1)
    show ?thesis
    proof (cases res)
      case (Inl err)
      with assms False Pair show ?thesis by (auto simp add: persistRule_def)
    next
      case (Inr rule)
      show ?thesis
      proof (cases "insertRule m rule s1")
        case ir: (Pair res2 s2)
        show ?thesis
        proof (cases res2)
          case (Inl err)
          with assms False Pair Inr ir have "insertRule m rule s1 = (Inl e, s')"
            by (auto simp add: persistRule_def)
          from insertRule_Inl [OF this] show ?thesis by blast
        next
          case inner: (Inr rule')
          with assms False Pair Inr ir
          have "sess_Insert_version m (makeVersion m rule') s2 = (Some e, s')"
            by (auto simp add: persistRule_def)
          then show ?thesis by blast
        qed
      qed
    qed
  qed
qed

lemma persistRule_None:
  assumes "persistRule m newCond da folder s = (None, s')"
  shows "\<exists>r s1 rule sa sb.
           dash_Uid folder \<noteq> [] \<and>
           makeAlertRule m newCond da (dash_Uid folder) s = (Inr r, s1) \<and>
           (rule = r \<or>
            rule = r\<lparr>rule_Title := rule_Title r @ '' '' @ rule_Uid r,
                      rule_RuleGroup := rule_RuleGroup r @ '' '' @ rule_Uid r\<rparr>) \<and>
           sess_Insert_rule m rule sa = (None, sb) \<and>
           sess_Insert_version m (makeVersion m rule) sb = (None, s')"
proof -
  from assms have uid: "dash_Uid folder \<noteq> []"
    by (auto simp add: persistRule_def split: if_splits)
  obtain res s1 where mk: "makeAlertRule m newCond da (dash_Uid folder) s = (res, s1)"
    by (cases "makeAlertRule m newCond da (dash_Uid folder) s")
  with assms uid obtain r where r: "res = Inr r"
    by (cases res) (auto simp add: persistRule_def)
  obtain res2 s2 where ir: "insertRule m r s1 = (res2, s2)"
    by (cases "insertRule m r s1")
  with assms uid mk r obtain rule where rule: "res2 = Inr rule"
    by (cases res2) (auto simp add: persistRule_def)
  from assms uid mk r ir rule
  have ver: "sess_Insert_version m (makeVersion m rule) s2 = (None, s')"
    by (simp add: persistRule_def)
  from insertRule_Inr [of m r s1 rule s2] ir rule obtain sa where
    sa: "sess_Insert_rule m rule sa = (None, s2)"
      "rule = r \<or> rule = r\<lparr>rule_Title := rule_Title r @ '' '' @ rule_Uid r,
                      rule_RuleGroup := rule_RuleGroup r @ '' '' @ rule_Uid r\<rparr>"
    by auto
  from uid mk r sa ver show ?thesis by blast
qed

lemma alert_Id_resolve [simp]: "alert_Id (resolveDashboardUID dashIDMap da) = alert_Id da"
  by (simp add: resolveDashboardUID_def)

lemma migrateAlert_steps:
  assumes "transConditions m (alert_ParsedSettings da) (alert_OrgId da) dsIDMap = Inr newCond"
    and "getDashboard m (resolveDashboardUID dashIDMap da) s = (Inr dash, s1)"
    and "getFolder m (resolveDashboardUID dashIDMap da) dash s1 = (Inr folder, s2)"
    and "switchFolder m (resolveDashboardUID dashIDMap da) dash folder s2 = (Inr folder', s3)"
  shows "migrateAlert m dsIDMap dashIDMap da s =
           persistRule m newCond (resolveDashboardUID dashIDMap da) folder' s3"
  using assms by (simp add: migrateAlert_def)

lemma migrateAlert_cases:
  obtains
    (trans) e where "transConditions m (alert_ParsedSettings da) (alert_OrgId da) dsIDMap = Inl e"
      "migrateAlert m dsIDMap dashIDMap da s = (Some e, s)"
  | (dashboard) newCond e s1 where
      "transConditions m (alert_ParsedSettings da) (alert_OrgId da) dsIDMap = Inr newCond"
      "getDashboard m (resolveDashboardUID dashIDMap da) s = (Inl e, s1)"
      "migrateAlert m dsIDMap dashIDMap da s = (Some e, s1)"
  | (folder) newCond dash s1 e s2 where
      "transConditions m (alert_ParsedSettings da) (alert_OrgId da) dsIDMap = Inr newCond"
      "getDashboard m (resolveDashboardUID dashIDMap da) s = (Inr dash, s1)"
      "getFolder m (resolveDashboardUID dashIDMap da) dash s1 = (Inl e, s2)"
      "migrateAlert m dsIDMap dashIDMap da s = (Some e, s2)"
  | (switch) newCond dash s1 folder s2 e s3 where
      "transConditions m (alert_ParsedSettings da) (alert_OrgId da) dsIDMap = Inr newCond"
      "getDashboard m (resolveDashboardUID dashIDMap da) s = (Inr dash, s1)"
      "getFolder m (resolveDashboardUID dashIDMap da) dash s1 = (Inr folder, s2)"
      "switchFolder m (resolveDashboardUID dashIDMap da) dash folder s2 = (Inl e, s3)"
      "migrateAlert m dsIDMap dashIDMap da s = (Some e, s3)"
  | (persist) newCond dash s1 folder s2 folder' s3 where
      "transConditions m (alert_ParsedSettings da) (alert_OrgId da) dsIDMap = Inr newCond"
      "getDashboard m (resolveDashboardUID dashIDMap da) s = (Inr dash, s1)"
      "getFolder m (resolveDashboardUID dashIDMap da) dash s1 = (Inr folder, s2)"
      "switchFolder m (resolveDashboardUID dashIDMap da) dash folder s2 = (Inr folder', s3)"
      "migrateAlert m dsIDMap dashIDMap da s =
         persistRule m newCond (resolveDashboardUID dashIDMap da) folder' s3"
proof (cases "transConditions m (alert_ParsedSettings da) (alert_OrgId da) dsIDMap")
  case (Inl e)
  then show ?thesis using trans by (simp add: migrateAlert_def)
next
  case tc: (Inr newCond)
  obtain rd s1 where gd: "getDashboard m (resolveDashboardUID dashIDMap da) s = (rd, s1)"
    by (cases "getDashboard m (resolveDashboardUID dashIDMap da) s")
  show ?thesis
  proof (cases rd)
    case (Inl e)
    with tc gd show ?thesis using dashboard by (simp add: migrateAlert_def)
  next
    case d: (Inr dash)
    obtain rf s2 where gf: "getFolder m (resolveDashboardUID dashIDMap da) dash s1 = (rf, s2)"
      by (cases "getFolder m (resolveDashboardUID dashIDMap da) dash s1")
    show ?thesis
    proof (cases rf)
      case (Inl e)
      with tc gd d gf show ?thesis using folder by (simp add: migrateAlert_def)
    next
      case f: (Inr fo)
      obtain rs s3 where
        sw: "switchFolder m (resolveDashboardUID dashIDMap da) dash fo s2 = (rs, s3)"
        by (cases "switchFolder m (resolveDashboardUID dashIDMap da) dash fo s2")
      show ?thesis
      proof (cases rs)
        case (Inl e)
        with tc gd d gf f sw show ?thesis using switch by (simp add: migrateAlert_def)
      next
        case (Inr fo')
        with tc gd d gf f sw show ?thesis using persist by (simp add: migrateAlert_def)
      qed
    qed
  qed
qed

lemma migrateAlert_Some:
  assumes "migrateAlert m dsIDMap dashIDMap da s = (Some e, s')"
  shows "(\<exists>f args c. e = MigrationError (alert_Id da) (Errorf f args c)) \<or>
         transConditions m (alert_ParsedSettings da) (alert_OrgId da) dsIDMap = Inl e \<or>
         (\<exists>c u st. makeAlertRule m c (resolveDashboardUID dashIDMap da) u st = (Inl e, s')) \<or>
         (\<exists>r st. sess_Insert_rule m r st = (Some e, s')) \<or>
         (\<exists>v st. sess_Insert_version m v st = (Some e, s'))"
proof (cases rule: migrateAlert_cases [of m da dsIDMap dashIDMap s])
  case (trans e')
  with assms show ?thesis by simp
next
  case (dashboard newCond e' s1)
  with assms have "getDashboard m (resolveDashboardUID dashIDMap da) s = (Inl e, s1)" by simp
  from getDashboard_Inl [OF this] show ?thesis by simp
next
  case (folder newCond dash s1 e' s2)
  with assms have "getFolder m (resolveDashboardUID dashIDMap da) dash s1 = (Inl e, s2)" by simp
  from getFolder_Inl [OF this] show ?thesis by simp
next
  case (switch newCond dash s1 folder s2 e' s3)
  with assms have "switchFolder m (resolveDashboardUID dashIDMap da) dash folder s2 = (Inl e, s3)"
    by simp
  from switchFolder_Inl [OF this] show ?thesis by simp
next
  case (persist newCond dash s1 folder s2 folder' s3)
  with assms have "persistRule m newCond (resolveDashboardUID dashIDMap da) folder' s3 = (Some e, s')"
    by simp
  from persistRule_Some [OF this] show ?thesis by auto
qed

lemma migrateAlert_None:
  assumes "migrateAlert m dsIDMap dashIDMap da s = (None, s')"
  shows "\<exists>newCond dash s1 folder s2 folder' s3 r s4 rule sa sb.
           transConditions m (alert_ParsedSettings da) (alert_OrgId da) dsIDMap = Inr newCond \<and>
           getDashboard m (resolveDashboardUID dashIDMap da) s = (Inr dash, s1) \<and>
           getFolder m (resolveDashboardUID dashIDMap da) dash s1 = (Inr folder, s2) \<and>
           switchFolder m (resolveDashboardUID dashIDMap da) dash folder s2 = (Inr folder', s3) \<and>
           dash_Uid folder' \<noteq> [] \<and>
           makeAlertRule m newCond (resolveDashboardUID dashIDMap da) (dash_Uid folder') s3 =
             (Inr r, s4) \<and>
           (rule = r \<or>
            rule = r\<lparr>rule_Title := rule_Title r @ '' '' @ rule_Uid r,
                      rule_RuleGroup := rule_RuleGroup r @ '' '' @ rule_Uid r\<rparr>) \<and>
           sess_Insert_rule m rule sa = (None, sb) \<and>
           sess_Insert_version m (makeVersion m rule) sb = (None, s')"
proof (cases rule: migrateAlert_cases [of m da dsIDMap dashIDMap s])
  case (persist newCond dash s1 folder s2 folder' s3)
  with assms have "persistRule m newCond (resolveDashboardUID dashIDMap da) folder' s3 = (None, s')"
    by simp
  from persistRule_None [OF this] persist(1-4) show ?thesis by blast
qed (use assms in simp_all)

lemma migrateAlerts_Some:
  assumes "migrateAlerts m dsIDMap dashIDMap das s = (Some e, s')"
  shows "\<exists>pre da post s1.
           das = pre @ da # post \<and>
           migrateAlerts m dsIDMap dashIDMap pre s = (None, s1) \<and>
           migrateAlert m dsIDMap dashIDMap da s1 = (Some e, s')"
  using assms
proof (induction das arbitrary: s)
  case Nil
  then show ?case by simp
next
  case (Cons a das)
  obtain r s1 where a: "migrateAlert m dsIDMap dashIDMap a s = (r, s1)"
    by (cases "migrateAlert m dsIDMap dashIDMap a s")
  show ?case
  proof (cases r)
    case None
    with Cons.prems a have "migrateAlerts m dsIDMap dashIDMap das s1 = (Some e, s')" by simp
    from Cons.IH [OF this] obtain pre da post s2 where
      IH: "das = pre @ da # post" "migrateAlerts m dsIDMap dashIDMap pre s1 = (None, s2)"
        "migrateAlert m dsIDMap dashIDMap da s2 = (Some e, s')"
      by (elim exE conjE)
    from IH a None have "a # das = (a # pre) @ da # post \<and>
        migrateAlerts m dsIDMap dashIDMap (a # pre) s = (None, s2) \<and>
        migrateAlert m dsIDMap dashIDMap da s2 = (Some e, s')"
      by simp
    then show ?thesis by (intro exI)
  next
    case (Some e')
    with Cons.prems a have "a # das = [] @ a # das \<and>
        migrateAlerts m dsIDMap dashIDMap [] s = (None, s) \<and>
        migrateAlert m dsIDMap dashIDMap a s = (Some e, s')"
      by simp
    then show ?thesis by (intro exI)
  qed
qed

lemma migrateAlerts_append_Some:
  assumes "migrateAlerts m dsIDMap dashIDMap pre s = (None, s1)"
    and "migrateAlert m dsIDMap dashIDMap da s1 = (Some e, s')"
  shows "migrateAlerts m dsIDMap dashIDMap (pre @ da # post) s = (Some e, s')"
  using assms
proof (induction pre arbitrary: s)
  case Nil
  then show ?case by simp
next
  case (Cons a pre)
  then show ?case by (auto split: prod.splits option.splits)
qed

lemma Exec_loop:
  assumes "slurpDashAlerts m s = (Inr dashAlerts, s1)"
    and "slurpDSIDs m s1 = (Inr dsIDMap, s2)"
    and "slurpDashUIDs m s2 = (Inr dashIDMap, s3)"
  shows "Exec m s = migrateAlerts m dsIDMap dashIDMap dashAlerts s3"
  using assms by (simp add: Exec_def)


subsection \<open>Forward migration on the relational store\<close>

lemma db_migration_simps:
  "slurpDashAlerts db_migration = db_slurpDashAlerts"
  "slurpDSIDs db_migration = db_slurpDSIDs"
  "slurpDashUIDs db_migration = db_slurpDashUIDs"
  "transConditions db_migration = db_transConditions"
  "getMigrationString db_migration = db_getMigrationString"
  "sess_Get_dashboard db_migration = db_Get_dashboard"
  "sess_Get_folder db_migration = db_Get_folder"
  "createFolder db_migration = db_createFolder"
  "getACL db_migration = db_getACL"
  "setACL db_migration = db_setACL"
  "getOrCreateGeneralFolder db_migration = db_getOrCreateGeneralFolder"
  "makeAlertRule db_migration = db_makeAlertRule"
  "makeVersion db_migration = db_makeVersion"
  "sess_Insert_rule db_migration = db_Insert_rule"
  "sess_Insert_version db_migration = db_Insert_version"
  by (simp_all add: db_migration_def)

lemma db_getDashboard_state:
  "getDashboard db_migration da d = (r, d') \<Longrightarrow> d' = d"
  by (auto simp add: getDashboard_def db_migration_simps db_Get_dashboard_def split: option.splits)

lemma db_getFolder_state:
  "getFolder db_migration da dash d = (r, d') \<Longrightarrow> d' = d"
  by (auto simp add: getFolder_def db_migration_simps db_Get_folder_def
      split: option.splits if_splits)

lemma db_switchFolder_rules:
  "switchFolder db_migration da dash folder d = (r, d') \<Longrightarrow>
     tbl_alert_rule d' = tbl_alert_rule d \<and> tbl_alert_rule_version d' = tbl_alert_rule_version d"
  by (auto simp add: switchFolder_def db_migration_simps db_createFolder_def db_getACL_def
        db_setACL_def db_getOrCreateGeneralFolder_def Let_def
      split: option.splits if_splits)

lemma db_insertRule_rules:
  "insertRule db_migration rule d = (Inr rule', d') \<Longrightarrow>
     d' = d\<lparr>tbl_alert_rule := tbl_alert_rule d @ [rule']\<rparr>"
  by (auto simp add: insertRule_def db_migration_simps db_Insert_rule_def Let_def
      split: if_splits)

lemma db_persistRule_rules:
  assumes "persistRule db_migration newCond da folder d = (None, d')"
  shows "\<exists>rule. rule_NamespaceUID rule \<noteq> [] \<and>
           tbl_alert_rule d' = tbl_alert_rule d @ [rule] \<and>
           tbl_alert_rule_version d' = tbl_alert_rule_version d @ [db_makeVersion rule]"
proof -
  from assms have uid: "dash_Uid folder \<noteq> []"
    by (auto simp add: persistRule_def split: if_splits)
  obtain r d1 where mk: "db_makeAlertRule newCond da (dash_Uid folder) d = (Inr r, d1)"
    and d1: "d1 = d\<lparr>uid_counter := Suc (uid_counter d)\<rparr>"
    and ns: "rule_NamespaceUID r = dash_Uid folder"
    by (simp add: db_makeAlertRule_def)
  obtain res d2 where ir: "insertRule db_migration r d1 = (res, d2)"
    by (cases "insertRule db_migration r d1")
  with assms uid mk obtain rule where rule: "res = Inr rule"
    by (cases res) (auto simp add: persistRule_def db_migration_simps)
  from db_insertRule_rules [of r d1 rule d2] ir rule
  have d2: "d2 = d1\<lparr>tbl_alert_rule := tbl_alert_rule d1 @ [rule]\<rparr>" by simp
  from insertRule_Inr [of db_migration r d1 rule d2] ir rule
  have "rule = r \<or>
        rule = r\<lparr>rule_Title := rule_Title r @ '' '' @ rule_Uid r,
                  rule_RuleGroup := rule_RuleGroup r @ '' '' @ rule_Uid r\<rparr>"
    by simp
  with ns uid have nonempty: "rule_NamespaceUID rule \<noteq> []" by auto
  from assms uid mk ir rule have "db_Insert_version (db_makeVersion rule) d2 = (None, d')"
    by (simp add: persistRule_def db_migration_simps)
  then have "d' = d2\<lparr>tbl_alert_rule_version := tbl_alert_rule_version d2 @ [db_makeVersion rule]\<rparr>"
    by (simp add: db_Insert_version_def)
  with d1 d2 nonempty have "rule_NamespaceUID rule \<noteq> [] \<and>
           tbl_alert_rule d' = tbl_alert_rule d @ [rule] \<and>
           tbl_alert_rule_version d' = tbl_alert_rule_version d @ [db_makeVersion rule]"
    by simp
  then show ?thesis by (rule exI)
qed

lemma db_migrateAlert_rules:
  assumes "migrateAlert db_migration dsIDMap dashIDMap da d = (None, d')"
  shows "\<exists>rule. rule_NamespaceUID rule \<noteq> [] \<and>
           tbl_alert_rule d' = tbl_alert_rule d @ [rule] \<and>
           tbl_alert_rule_version d' = tbl_alert_rule_version d @ [db_makeVersion rule]"
proof (cases rule: migrateAlert_cases [of db_migration da dsIDMap dashIDMap d])
  case (persist newCond dash s1 folder s2 folder' s3)
  from persist(2) have s1: "s1 = d" by (rule db_getDashboard_state)
  from persist(3) have s2: "s2 = d" unfolding s1 by (rule db_getFolder_state)
  from db_switchFolder_rules [OF persist(4)] s2
  have s3: "tbl_alert_rule s3 = tbl_alert_rule d"
    "tbl_alert_rule_version s3 = tbl_alert_rule_version d"
    by simp_all
  from persist(5) assms
  have "persistRule db_migration newCond (resolveDashboardUID dashIDMap da) folder' s3 = (None, d')"
    by simp
  from db_persistRule_rules [OF this] s3 show ?thesis by simp
qed (use assms in simp_all)

lemma db_migrateAlerts_rules:
  assumes "migrateAlerts db_migration dsIDMap dashIDMap das d = (None, d')"
  shows "\<exists>rules. length rules = length das \<and>
           (\<forall>x \<in> set rules. rule_NamespaceUID x \<noteq> []) \<and>
           tbl_alert_rule d' = tbl_alert_rule d @ rules \<and>
           tbl_alert_rule_version d' = tbl_alert_rule_version d @ map db_makeVersion rules"
  using assms
proof (induction das arbitrary: d)
  case Nil
  then show ?case by simp
next
  case (Cons a das)
  obtain r d1 where a: "migrateAlert db_migration dsIDMap dashIDMap a d = (r, d1)"
    by (cases "migrateAlert db_migration dsIDMap dashIDMap a d")
  with Cons.prems have r: "r = None" by (cases r) simp_all
  from db_migrateAlert_rules [of dsIDMap dashIDMap a d d1] a r obtain rule where
    rule: "rule_NamespaceUID rule \<noteq> []"
      "tbl_alert_rule d1 = tbl_alert_rule d @ [rule]"
      "tbl_alert_rule_version d1 = tbl_alert_rule_version d @ [db_makeVersion rule]"
    by auto
  from Cons.prems a r have "migrateAlerts db_migration dsIDMap dashIDMap das d1 = (None, d')"
    by simp
  from Cons.IH [OF this] obtain rules where
    rules: "length rules = length das" "\<forall>x \<in> set rules. rule_NamespaceUID x \<noteq> []"
      "tbl_alert_rule d' = tbl_alert_rule d1 @ rules"
      "tbl_alert_rule_version d' = tbl_alert_rule_version d1 @ map db_makeVersion rules"
    by (elim exE conjE)
  from rule rules have "length (rule # rules) = length (a # das) \<and>
           (\<forall>x \<in> set (rule # rules). rule_NamespaceUID x \<noteq> []) \<and>
           tbl_alert_rule d' = tbl_alert_rule d @ (rule # rules) \<and>
           tbl_alert_rule_version d' = tbl_alert_rule_version d @ map db_makeVersion (rule # rules)"
    by simp
  then show ?case by (rule exI)
qed

lemma db_Exec_rules:
  assumes "Exec db_migration d = (None, d')"
  shows "\<exists>rules. length rules = length (tbl_alert d) \<and>
           (\<forall>x \<in> set rules. rule_NamespaceUID x \<noteq> []) \<and>
           tbl_alert_rule d' = tbl_alert_rule d @ rules \<and>
           tbl_alert_rule_version d' = tbl_alert_rule_version d @ map db_makeVersion rules"
proof -
  from assms obtain dsIDMap dashIDMap where
    "migrateAlerts db_migration dsIDMap dashIDMap (tbl_alert d) d = (None, d')"
    by (simp add: Exec_def db_migration_simps db_slurpDashAlerts_def db_slurpDSIDs_def
          db_slurpDashUIDs_def)
  then show ?thesis by (rule db_migrateAlerts_rules)
qed

lemma find_snoc:
  "find P (xs @ [x]) = (case find P xs of Some y \<Rightarrow> Some y | None \<Rightarrow> if P x then Some x else None)"
  by (induction xs) auto

lemma db_general_folder_once:
  assumes "db_getOrCreateGeneralFolder org d = (Inr g, d1)"
  shows "db_getOrCreateGeneralFolder org d1 = (Inr g, d1)"
proof (cases "find (\<lambda>r. dash_OrgId r = org \<and> dash_Title r = GENERAL_FOLDER) (tbl_dashboard d)")
  case None
  with assms show ?thesis
    by (auto simp add: db_getOrCreateGeneralFolder_def db_createFolder_def Let_def find_snoc)
next
  case (Some a)
  with assms show ?thesis
    by (auto simp add: db_getOrCreateGeneralFolder_def)
qed

lemma db_general_folder_count:
  assumes "db_getOrCreateGeneralFolder org d = (Inr g, d1)"
  shows "length (filter (\<lambda>r. dash_OrgId r = org \<and> dash_Title r = GENERAL_FOLDER) (tbl_dashboard d1)) =
         max 1 (length (filter (\<lambda>r. dash_OrgId r = org \<and> dash_Title r = GENERAL_FOLDER) (tbl_dashboard d)))"
proof (cases "find (\<lambda>r. dash_OrgId r = org \<and> dash_Title r = GENERAL_FOLDER) (tbl_dashboard d)")
  case None
  then have "filter (\<lambda>r. dash_OrgId r = org \<and> dash_Title r = GENERAL_FOLDER) (tbl_dashboard d) = []"
    by (simp add: find_None_iff filter_empty_conv)
  with None assms show ?thesis
    by (auto simp add: db_getOrCreateGeneralFolder_def db_createFolder_def Let_def)
next
  case (Some a)
  then have "a \<in> set (filter (\<lambda>r. dash_OrgId r = org \<and> dash_Title r = GENERAL_FOLDER) (tbl_dashboard d))"
    by (auto simp add: find_Some_iff)
  then have "0 < length (filter (\<lambda>r. dash_OrgId r = org \<and> dash_Title r = GENERAL_FOLDER) (tbl_dashboard d))"
    by (metis length_pos_if_in_set)
  moreover from Some assms have "d1 = d"
    by (auto simp add: db_getOrCreateGeneralFolder_def)
  ultimately show ?thesis
    by (simp add: max_def Suc_le_eq)
qed

subsection \<open>The claims about the forward migration\<close>

text \<open>
  Claim C1. The switch of \<open>Exec\<close> chooses the folder of the rule in this order. If the
  dashboard has \<open>HasAcl\<close>, a folder named \<open>Migrated\<close> and the migration string of the
  alert is created in the dashboard's organisation, the permissions that \<open>getACL\<close>
  returns for the dashboard are handed to \<open>setACL\<close> for the new folder as they are, and
  the new folder is used, whatever \<open>FolderId\<close> is. Otherwise, if \<open>FolderId\<close> is positive,
  the parent folder is used and the session is not touched; that folder is the row the
  lookup by id returned. Otherwise the folder that \<open>getOrCreateGeneralFolder\<close> returns
  for the organisation is used and nothing else is done. The rule of a migrated alert is
  made with the UID of the folder so chosen. On the store of the spec,
  \<open>getOrCreateGeneralFolder\<close> creates a folder only when the organisation has none:
  a second call returns the same folder and leaves the store as it is.
\<close>

theorem folder_precedence:
  "(dash_HasAcl dash \<and>
    createFolder m (dash_OrgId dash) (''Migrated '' @ getMigrationString m da) s = (Inr new, s1) \<and>
    getACL m (dash_OrgId dash) (dash_Id dash) s1 = (Inr permissions, s2) \<and>
    setACL m (dash_OrgId new) (dash_Id new) permissions s2 = (None, s3)
    \<longrightarrow> switchFolder m da dash folder s = (Inr new, s3)) \<and>
   (\<not> dash_HasAcl dash \<and> dash_FolderId dash > 0
    \<longrightarrow> switchFolder m da dash folder s = (Inr folder, s)) \<and>
   (\<not> dash_HasAcl dash \<and> \<not> dash_FolderId dash > 0 \<and>
    getOrCreateGeneralFolder m (dash_OrgId dash) s = (Inr general, s1)
    \<longrightarrow> switchFolder m da dash folder s = (Inr general, s1)) \<and>
   (dash_FolderId dash > 0 \<and>
    sess_Get_folder m (dash_FolderId dash) s = (Inr (Some row), s1) \<and> dash_IsFolder row
    \<longrightarrow> getFolder m da dash s = (Inr row, s1)) \<and>
   (migrateAlert m dsIDMap dashIDMap da0 s = (None, s')
    \<longrightarrow> (\<exists>newCond dash s1 folder s2 folder' s3 r s4.
           getDashboard m (resolveDashboardUID dashIDMap da0) s = (Inr dash, s1) \<and>
           getFolder m (resolveDashboardUID dashIDMap da0) dash s1 = (Inr folder, s2) \<and>
           switchFolder m (resolveDashboardUID dashIDMap da0) dash folder s2 = (Inr folder', s3) \<and>
           makeAlertRule m newCond (resolveDashboardUID dashIDMap da0) (dash_Uid folder') s3 =
             (Inr r, s4))) \<and>
   (db_getOrCreateGeneralFolder org d = (Inr g, d1)
    \<longrightarrow> db_getOrCreateGeneralFolder org d1 = (Inr g, d1) \<and>
        length (filter (\<lambda>r. dash_OrgId r = org \<and> dash_Title r = GENERAL_FOLDER) (tbl_dashboard d1)) =
          max 1 (length (filter (\<lambda>r. dash_OrgId r = org \<and> dash_Title r = GENERAL_FOLDER)
                           (tbl_dashboard d))))"
proof (intro conjI impI)
  assume "dash_HasAcl dash \<and>
    createFolder m (dash_OrgId dash) (''Migrated '' @ getMigrationString m da) s = (Inr new, s1) \<and>
    getACL m (dash_OrgId dash) (dash_Id dash) s1 = (Inr permissions, s2) \<and>
    setACL m (dash_OrgId new) (dash_Id new) permissions s2 = (None, s3)"
  then show "switchFolder m da dash folder s = (Inr new, s3)"
    by (simp add: switchFolder_def DASHBOARD_FOLDER_def)
next
  assume "\<not> dash_HasAcl dash \<and> dash_FolderId dash > 0"
  then show "switchFolder m da dash folder s = (Inr folder, s)"
    by (simp add: switchFolder_def)
next
  assume "\<not> dash_HasAcl dash \<and> \<not> dash_FolderId dash > 0 \<and>
    getOrCreateGeneralFolder m (dash_OrgId dash) s = (Inr general, s1)"
  then show "switchFolder m da dash folder s = (Inr general, s1)"
    by (simp add: switchFolder_def)
next
  assume "dash_FolderId dash > 0 \<and>
    sess_Get_folder m (dash_FolderId dash) s = (Inr (Some row), s1) \<and> dash_IsFolder row"
  then show "getFolder m da dash s = (Inr row, s1)"
    by (simp add: getFolder_def)
next
  assume "migrateAlert m dsIDMap dashIDMap da0 s = (None, s')"
  from migrateAlert_None [OF this]
  show "\<exists>newCond dash s1 folder s2 folder' s3 r s4.
           getDashboard m (resolveDashboardUID dashIDMap da0) s = (Inr dash, s1) \<and>
           getFolder m (resolveDashboardUID dashIDMap da0) dash s1 = (Inr folder, s2) \<and>
           switchFolder m (resolveDashboardUID dashIDMap da0) dash folder s2 = (Inr folder', s3) \<and>
           makeAlertRule m newCond (resolveDashboardUID dashIDMap da0) (dash_Uid folder') s3 =
             (Inr r, s4)"
    by blast
next
  assume "db_getOrCreateGeneralFolder org d = (Inr g, d1)"
  then show "db_getOrCreateGeneralFolder org d1 = (Inr g, d1)"
    by (rule db_general_folder_once)
next
  assume "db_getOrCreateGeneralFolder org d = (Inr g, d1)"
  then show "length (filter (\<lambda>r. dash_OrgId r = org \<and> dash_Title r = GENERAL_FOLDER) (tbl_dashboard d1)) =
          max 1 (length (filter (\<lambda>r. dash_OrgId r = org \<and> dash_Title r = GENERAL_FOLDER)
                           (tbl_dashboard d)))"
    by (rule db_general_folder_count)
qed

theorem folder_precedence_witness:
  "switchFolder db_migration (mk_alert 4 12 ''disk'' [3]\<lparr>alert_DashboardUID := ''d12''\<rparr>) d12 f5
       example_db =
     (Inr migrated13,
      example_db\<lparr>tbl_dashboard := [f5, d10, d11, d12, migrated13],
                 tbl_dashboard_acl := [acl12, acl13], uid_counter := 1\<rparr>) \<and>
   getFolder db_migration (mk_alert 3 11 ''mem'' [3]) d11 example_db = (Inr f5, example_db) \<and>
   switchFolder db_migration (mk_alert 3 11 ''mem'' [3]) d11 f5 example_db = (Inr f5, example_db) \<and>
   switchFolder db_migration (mk_alert 1 10 ''cpu'' [3]) d10 dashboard_zero example_db =
     (Inr general13,
      example_db\<lparr>tbl_dashboard := [f5, d10, d11, d12, general13], uid_counter := 1\<rparr>) \<and>
   db_getOrCreateGeneralFolder 1
       (example_db\<lparr>tbl_dashboard := [f5, d10, d11, d12, general13], uid_counter := 1\<rparr>) =
     (Inr general13,
      example_db\<lparr>tbl_dashboard := [f5, d10, d11, d12, general13], uid_counter := 1\<rparr>) \<and>
   (\<exists>newCond dash s1 folder s2 folder' s3 r s4.
      getDashboard db_migration
          (resolveDashboardUID (dashUIDs_of example_db) (mk_alert 1 10 ''cpu'' [3])) example_db =
        (Inr dash, s1) \<and>
      getFolder db_migration
          (resolveDashboardUID (dashUIDs_of example_db) (mk_alert 1 10 ''cpu'' [3])) dash s1 =
        (Inr folder, s2) \<and>
      switchFolder db_migration
          (resolveDashboardUID (dashUIDs_of example_db) (mk_alert 1 10 ''cpu'' [3])) dash folder s2 =
        (Inr folder', s3) \<and>
      makeAlertRule db_migration newCond
          (resolveDashboardUID (dashUIDs_of example_db) (mk_alert 1 10 ''cpu'' [3]))
          (dash_Uid folder') s3 =
        (Inr r, s4))"
proof -
  let ?da = "mk_alert 4 12 ''disk'' [3]\<lparr>alert_DashboardUID := ''d12''\<rparr>"
  let ?s1 = "example_db\<lparr>tbl_dashboard := [f5, d10, d11, d12, migrated13], uid_counter := 1\<rparr>"
  let ?s3 = "example_db\<lparr>tbl_dashboard := [f5, d10, d11, d12, migrated13],
                 tbl_dashboard_acl := [acl12, acl13], uid_counter := 1\<rparr>"
  let ?g1 = "example_db\<lparr>tbl_dashboard := [f5, d10, d11, d12, general13], uid_counter := 1\<rparr>"
  let ?done = "example_db\<lparr>tbl_dashboard := [f5, d10, d11, d12, general13],
                 tbl_alert_rule := [rule1], tbl_alert_rule_version := [db_makeVersion rule1],
                 uid_counter := 2\<rparr>"
  have a: "dash_HasAcl d12" by code_simp
  have h1: "createFolder db_migration (dash_OrgId d12)
              (''Migrated '' @ getMigrationString db_migration ?da) example_db =
            (Inr migrated13, ?s1)"
    by code_simp
  have h2: "getACL db_migration (dash_OrgId d12) (dash_Id d12) ?s1 = (Inr [acl12], ?s1)"
    by code_simp
  have h3: "setACL db_migration (dash_OrgId migrated13) (dash_Id migrated13) [acl12] ?s1 = (None, ?s3)"
    by code_simp
  have b: "\<not> dash_HasAcl d11 \<and> dash_FolderId d11 > 0" by code_simp
  have c: "\<not> dash_HasAcl d10 \<and> \<not> dash_FolderId d10 > 0" by code_simp
  have h4: "getOrCreateGeneralFolder db_migration (dash_OrgId d10) example_db = (Inr general13, ?g1)"
    by code_simp
  have h5: "db_getOrCreateGeneralFolder 1 example_db = (Inr general13, ?g1)"
    by code_simp
  have h6: "sess_Get_folder db_migration (dash_FolderId d11) example_db = (Inr (Some f5), example_db) \<and>
            dash_IsFolder f5"
    by code_simp
  have h7: "migrateAlert db_migration (dsIDs_of example_db) (dashUIDs_of example_db)
              (mk_alert 1 10 ''cpu'' [3]) example_db = (None, ?done)"
    by code_simp
  from a h1 h2 h3
    folder_precedence [where m = db_migration and da = ?da and dash = d12 and s = example_db
      and new = migrated13 and ?s1.0 = ?s1 and permissions = "[acl12]" and ?s2.0 = ?s1
      and ?s3.0 = ?s3 and folder = f5, THEN conjunct1]
  have 1: "switchFolder db_migration ?da d12 f5 example_db = (Inr migrated13, ?s3)"
    by simp
  from b h6 folder_precedence [where m = db_migration and da = "mk_alert 3 11 ''mem'' [3]"
      and dash = d11 and s = example_db and folder = f5 and row = f5 and ?s1.0 = example_db]
  have 2: "getFolder db_migration (mk_alert 3 11 ''mem'' [3]) d11 example_db = (Inr f5, example_db) \<and>
    switchFolder db_migration (mk_alert 3 11 ''mem'' [3]) d11 f5 example_db = (Inr f5, example_db)"
    by simp
  from c h4 folder_precedence [where m = db_migration and da = "mk_alert 1 10 ''cpu'' [3]"
      and dash = d10 and s = example_db and folder = dashboard_zero and general = general13
      and ?s1.0 = ?g1, THEN conjunct2, THEN conjunct2, THEN conjunct1]
  have 3: "switchFolder db_migration (mk_alert 1 10 ''cpu'' [3]) d10 dashboard_zero example_db =
     (Inr general13, ?g1)"
    by simp
  from h5 folder_precedence [where org = 1 and d = example_db and g = general13 and ?d1.0 = ?g1,
      THEN conjunct2, THEN conjunct2, THEN conjunct2, THEN conjunct2, THEN conjunct2]
  have 4: "db_getOrCreateGeneralFolder 1 ?g1 = (Inr general13, ?g1)"
    by simp
  from folder_precedence [where m = db_migration and dsIDMap = "dsIDs_of example_db"
      and dashIDMap = "dashUIDs_of example_db" and ?da0.0 = "mk_alert 1 10 ''cpu'' [3]"
      and s = example_db and s' = ?done,
      THEN conjunct2, THEN conjunct2, THEN conjunct2, THEN conjunct2, THEN conjunct1] h7
  have 5: "\<exists>newCond dash s1 folder s2 folder' s3 r s4.
      getDashboard db_migration
          (resolveDashboardUID (dashUIDs_of example_db) (mk_alert 1 10 ''cpu'' [3])) example_db =
        (Inr dash, s1) \<and>
      getFolder db_migration
          (resolveDashboardUID (dashUIDs_of example_db) (mk_alert 1 10 ''cpu'' [3])) dash s1 =
        (Inr folder, s2) \<and>
      switchFolder db_migration
          (resolveDashboardUID (dashUIDs_of example_db) (mk_alert 1 10 ''cpu'' [3])) dash folder s2 =
        (Inr folder', s3) \<and>
      makeAlertRule db_migration newCond
          (resolveDashboardUID (dashUIDs_of example_db) (mk_alert 1 10 ''cpu'' [3]))
          (dash_Uid folder') s3 =
        (Inr r, s4)"
    by (rule mp)
  from 1 2 3 4 5 show ?thesis by (intro conjI) simp_all
qed

text \<open>
  Claim C9. For an alert whose dashboard has a positive \<open>FolderId\<close>, the folder row is
  looked up by that id right after the dashboard. When no row exists, when the row is
  not a folder or when the lookup fails, the run ends there with a \<open>MigrationError\<close>
  that carries the id of the alert, in the state the lookup left: no folder is created
  and no later alert is processed. A row that is a folder is what the folder resolution
  gets.
\<close>

theorem parent_folder_validated:
  "transConditions m (alert_ParsedSettings da) (alert_OrgId da) dsIDMap = Inr newCond \<and>
   getDashboard m (resolveDashboardUID dashIDMap da) s = (Inr dash, s1) \<and>
   dash_FolderId dash > 0
   \<longrightarrow>
     (sess_Get_folder m (dash_FolderId dash) s1 = (Inr None, s2) \<longrightarrow>
        migrateAlerts m dsIDMap dashIDMap (da # post) s =
          (Some (MigrationError (alert_Id da)
                   (Errorf ''folder with id %v not found'' [I (dash_FolderId dash)] None)), s2)) \<and>
     (sess_Get_folder m (dash_FolderId dash) s1 = (Inr (Some row), s2) \<and> \<not> dash_IsFolder row \<longrightarrow>
        migrateAlerts m dsIDMap dashIDMap (da # post) s =
          (Some (MigrationError (alert_Id da)
                   (Errorf ''id %v is a dashboard not a folder'' [I (dash_FolderId dash)] None)), s2)) \<and>
     (sess_Get_folder m (dash_FolderId dash) s1 = (Inl err, s2) \<longrightarrow>
        migrateAlerts m dsIDMap dashIDMap (da # post) s =
          (Some (MigrationError (alert_Id da)
                   (Errorf ''failed to get folder %d: %w'' [I (dash_FolderId dash)] (Some err))), s2)) \<and>
     (sess_Get_folder m (dash_FolderId dash) s1 = (Inr (Some row), s2) \<and> dash_IsFolder row \<longrightarrow>
        getFolder m (resolveDashboardUID dashIDMap da) dash s1 = (Inr row, s2))"
proof (intro impI conjI)
  assume a: "transConditions m (alert_ParsedSettings da) (alert_OrgId da) dsIDMap = Inr newCond \<and>
   getDashboard m (resolveDashboardUID dashIDMap da) s = (Inr dash, s1) \<and>
   dash_FolderId dash > 0"
  {
    assume "sess_Get_folder m (dash_FolderId dash) s1 = (Inr None, s2)"
    with a show "migrateAlerts m dsIDMap dashIDMap (da # post) s =
          (Some (MigrationError (alert_Id da)
                   (Errorf ''folder with id %v not found'' [I (dash_FolderId dash)] None)), s2)"
      by (simp add: migrateAlert_def getFolder_def)
  next
    assume "sess_Get_folder m (dash_FolderId dash) s1 = (Inr (Some row), s2) \<and> \<not> dash_IsFolder row"
    with a show "migrateAlerts m dsIDMap dashIDMap (da # post) s =
          (Some (MigrationError (alert_Id da)
                   (Errorf ''id %v is a dashboard not a folder'' [I (dash_FolderId dash)] None)), s2)"
      by (simp add: migrateAlert_def getFolder_def)
  next
    assume "sess_Get_folder m (dash_FolderId dash) s1 = (Inl err, s2)"
    with a show "migrateAlerts m dsIDMap dashIDMap (da # post) s =
          (Some (MigrationError (alert_Id da)
                   (Errorf ''failed to get folder %d: %w'' [I (dash_FolderId dash)] (Some err))), s2)"
      by (simp add: migrateAlert_def getFolder_def)
  next
    assume "sess_Get_folder m (dash_FolderId dash) s1 = (Inr (Some row), s2) \<and> dash_IsFolder row"
    with a show "getFolder m (resolveDashboardUID dashIDMap da) dash s1 = (Inr row, s2)"
      by (simp add: getFolder_def)
  }
qed

theorem parent_folder_validated_witness:
  "migrateAlerts db_migration (dsIDs_of odd_db) (dashUIDs_of odd_db)
       (mk_alert 7 20 ''io'' [3] # [mk_alert 1 10 ''cpu'' [3]]) odd_db =
     (Some (MigrationError 7 (Errorf ''folder with id %v not found'' [I 77] None)), odd_db) \<and>
   migrateAlerts db_migration (dsIDs_of odd_db) (dashUIDs_of odd_db)
       (mk_alert 8 21 ''io'' [3] # [mk_alert 1 10 ''cpu'' [3]]) odd_db =
     (Some (MigrationError 8 (Errorf ''id %v is a dashboard not a folder'' [I 10] None)), odd_db) \<and>
   getFolder db_migration (resolveDashboardUID (dashUIDs_of example_db) (mk_alert 3 11 ''mem'' [3]))
       d11 example_db =
     (Inr f5, example_db)"
proof -
  let ?da7 = "mk_alert 7 20 ''io'' [3]"
  let ?da8 = "mk_alert 8 21 ''io'' [3]"
  let ?da3 = "mk_alert 3 11 ''mem'' [3]"
  have a1: "transConditions db_migration (alert_ParsedSettings ?da7) (alert_OrgId ?da7)
              (dsIDs_of odd_db) = Inr [''ds3'']"
    by code_simp
  have a2: "getDashboard db_migration (resolveDashboardUID (dashUIDs_of odd_db) ?da7) odd_db =
              (Inr d20, odd_db)"
    by code_simp
  have a3: "dash_FolderId d20 > 0" by code_simp
  have a4: "sess_Get_folder db_migration (dash_FolderId d20) odd_db = (Inr None, odd_db)"
    by code_simp
  have a5: "alert_Id ?da7 = 7 \<and> dash_FolderId d20 = 77" by code_simp
  have b1: "transConditions db_migration (alert_ParsedSettings ?da8) (alert_OrgId ?da8)
              (dsIDs_of odd_db) = Inr [''ds3'']"
    by code_simp
  have b2: "getDashboard db_migration (resolveDashboardUID (dashUIDs_of odd_db) ?da8) odd_db =
              (Inr d21, odd_db)"
    by code_simp
  have b3: "dash_FolderId d21 > 0" by code_simp
  have b4: "sess_Get_folder db_migration (dash_FolderId d21) odd_db = (Inr (Some d10), odd_db) \<and>
            \<not> dash_IsFolder d10"
    by code_simp
  have b5: "alert_Id ?da8 = 8 \<and> dash_FolderId d21 = 10" by code_simp
  have c1: "transConditions db_migration (alert_ParsedSettings ?da3) (alert_OrgId ?da3)
              (dsIDs_of example_db) = Inr [''ds3'']"
    by code_simp
  have c2: "getDashboard db_migration (resolveDashboardUID (dashUIDs_of example_db) ?da3) example_db =
              (Inr d11, example_db)"
    by code_simp
  have c3: "dash_FolderId d11 > 0" by code_simp
  have c4: "sess_Get_folder db_migration (dash_FolderId d11) example_db =
              (Inr (Some f5), example_db) \<and> dash_IsFolder f5"
    by code_simp
  from a1 a2 a3 a4
    parent_folder_validated [where m = db_migration and da = ?da7 and dsIDMap = "dsIDs_of odd_db"
      and dashIDMap = "dashUIDs_of odd_db" and newCond = "[''ds3'']" and s = odd_db
      and dash = d20 and ?s1.0 = odd_db and ?s2.0 = odd_db
      and post = "[mk_alert 1 10 ''cpu'' [3]]"]
  have "migrateAlerts db_migration (dsIDs_of odd_db) (dashUIDs_of odd_db)
       (?da7 # [mk_alert 1 10 ''cpu'' [3]]) odd_db =
     (Some (MigrationError (alert_Id ?da7)
        (Errorf ''folder with id %v not found'' [I (dash_FolderId d20)] None)), odd_db)"
    by simp
  then have 1: "migrateAlerts db_migration (dsIDs_of odd_db) (dashUIDs_of odd_db)
       (?da7 # [mk_alert 1 10 ''cpu'' [3]]) odd_db =
     (Some (MigrationError 7 (Errorf ''folder with id %v not found'' [I 77] None)), odd_db)"
    by (simp only: a5)
  from b1 b2 b3 b4
    parent_folder_validated [where m = db_migration and da = ?da8 and dsIDMap = "dsIDs_of odd_db"
      and dashIDMap = "dashUIDs_of odd_db" and newCond = "[''ds3'']" and s = odd_db
      and dash = d21 and ?s1.0 = odd_db and ?s2.0 = odd_db and row = d10
      and post = "[mk_alert 1 10 ''cpu'' [3]]"]
  have "migrateAlerts db_migration (dsIDs_of odd_db) (dashUIDs_of odd_db)
       (?da8 # [mk_alert 1 10 ''cpu'' [3]]) odd_db =
     (Some (MigrationError (alert_Id ?da8)
        (Errorf ''id %v is a dashboard not a folder'' [I (dash_FolderId d21)] None)), odd_db)"
    by simp
  then have 2: "migrateAlerts db_migration (dsIDs_of odd_db) (dashUIDs_of odd_db)
       (?da8 # [mk_alert 1 10 ''cpu'' [3]]) odd_db =
     (Some (MigrationError 8 (Errorf ''id %v is a dashboard not a folder'' [I 10] None)), odd_db)"
    by (simp only: b5)
  from c1 c2 c3 c4
    parent_folder_validated [where m = db_migration and da = ?da3
      and dsIDMap = "dsIDs_of example_db" and dashIDMap = "dashUIDs_of example_db"
      and newCond = "[''ds3'']" and s = example_db and dash = d11 and ?s1.0 = example_db
      and ?s2.0 = example_db and row = f5]
  have 3: "getFolder db_migration (resolveDashboardUID (dashUIDs_of example_db) ?da3) d11
       example_db = (Inr f5, example_db)"
    by simp
  from 1 2 3 show ?thesis by (intro conjI)
qed

text \<open>
  Claim C8. When the folder settled for an alert has the empty UID, the alert fails with
  a \<open>MigrationError\<close> that carries its id, in the state the folder resolution left: no
  rule is made or inserted. When \<open>makeAlertRule\<close> stores the folder UID it is given, the
  rule inserted for an alert that is processed without error has a folder UID that is
  not empty. On the store of the spec, every rule that a run without error adds has a
  folder UID that is not empty.
\<close>

theorem empty_folder_uid_fatal:
  "(transConditions m (alert_ParsedSettings da) (alert_OrgId da) dsIDMap = Inr newCond \<and>
    getDashboard m (resolveDashboardUID dashIDMap da) s = (Inr dash, s1) \<and>
    getFolder m (resolveDashboardUID dashIDMap da) dash s1 = (Inr folder, s2) \<and>
    switchFolder m (resolveDashboardUID dashIDMap da) dash folder s2 = (Inr folder', s3) \<and>
    dash_Uid folder' = []
    \<longrightarrow> migrateAlert m dsIDMap dashIDMap da s =
          (Some (MigrationError (alert_Id da) (Errorf ''empty folder identifier'' [] None)), s3)) \<and>
   ((\<forall>c a u st r st'. makeAlertRule m c a u st = (Inr r, st') \<longrightarrow> rule_NamespaceUID r = u) \<and>
    migrateAlert m dsIDMap dashIDMap da s = (None, s')
    \<longrightarrow> (\<exists>rule sa sb.
           rule_NamespaceUID rule \<noteq> [] \<and>
           sess_Insert_rule m rule sa = (None, sb) \<and>
           sess_Insert_version m (makeVersion m rule) sb = (None, s'))) \<and>
   (Exec db_migration d = (None, d')
    \<longrightarrow> (\<exists>rules.
           length rules = length (tbl_alert d) \<and>
           tbl_alert_rule d' = tbl_alert_rule d @ rules \<and>
           (\<forall>x \<in> set rules. rule_NamespaceUID x \<noteq> [])))"
proof (intro conjI impI)
  assume a: "transConditions m (alert_ParsedSettings da) (alert_OrgId da) dsIDMap = Inr newCond \<and>
    getDashboard m (resolveDashboardUID dashIDMap da) s = (Inr dash, s1) \<and>
    getFolder m (resolveDashboardUID dashIDMap da) dash s1 = (Inr folder, s2) \<and>
    switchFolder m (resolveDashboardUID dashIDMap da) dash folder s2 = (Inr folder', s3) \<and>
    dash_Uid folder' = []"
  then have "migrateAlert m dsIDMap dashIDMap da s =
      persistRule m newCond (resolveDashboardUID dashIDMap da) folder' s3"
    by (simp add: migrateAlert_steps)
  with a show "migrateAlert m dsIDMap dashIDMap da s =
          (Some (MigrationError (alert_Id da) (Errorf ''empty folder identifier'' [] None)), s3)"
    by (simp add: persistRule_def)
next
  assume a: "(\<forall>c a u st r st'. makeAlertRule m c a u st = (Inr r, st') \<longrightarrow> rule_NamespaceUID r = u) \<and>
    migrateAlert m dsIDMap dashIDMap da s = (None, s')"
  then have ok: "migrateAlert m dsIDMap dashIDMap da s = (None, s')" by simp
  from migrateAlert_None [OF ok] obtain newCond and folder' :: dashboard and s3 r s4 rule sa sb where
    f: "dash_Uid folder' \<noteq> []"
      "makeAlertRule m newCond (resolveDashboardUID dashIDMap da) (dash_Uid folder') s3 = (Inr r, s4)"
      "rule = r \<or>
       rule = r\<lparr>rule_Title := rule_Title r @ '' '' @ rule_Uid r,
                 rule_RuleGroup := rule_RuleGroup r @ '' '' @ rule_Uid r\<rparr>"
      "sess_Insert_rule m rule sa = (None, sb)"
      "sess_Insert_version m (makeVersion m rule) sb = (None, s')"
    by (elim exE conjE)
  from a f(2) have "rule_NamespaceUID r = dash_Uid folder'" by blast
  with f(1,3) have "rule_NamespaceUID rule \<noteq> []" by auto
  with f(4,5) show "\<exists>rule sa sb.
           rule_NamespaceUID rule \<noteq> [] \<and>
           sess_Insert_rule m rule sa = (None, sb) \<and>
           sess_Insert_version m (makeVersion m rule) sb = (None, s')"
    by blast
next
  assume "Exec db_migration d = (None, d')"
  from db_Exec_rules [OF this]
  show "\<exists>rules.
           length rules = length (tbl_alert d) \<and>
           tbl_alert_rule d' = tbl_alert_rule d @ rules \<and>
           (\<forall>x \<in> set rules. rule_NamespaceUID x \<noteq> [])"
    by (elim exE conjE) (intro exI conjI)
qed

theorem empty_folder_uid_fatal_witness:
  "migrateAlert db_migration (dsIDs_of odd_db) (dashUIDs_of odd_db) (mk_alert 9 22 ''io'' [3]) odd_db =
     (Some (MigrationError 9 (Errorf ''empty folder identifier'' [] None)), odd_db) \<and>
   (\<exists>rule sa sb.
      rule_NamespaceUID rule \<noteq> [] \<and>
      sess_Insert_rule db_migration rule sa = (None, sb) \<and>
      sess_Insert_version db_migration (makeVersion db_migration rule) sb =
        (None,
         example_db\<lparr>tbl_dashboard := [f5, d10, d11, d12, general13],
                    tbl_alert_rule := [rule1], tbl_alert_rule_version := [db_makeVersion rule1],
                    uid_counter := 2\<rparr>)) \<and>
   fst (Exec db_migration example_db) = None \<and>
   (\<exists>rules.
      length rules = length (tbl_alert example_db) \<and>
      tbl_alert_rule (snd (Exec db_migration example_db)) = tbl_alert_rule example_db @ rules \<and>
      (\<forall>x \<in> set rules. rule_NamespaceUID x \<noteq> []))"
proof -
  let ?da = "mk_alert 9 22 ''io'' [3]"
  let ?done = "example_db\<lparr>tbl_dashboard := [f5, d10, d11, d12, general13],
                 tbl_alert_rule := [rule1], tbl_alert_rule_version := [db_makeVersion rule1],
                 uid_counter := 2\<rparr>"
  have a1: "transConditions db_migration (alert_ParsedSettings ?da) (alert_OrgId ?da)
              (dsIDs_of odd_db) = Inr [''ds3'']"
    by code_simp
  have a2: "getDashboard db_migration (resolveDashboardUID (dashUIDs_of odd_db) ?da) odd_db =
              (Inr d22, odd_db)"
    by code_simp
  have a3: "getFolder db_migration (resolveDashboardUID (dashUIDs_of odd_db) ?da) d22 odd_db =
              (Inr f6, odd_db)"
    by code_simp
  have a4: "switchFolder db_migration (resolveDashboardUID (dashUIDs_of odd_db) ?da) d22 f6 odd_db =
              (Inr f6, odd_db)"
    by code_simp
  have a5: "dash_Uid f6 = []"
    by code_simp
  have a6: "alert_Id ?da = 9"
    by code_simp
  have b1: "\<forall>c a u st r st'.
      makeAlertRule db_migration c a u st = (Inr r, st') \<longrightarrow> rule_NamespaceUID r = u"
    by (auto simp add: db_migration_simps db_makeAlertRule_def)
  have b2: "migrateAlert db_migration (dsIDs_of example_db) (dashUIDs_of example_db)
              (mk_alert 1 10 ''cpu'' [3]) example_db = (None, ?done)"
    by code_simp
  from a1 a2 a3 a4 a5
    empty_folder_uid_fatal [where m = db_migration and da = ?da and dsIDMap = "dsIDs_of odd_db"
      and dashIDMap = "dashUIDs_of odd_db" and newCond = "[''ds3'']" and s = odd_db
      and dash = d22 and ?s1.0 = odd_db and folder = f6 and ?s2.0 = odd_db and folder' = f6
      and ?s3.0 = odd_db, THEN conjunct1]
  have "migrateAlert db_migration (dsIDs_of odd_db) (dashUIDs_of odd_db) ?da odd_db =
     (Some (MigrationError (alert_Id ?da) (Errorf ''empty folder identifier'' [] None)), odd_db)"
    by simp
  then have 1: "migrateAlert db_migration (dsIDs_of odd_db) (dashUIDs_of odd_db) ?da odd_db =
     (Some (MigrationError 9 (Errorf ''empty folder identifier'' [] None)), odd_db)"
    by (simp only: a6)
  from empty_folder_uid_fatal [where m = db_migration and da = "mk_alert 1 10 ''cpu'' [3]"
      and dsIDMap = "dsIDs_of example_db" and dashIDMap = "dashUIDs_of example_db"
      and s = example_db and s' = ?done, THEN conjunct2, THEN conjunct1] conjI [OF b1 b2]
  have 2: "\<exists>rule sa sb.
      rule_NamespaceUID rule \<noteq> [] \<and>
      sess_Insert_rule db_migration rule sa = (None, sb) \<and>
      sess_Insert_version db_migration (makeVersion db_migration rule) sb = (None, ?done)"
    by (rule mp)
  have c1: "fst (Exec db_migration example_db) = None"
    by code_simp
  then have c2: "Exec db_migration example_db = (None, snd (Exec db_migration example_db))"
    by (simp add: prod_eq_iff)
  from empty_folder_uid_fatal [where d = example_db and d' = "snd (Exec db_migration example_db)",
      THEN conjunct2, THEN conjunct2] c2
  have 3: "\<exists>rules.
      length rules = length (tbl_alert example_db) \<and>
      tbl_alert_rule (snd (Exec db_migration example_db)) = tbl_alert_rule example_db @ rules \<and>
      (\<forall>x \<in> set rules. rule_NamespaceUID x \<noteq> [])"
    by (rule mp)
  from 1 2 c1 3 show ?thesis by (intro conjI)
qed

text \<open>
  Claim C3. An insert that succeeds is not repeated. When the insert fails, the title
  and the rule group of the rule get a space and the UID of the rule appended and the
  insert is made once more; when that succeeds the alert goes on with the renamed rule,
  and when it fails too the run ends with the second error, in the state the second
  insert left, with no version inserted and no later alert processed.
\<close>

theorem insert_retried_once:
  "(sess_Insert_rule m rule s = (None, s1) \<longrightarrow> insertRule m rule s = (Inr rule, s1)) \<and>
   (sess_Insert_rule m rule s = (Some err, s1) \<and>
    sess_Insert_rule m
      (rule\<lparr>rule_Title := rule_Title rule @ '' '' @ rule_Uid rule,
            rule_RuleGroup := rule_RuleGroup rule @ '' '' @ rule_Uid rule\<rparr>) s1 = (None, s2)
    \<longrightarrow> insertRule m rule s =
          (Inr (rule\<lparr>rule_Title := rule_Title rule @ '' '' @ rule_Uid rule,
                     rule_RuleGroup := rule_RuleGroup rule @ '' '' @ rule_Uid rule\<rparr>), s2)) \<and>
   (sess_Insert_rule m rule s = (Some err, s1) \<and>
    sess_Insert_rule m
      (rule\<lparr>rule_Title := rule_Title rule @ '' '' @ rule_Uid rule,
            rule_RuleGroup := rule_RuleGroup rule @ '' '' @ rule_Uid rule\<rparr>) s1 = (Some err', s2)
    \<longrightarrow> insertRule m rule s = (Inl err', s2)) \<and>
   (migrateAlerts m dsIDMap dashIDMap pre s3 = (None, s4) \<and>
    transConditions m (alert_ParsedSettings da) (alert_OrgId da) dsIDMap = Inr newCond \<and>
    getDashboard m (resolveDashboardUID dashIDMap da) s4 = (Inr dash, s5) \<and>
    getFolder m (resolveDashboardUID dashIDMap da) dash s5 = (Inr folder, s6) \<and>
    switchFolder m (resolveDashboardUID dashIDMap da) dash folder s6 = (Inr folder', s7) \<and>
    dash_Uid folder' \<noteq> [] \<and>
    makeAlertRule m newCond (resolveDashboardUID dashIDMap da) (dash_Uid folder') s7 =
      (Inr rule, s) \<and>
    sess_Insert_rule m rule s = (Some err, s1) \<and>
    sess_Insert_rule m
      (rule\<lparr>rule_Title := rule_Title rule @ '' '' @ rule_Uid rule,
            rule_RuleGroup := rule_RuleGroup rule @ '' '' @ rule_Uid rule\<rparr>) s1 = (Some err', s2)
    \<longrightarrow> migrateAlerts m dsIDMap dashIDMap (pre @ da # post) s3 = (Some err', s2))"
proof (intro conjI impI)
  assume "sess_Insert_rule m rule s = (None, s1)"
  then show "insertRule m rule s = (Inr rule, s1)"
    by (simp add: insertRule_def)
next
  assume "sess_Insert_rule m rule s = (Some err, s1) \<and>
    sess_Insert_rule m
      (rule\<lparr>rule_Title := rule_Title rule @ '' '' @ rule_Uid rule,
            rule_RuleGroup := rule_RuleGroup rule @ '' '' @ rule_Uid rule\<rparr>) s1 = (None, s2)"
  then show "insertRule m rule s =
          (Inr (rule\<lparr>rule_Title := rule_Title rule @ '' '' @ rule_Uid rule,
                     rule_RuleGroup := rule_RuleGroup rule @ '' '' @ rule_Uid rule\<rparr>), s2)"
    by (simp add: insertRule_def)
next
  assume "sess_Insert_rule m rule s = (Some err, s1) \<and>
    sess_Insert_rule m
      (rule\<lparr>rule_Title := rule_Title rule @ '' '' @ rule_Uid rule,
            rule_RuleGroup := rule_RuleGroup rule @ '' '' @ rule_Uid rule\<rparr>) s1 = (Some err', s2)"
  then show "insertRule m rule s = (Inl err', s2)"
    by (simp add: insertRule_def)
next
  assume a: "migrateAlerts m dsIDMap dashIDMap pre s3 = (None, s4) \<and>
    transConditions m (alert_ParsedSettings da) (alert_OrgId da) dsIDMap = Inr newCond \<and>
    getDashboard m (resolveDashboardUID dashIDMap da) s4 = (Inr dash, s5) \<and>
    getFolder m (resolveDashboardUID dashIDMap da) dash s5 = (Inr folder, s6) \<and>
    switchFolder m (resolveDashboardUID dashIDMap da) dash folder s6 = (Inr folder', s7) \<and>
    dash_Uid folder' \<noteq> [] \<and>
    makeAlertRule m newCond (resolveDashboardUID dashIDMap da) (dash_Uid folder') s7 =
      (Inr rule, s) \<and>
    sess_Insert_rule m rule s = (Some err, s1) \<and>
    sess_Insert_rule m
      (rule\<lparr>rule_Title := rule_Title rule @ '' '' @ rule_Uid rule,
            rule_RuleGroup := rule_RuleGroup rule @ '' '' @ rule_Uid rule\<rparr>) s1 = (Some err', s2)"
  then have ir: "insertRule m rule s = (Inl err', s2)"
    by (simp add: insertRule_def)
  from a have "migrateAlert m dsIDMap dashIDMap da s4 =
      persistRule m newCond (resolveDashboardUID dashIDMap da) folder' s7"
    by (simp add: migrateAlert_steps)
  also from a ir have "\<dots> = (Some err', s2)"
    by (simp add: persistRule_def)
  finally have "migrateAlert m dsIDMap dashIDMap da s4 = (Some err', s2)" .
  with a show "migrateAlerts m dsIDMap dashIDMap (pre @ da # post) s3 = (Some err', s2)"
    by (simp add: migrateAlerts_append_Some)
qed


theorem insert_retried_once_witness:
  "insertRule db_migration rule1 example_db = (Inr rule1, example_db\<lparr>tbl_alert_rule := [rule1]\<rparr>) \<and>
   insertRule db_migration rule2 (example_db\<lparr>tbl_alert_rule := [rule1]\<rparr>) =
     (Inr (rule2\<lparr>rule_Title := ''cpu uxx'', rule_RuleGroup := ''cpu uxx''\<rparr>),
      example_db\<lparr>tbl_alert_rule :=
        [rule1, rule2\<lparr>rule_Title := ''cpu uxx'', rule_RuleGroup := ''cpu uxx''\<rparr>]\<rparr>) \<and>
   insertRule db_migration rule1 (taken_db\<lparr>uid_counter := 2\<rparr>) =
     (Inl (ExternalError ''UNIQUE constraint failed''), taken_db\<lparr>uid_counter := 2\<rparr>) \<and>
   migrateAlerts db_migration (dsIDs_of taken_db) (dashUIDs_of taken_db)
       ([] @ mk_alert 1 10 ''cpu'' [3] # [mk_alert 2 10 ''cpu'' [3]]) taken_db =
     (Some (ExternalError ''UNIQUE constraint failed''),
      taken_db\<lparr>tbl_dashboard := [f5, d10, d11, d12, general13], uid_counter := 2\<rparr>)"
proof -
  let ?one = "example_db\<lparr>tbl_alert_rule := [rule1]\<rparr>"
  let ?rule2' = "rule2\<lparr>rule_Title := rule_Title rule2 @ '' '' @ rule_Uid rule2,
                       rule_RuleGroup := rule_RuleGroup rule2 @ '' '' @ rule_Uid rule2\<rparr>"
  let ?rule1' = "rule1\<lparr>rule_Title := rule_Title rule1 @ '' '' @ rule_Uid rule1,
                       rule_RuleGroup := rule_RuleGroup rule1 @ '' '' @ rule_Uid rule1\<rparr>"
  let ?two = "example_db\<lparr>tbl_alert_rule :=
        [rule1, rule2\<lparr>rule_Title := ''cpu uxx'', rule_RuleGroup := ''cpu uxx''\<rparr>]\<rparr>"
  let ?t = "taken_db\<lparr>uid_counter := 2\<rparr>"
  let ?da = "mk_alert 1 10 ''cpu'' [3]"
  let ?g = "taken_db\<lparr>tbl_dashboard := [f5, d10, d11, d12, general13], uid_counter := 1\<rparr>"
  let ?g2 = "taken_db\<lparr>tbl_dashboard := [f5, d10, d11, d12, general13], uid_counter := 2\<rparr>"
  have a1: "sess_Insert_rule db_migration rule1 example_db = (None, ?one)"
    by code_simp
  have b1: "sess_Insert_rule db_migration rule2 ?one =
              (Some (ExternalError ''UNIQUE constraint failed''), ?one)"
    by code_simp
  have b2: "sess_Insert_rule db_migration ?rule2' ?one = (None, ?two)"
    by code_simp
  have b3: "?rule2' = rule2\<lparr>rule_Title := ''cpu uxx'', rule_RuleGroup := ''cpu uxx''\<rparr>"
    by code_simp
  have c1: "sess_Insert_rule db_migration rule1 ?t =
              (Some (ExternalError ''UNIQUE constraint failed''), ?t)"
    by code_simp
  have c2: "sess_Insert_rule db_migration ?rule1' ?t =
              (Some (ExternalError ''UNIQUE constraint failed''), ?t)"
    by code_simp
  have d0: "migrateAlerts db_migration (dsIDs_of taken_db) (dashUIDs_of taken_db) [] taken_db =
              (None, taken_db)"
    by simp
  have d1: "transConditions db_migration (alert_ParsedSettings ?da) (alert_OrgId ?da)
              (dsIDs_of taken_db) = Inr [''ds3'']"
    by code_simp
  have d2: "getDashboard db_migration (resolveDashboardUID (dashUIDs_of taken_db) ?da) taken_db =
              (Inr d10, taken_db)"
    by code_simp
  have d3: "getFolder db_migration (resolveDashboardUID (dashUIDs_of taken_db) ?da) d10 taken_db =
              (Inr dashboard_zero, taken_db)"
    by code_simp
  have d4: "switchFolder db_migration (resolveDashboardUID (dashUIDs_of taken_db) ?da) d10
              dashboard_zero taken_db = (Inr general13, ?g)"
    by code_simp
  have d5: "dash_Uid general13 \<noteq> []"
    by code_simp
  have d6: "makeAlertRule db_migration [''ds3''] (resolveDashboardUID (dashUIDs_of taken_db) ?da)
              (dash_Uid general13) ?g = (Inr rule1, ?g2)"
    by code_simp
  have d7: "sess_Insert_rule db_migration rule1 ?g2 =
              (Some (ExternalError ''UNIQUE constraint failed''), ?g2)"
    by code_simp
  have d8: "sess_Insert_rule db_migration ?rule1' ?g2 =
              (Some (ExternalError ''UNIQUE constraint failed''), ?g2)"
    by code_simp
  from a1 insert_retried_once [where m = db_migration and rule = rule1 and s = example_db
      and ?s1.0 = ?one, THEN conjunct1]
  have 1: "insertRule db_migration rule1 example_db = (Inr rule1, ?one)"
    by simp
  from b1 b2 insert_retried_once [where m = db_migration and rule = rule2 and s = ?one
      and ?s1.0 = ?one and ?s2.0 = ?two
      and err = "ExternalError ''UNIQUE constraint failed''",
      THEN conjunct2, THEN conjunct1]
  have "insertRule db_migration rule2 ?one = (Inr ?rule2', ?two)"
    by simp
  then have 2: "insertRule db_migration rule2 ?one =
      (Inr (rule2\<lparr>rule_Title := ''cpu uxx'', rule_RuleGroup := ''cpu uxx''\<rparr>), ?two)"
    by (simp only: b3)
  from c1 c2 insert_retried_once [where m = db_migration and rule = rule1 and s = ?t
      and ?s1.0 = ?t and ?s2.0 = ?t
      and err = "ExternalError ''UNIQUE constraint failed''"
      and err' = "ExternalError ''UNIQUE constraint failed''",
      THEN conjunct2, THEN conjunct2, THEN conjunct1]
  have 3: "insertRule db_migration rule1 ?t =
      (Inl (ExternalError ''UNIQUE constraint failed''), ?t)"
    by simp
  from d0 d1 d2 d3 d4 d5 d6 d7 d8
    insert_retried_once [where m = db_migration and rule = rule1 and s = ?g2
      and ?s1.0 = ?g2 and ?s2.0 = ?g2
      and err = "ExternalError ''UNIQUE constraint failed''"
      and err' = "ExternalError ''UNIQUE constraint failed''"
      and dsIDMap = "dsIDs_of taken_db" and dashIDMap = "dashUIDs_of taken_db"
      and pre = "[]" and ?s3.0 = taken_db and ?s4.0 = taken_db and da = ?da
      and newCond = "[''ds3'']" and dash = d10 and ?s5.0 = taken_db and folder = dashboard_zero
      and ?s6.0 = taken_db and folder' = general13 and ?s7.0 = ?g
      and post = "[mk_alert 2 10 ''cpu'' [3]]",
      THEN conjunct2, THEN conjunct2, THEN conjunct2]
  have 4: "migrateAlerts db_migration (dsIDs_of taken_db) (dashUIDs_of taken_db)
       ([] @ ?da # [mk_alert 2 10 ''cpu'' [3]]) taken_db =
     (Some (ExternalError ''UNIQUE constraint failed''), ?g2)"
    by simp
  from 1 2 3 4 show ?thesis by (intro conjI)
qed

text \<open>
  Claim C7. An alert that is processed without error ends with the insert of the version
  made from the rule as it was inserted, in the state that the successful insert of that
  rule left. On the store of the spec, a run without error adds one rule for each legacy
  alert and the versions of exactly these rules, in the same order.
\<close>

theorem version_follows_rule:
  "(migrateAlert m dsIDMap dashIDMap da s = (None, s')
    \<longrightarrow> (\<exists>rule sa sb.
           sess_Insert_rule m rule sa = (None, sb) \<and>
           sess_Insert_version m (makeVersion m rule) sb = (None, s'))) \<and>
   (Exec db_migration d = (None, d')
    \<longrightarrow> (\<exists>rules.
           length rules = length (tbl_alert d) \<and>
           tbl_alert_rule d' = tbl_alert_rule d @ rules \<and>
           tbl_alert_rule_version d' = tbl_alert_rule_version d @ map db_makeVersion rules))"
proof (intro conjI impI)
  assume "migrateAlert m dsIDMap dashIDMap da s = (None, s')"
  from migrateAlert_None [OF this]
  show "\<exists>rule sa sb.
           sess_Insert_rule m rule sa = (None, sb) \<and>
           sess_Insert_version m (makeVersion m rule) sb = (None, s')"
    by blast
next
  assume "Exec db_migration d = (None, d')"
  from db_Exec_rules [OF this]
  show "\<exists>rules.
           length rules = length (tbl_alert d) \<and>
           tbl_alert_rule d' = tbl_alert_rule d @ rules \<and>
           tbl_alert_rule_version d' = tbl_alert_rule_version d @ map db_makeVersion rules"
    by (elim exE conjE) (intro exI conjI)
qed

theorem version_follows_rule_witness:
  "migrateAlert db_migration (dsIDs_of example_db) (dashUIDs_of example_db)
       (mk_alert 1 10 ''cpu'' [3]) example_db =
     (None,
      example_db\<lparr>tbl_dashboard := [f5, d10, d11, d12, general13],
                 tbl_alert_rule := [rule1], tbl_alert_rule_version := [db_makeVersion rule1],
                 uid_counter := 2\<rparr>) \<and>
   (\<exists>rule sa sb.
      sess_Insert_rule db_migration rule sa = (None, sb) \<and>
      sess_Insert_version db_migration (makeVersion db_migration rule) sb =
        (None,
         example_db\<lparr>tbl_dashboard := [f5, d10, d11, d12, general13],
                    tbl_alert_rule := [rule1], tbl_alert_rule_version := [db_makeVersion rule1],
                    uid_counter := 2\<rparr>)) \<and>
   fst (Exec db_migration example_db) = None \<and>
   (\<exists>rules.
      length rules = length (tbl_alert example_db) \<and>
      tbl_alert_rule (snd (Exec db_migration example_db)) = tbl_alert_rule example_db @ rules \<and>
      tbl_alert_rule_version (snd (Exec db_migration example_db)) =
        tbl_alert_rule_version example_db @ map db_makeVersion rules)"
proof -
  let ?done = "example_db\<lparr>tbl_dashboard := [f5, d10, d11, d12, general13],
                 tbl_alert_rule := [rule1], tbl_alert_rule_version := [db_makeVersion rule1],
                 uid_counter := 2\<rparr>"
  have h1: "migrateAlert db_migration (dsIDs_of example_db) (dashUIDs_of example_db)
              (mk_alert 1 10 ''cpu'' [3]) example_db = (None, ?done)"
    by code_simp
  have h2: "fst (Exec db_migration example_db) = None"
    by code_simp
  then have h3: "Exec db_migration example_db = (None, snd (Exec db_migration example_db))"
    by (simp add: prod_eq_iff)
  from version_follows_rule [where m = db_migration and dsIDMap = "dsIDs_of example_db"
      and dashIDMap = "dashUIDs_of example_db" and da = "mk_alert 1 10 ''cpu'' [3]"
      and s = example_db and s' = ?done, THEN conjunct1] h1
  have 1: "\<exists>rule sa sb.
      sess_Insert_rule db_migration rule sa = (None, sb) \<and>
      sess_Insert_version db_migration (makeVersion db_migration rule) sb = (None, ?done)"
    by (rule mp)
  from version_follows_rule [where d = example_db and d' = "snd (Exec db_migration example_db)",
      THEN conjunct2] h3
  have 2: "\<exists>rules.
      length rules = length (tbl_alert example_db) \<and>
      tbl_alert_rule (snd (Exec db_migration example_db)) = tbl_alert_rule example_db @ rules \<and>
      tbl_alert_rule_version (snd (Exec db_migration example_db)) =
        tbl_alert_rule_version example_db @ map db_makeVersion rules"
    by (rule mp)
  from h1 1 h2 2 show ?thesis by (intro conjI)
qed

text \<open>
  Claim C2, as amended. The failure of one alert ends the run: \<open>Exec\<close> returns its error
  and the session as that alert left it, and no later alert is processed; an error of the
  loop is always the error of the first alert that failed. That error is either a
  \<open>MigrationError\<close> with the id of the alert and a cause made by \<open>fmt.Errorf\<close>, or it
  is the error of \<open>transConditions\<close>, of \<open>makeAlertRule\<close>, of an insert of the rule or
  of the insert of the version, returned as it is. The failures of the dashboard lookup,
  of the parent-folder lookup and of the folder switch are of the first kind; a failure
  of the translation is returned as it is, before the session is used.

  Each failure, stated on the operations of the session and of the migration themselves,
  every step before it having succeeded, with the result of the iteration in full. When
  the translation succeeds:
  the lookup of the dashboard fails, or finds nothing; the lookup of the parent folder
  fails, finds nothing, or finds a row that is not a folder; \<open>createFolder\<close>, \<open>getACL\<close>,
  \<open>setACL\<close> or \<open>getOrCreateGeneralFolder\<close> fails; the UID of the folder is empty: the
  iteration returns the \<open>MigrationError\<close> with the id of the alert whose \<open>Err\<close> is the
  error that \<open>fmt.Errorf\<close> makes from the format and the arguments of the source, with the
  error of the operation as its cause where there is one, and the session as the failed
  operation left it. When \<open>makeAlertRule\<close> fails, when the insert of the rule is refused
  and refused again with the suffixed title, or when the insert of the version fails: the
  iteration returns that error itself, and the session as the failed operation left it.
\<close>

theorem alert_failure_aborts:
  "(slurpDashAlerts m s = (Inr (pre @ da # post), s1) \<and>
    slurpDSIDs m s1 = (Inr dsIDMap, s2) \<and>
    slurpDashUIDs m s2 = (Inr dashIDMap, s3) \<and>
    migrateAlerts m dsIDMap dashIDMap pre s3 = (None, s4) \<and>
    migrateAlert m dsIDMap dashIDMap da s4 = (Some e, s')
    \<longrightarrow> Exec m s = (Some e, s')) \<and>
   (migrateAlerts m dsIDMap dashIDMap das s3 = (Some e, s')
    \<longrightarrow> (\<exists>pre da post s4.
           das = pre @ da # post \<and>
           migrateAlerts m dsIDMap dashIDMap pre s3 = (None, s4) \<and>
           migrateAlert m dsIDMap dashIDMap da s4 = (Some e, s'))) \<and>
   (migrateAlert m dsIDMap dashIDMap da s4 = (Some e, s')
    \<longrightarrow> (\<exists>f args c. e = MigrationError (alert_Id da) (Errorf f args c)) \<or>
        transConditions m (alert_ParsedSettings da) (alert_OrgId da) dsIDMap = Inl e \<or>
        (\<exists>c u st. makeAlertRule m c (resolveDashboardUID dashIDMap da) u st = (Inl e, s')) \<or>
        (\<exists>r st. sess_Insert_rule m r st = (Some e, s')) \<or>
        (\<exists>v st. sess_Insert_version m v st = (Some e, s'))) \<and>
   (getDashboard m da t = (Inl e, t') \<or> getFolder m da dash t = (Inl e, t') \<or>
    switchFolder m da dash folder t = (Inl e, t')
    \<longrightarrow> (\<exists>f args c. e = MigrationError (alert_Id da) (Errorf f args c))) \<and>
   (transConditions m (alert_ParsedSettings da) (alert_OrgId da) dsIDMap = Inl e
    \<longrightarrow> migrateAlert m dsIDMap dashIDMap da t = (Some e, t)) \<and>
   (transConditions m (alert_ParsedSettings da) (alert_OrgId da) dsIDMap = Inr newCond \<longrightarrow>
    (sess_Get_dashboard m (alert_OrgId da) (index dashIDMap (alert_OrgId da, alert_DashboardId da)) t =
       (Inl err, t1) \<longrightarrow>
     migrateAlert m dsIDMap dashIDMap da t =
       (Some (MigrationError (alert_Id da)
          (Errorf ''failed to get dashboard %s under organisation %d: %w''
             [S (index dashIDMap (alert_OrgId da, alert_DashboardId da)), I (alert_OrgId da)]
             (Some err))), t1)) \<and>
    (sess_Get_dashboard m (alert_OrgId da) (index dashIDMap (alert_OrgId da, alert_DashboardId da)) t =
       (Inr None, t1) \<longrightarrow>
     migrateAlert m dsIDMap dashIDMap da t =
       (Some (MigrationError (alert_Id da)
          (Errorf ''dashboard with UID %v under organisation %d not found: %w''
             [S (index dashIDMap (alert_OrgId da, alert_DashboardId da)), I (alert_OrgId da)]
             None)), t1)) \<and>
    (sess_Get_dashboard m (alert_OrgId da) (index dashIDMap (alert_OrgId da, alert_DashboardId da)) t =
       (Inr (Some dsh), t1) \<longrightarrow>
     (0 < dash_FolderId dsh \<and> sess_Get_folder m (dash_FolderId dsh) t1 =
       (Inl err, t2) \<longrightarrow>
      migrateAlert m dsIDMap dashIDMap da t =
        (Some (MigrationError (alert_Id da)
           (Errorf ''failed to get folder %d: %w'' [I (dash_FolderId dsh)] (Some err))), t2)) \<and>
     (0 < dash_FolderId dsh \<and> sess_Get_folder m (dash_FolderId dsh) t1 =
       (Inr None, t2) \<longrightarrow>
      migrateAlert m dsIDMap dashIDMap da t =
        (Some (MigrationError (alert_Id da)
           (Errorf ''folder with id %v not found'' [I (dash_FolderId dsh)] None)), t2)) \<and>
     (0 < dash_FolderId dsh \<and> sess_Get_folder m (dash_FolderId dsh) t1 = (Inr (Some row), t2) \<and>
      \<not> dash_IsFolder row \<longrightarrow>
      migrateAlert m dsIDMap dashIDMap da t =
        (Some (MigrationError (alert_Id da)
           (Errorf ''id %v is a dashboard not a folder'' [I (dash_FolderId dsh)] None)), t2)) \<and>
     (\<not> 0 < dash_FolderId dsh \<and> fo = dashboard_zero \<and> t2 = t1 \<or>
      0 < dash_FolderId dsh \<and> sess_Get_folder m (dash_FolderId dsh) t1 = (Inr (Some fo), t2) \<and>
      dash_IsFolder fo \<longrightarrow>
      (dash_HasAcl dsh \<and>
       createFolder m (dash_OrgId dsh)
         (DASHBOARD_FOLDER (getMigrationString m (resolveDashboardUID dashIDMap da))) t2 =
         (Inl err, t3) \<longrightarrow>
       migrateAlert m dsIDMap dashIDMap da t =
         (Some (MigrationError (alert_Id da)
            (Errorf ''failed to create folder: %w'' [] (Some err))), t3)) \<and>
      (dash_HasAcl dsh \<and>
       createFolder m (dash_OrgId dsh)
         (DASHBOARD_FOLDER (getMigrationString m (resolveDashboardUID dashIDMap da))) t2 =
         (Inr new, t3) \<and>
       getACL m (dash_OrgId dsh) (dash_Id dsh) t3 = (Inl err, t4) \<longrightarrow>
       migrateAlert m dsIDMap dashIDMap da t =
         (Some (MigrationError (alert_Id da)
            (Errorf ''failed to get dashboard %d under organisation %d permissions: %w''
               [I (dash_Id dsh), I (dash_OrgId dsh)] (Some err))), t4)) \<and>
      (dash_HasAcl dsh \<and>
       createFolder m (dash_OrgId dsh)
         (DASHBOARD_FOLDER (getMigrationString m (resolveDashboardUID dashIDMap da))) t2 =
         (Inr new, t3) \<and>
       getACL m (dash_OrgId dsh) (dash_Id dsh) t3 = (Inr permissions, t4) \<and>
       setACL m (dash_OrgId new) (dash_Id new) permissions t4 = (Some err, t5) \<longrightarrow>
       migrateAlert m dsIDMap dashIDMap da t =
         (Some (MigrationError (alert_Id da)
            (Errorf ''failed to set folder %d under organisation %d permissions: %w''
               [I (dash_Id new), I (dash_OrgId new)] (Some err))), t5)) \<and>
      (\<not> dash_HasAcl dsh \<and> \<not> 0 < dash_FolderId dsh \<and>
       getOrCreateGeneralFolder m (dash_OrgId dsh) t2 = (Inl err, t3) \<longrightarrow>
       migrateAlert m dsIDMap dashIDMap da t =
         (Some (MigrationError (alert_Id da)
            (Errorf ''failed to get or create general folder under organisation %d: %w''
               [I (dash_OrgId dsh)] (Some err))), t3)) \<and>
      (dash_HasAcl dsh \<and>
       createFolder m (dash_OrgId dsh)
         (DASHBOARD_FOLDER (getMigrationString m (resolveDashboardUID dashIDMap da))) t2 =
         (Inr fo', u1) \<and>
       getACL m (dash_OrgId dsh) (dash_Id dsh) u1 = (Inr permissions, u2) \<and>
       setACL m (dash_OrgId fo') (dash_Id fo') permissions u2 = (None, t3) \<or>
       \<not> dash_HasAcl dsh \<and> 0 < dash_FolderId dsh \<and> fo' = fo \<and> t3 = t2 \<or>
       \<not> dash_HasAcl dsh \<and> \<not> 0 < dash_FolderId dsh \<and>
       getOrCreateGeneralFolder m (dash_OrgId dsh) t2 = (Inr fo', t3) \<longrightarrow>
       (dash_Uid fo' = [] \<longrightarrow>
        migrateAlert m dsIDMap dashIDMap da t =
          (Some (MigrationError (alert_Id da) (Errorf ''empty folder identifier'' [] None)), t3)) \<and>
       (dash_Uid fo' \<noteq> [] \<longrightarrow>
        (makeAlertRule m newCond (resolveDashboardUID dashIDMap da) (dash_Uid fo') t3 =
           (Inl err, t4) \<longrightarrow>
         migrateAlert m dsIDMap dashIDMap da t = (Some err, t4)) \<and>
        (makeAlertRule m newCond (resolveDashboardUID dashIDMap da) (dash_Uid fo') t3 =
           (Inr rule, t4) \<longrightarrow>
         (sess_Insert_rule m rule t4 = (Some err0, t5) \<and>
          sess_Insert_rule m
            (rule\<lparr>rule_Title := rule_Title rule @ '' '' @ rule_Uid rule,
                  rule_RuleGroup := rule_RuleGroup rule @ '' '' @ rule_Uid rule\<rparr>) t5 =
            (Some err, t6) \<longrightarrow>
          migrateAlert m dsIDMap dashIDMap da t = (Some err, t6)) \<and>
         ((sess_Insert_rule m rule t4 = (None, t5) \<and> rule' = rule \<or>
           sess_Insert_rule m rule t4 = (Some err0, u3) \<and>
           sess_Insert_rule m
             (rule\<lparr>rule_Title := rule_Title rule @ '' '' @ rule_Uid rule,
                   rule_RuleGroup := rule_RuleGroup rule @ '' '' @ rule_Uid rule\<rparr>) u3 =
             (None, t5) \<and>
           rule' = rule\<lparr>rule_Title := rule_Title rule @ '' '' @ rule_Uid rule,
                         rule_RuleGroup := rule_RuleGroup rule @ '' '' @ rule_Uid rule\<rparr>) \<and>
          sess_Insert_version m (makeVersion m rule') t5 = (Some err, t6) \<longrightarrow>
          migrateAlert m dsIDMap dashIDMap da t = (Some err, t6))))))))"
  apply (intro conjI impI)
  subgoal by (simp add: Exec_loop migrateAlerts_append_Some)
  subgoal by (rule migrateAlerts_Some)
  subgoal by (rule migrateAlert_Some)
  subgoal
    using getDashboard_Inl [of m da t e t'] getFolder_Inl [of m da dash t e t']
      switchFolder_Inl [of m da dash folder t e t']
    by (elim disjE) simp_all
  subgoal by (simp add: migrateAlert_def)
  subgoal by (simp add: migrateAlert_def getDashboard_def resolveDashboardUID_def)
  subgoal by (simp add: migrateAlert_def getDashboard_def resolveDashboardUID_def)
  subgoal by (simp add: migrateAlert_def getDashboard_def getFolder_def resolveDashboardUID_def)
  subgoal by (simp add: migrateAlert_def getDashboard_def getFolder_def resolveDashboardUID_def)
  subgoal by (simp add: migrateAlert_def getDashboard_def getFolder_def resolveDashboardUID_def)
  subgoal
    by (elim disjE conjE)
      (simp_all add: migrateAlert_def getDashboard_def getFolder_def switchFolder_def
        resolveDashboardUID_def)
  subgoal
    by (elim disjE conjE)
      (simp_all add: migrateAlert_def getDashboard_def getFolder_def switchFolder_def
        resolveDashboardUID_def)
  subgoal
    by (elim disjE conjE)
      (simp_all add: migrateAlert_def getDashboard_def getFolder_def switchFolder_def
        resolveDashboardUID_def)
  subgoal
    by (elim disjE conjE)
      (simp_all add: migrateAlert_def getDashboard_def getFolder_def switchFolder_def
        resolveDashboardUID_def)
  subgoal
    by (elim disjE conjE)
      (simp_all add: migrateAlert_def getDashboard_def getFolder_def switchFolder_def
        persistRule_def resolveDashboardUID_def)
  subgoal
    by (elim disjE conjE)
      (simp_all add: migrateAlert_def getDashboard_def getFolder_def switchFolder_def
        persistRule_def resolveDashboardUID_def)
  subgoal
    by (elim disjE conjE)
      (simp_all add: migrateAlert_def getDashboard_def getFolder_def switchFolder_def
        persistRule_def insertRule_def resolveDashboardUID_def)
  subgoal
    by (elim disjE conjE)
      (simp_all add: migrateAlert_def getDashboard_def getFolder_def switchFolder_def
        persistRule_def insertRule_def resolveDashboardUID_def)
  done

theorem alert_failure_aborts_witness:
  "Exec db_migration broken_db =
     (Some (ExternalError ''UnresolvedDatasourceError''),
      broken_db\<lparr>tbl_dashboard := [f5, d10, d11, d12, general13],
                tbl_alert_rule := [rule1], tbl_alert_rule_version := [db_makeVersion rule1],
                uid_counter := 2\<rparr>) \<and>
   migrateAlert db_migration (dsIDs_of broken_db) (dashUIDs_of broken_db)
       (mk_alert 2 11 ''mem'' [9]) broken_db =
     (Some (ExternalError ''UnresolvedDatasourceError''), broken_db) \<and>
   (\<exists>f args c.
      MigrationError 7 (Errorf ''folder with id %v not found'' [I 77] None) =
        MigrationError (alert_Id (mk_alert 7 20 ''io'' [3])) (Errorf f args c)) \<and>
   migrateAlert no_lookup (dsIDs_of example_db) (dashUIDs_of example_db)
       (mk_alert 1 10 ''cpu'' [3]) example_db =
     (Some (MigrationError 1
       (Errorf ''failed to get dashboard %s under organisation %d: %w'' [S ''d10'', I 1] (Some locked))),
      example_db) \<and>
   migrateAlert db_migration (dsIDs_of example_db) (dashUIDs_of example_db)
       (mk_alert 5 99 ''gone'' [3]) example_db =
     (Some (MigrationError 5
       (Errorf ''dashboard with UID %v under organisation %d not found: %w'' [S [], I 1] None)),
      example_db) \<and>
   migrateAlert no_folder_lookup (dsIDs_of example_db) (dashUIDs_of example_db)
       (mk_alert 3 11 ''mem'' [3]) example_db =
     (Some (MigrationError 3 (Errorf ''failed to get folder %d: %w'' [I 5] (Some locked))),
      example_db) \<and>
   migrateAlert db_migration (dsIDs_of odd_db) (dashUIDs_of odd_db)
       (mk_alert 7 20 ''io'' [3]) odd_db =
     (Some (MigrationError 7 (Errorf ''folder with id %v not found'' [I 77] None)),
      odd_db) \<and>
   migrateAlert db_migration (dsIDs_of odd_db) (dashUIDs_of odd_db)
       (mk_alert 8 21 ''net'' [3]) odd_db =
     (Some (MigrationError 8 (Errorf ''id %v is a dashboard not a folder'' [I 10] None)),
      odd_db) \<and>
   migrateAlert no_createFolder (dsIDs_of example_db) (dashUIDs_of example_db)
       (mk_alert 4 12 ''disk'' [3]) example_db =
     (Some (MigrationError 4 (Errorf ''failed to create folder: %w'' [] (Some locked))),
      example_db) \<and>
   migrateAlert no_getACL (dsIDs_of example_db) (dashUIDs_of example_db)
       (mk_alert 4 12 ''disk'' [3]) example_db =
     (Some (MigrationError 4
       (Errorf ''failed to get dashboard %d under organisation %d permissions: %w'' [I 12, I 1] (Some locked))),
      example_db\<lparr>tbl_dashboard := [f5, d10, d11, d12, migrated13], uid_counter := 1\<rparr>) \<and>
   migrateAlert no_setACL (dsIDs_of example_db) (dashUIDs_of example_db)
       (mk_alert 4 12 ''disk'' [3]) example_db =
     (Some (MigrationError 4
       (Errorf ''failed to set folder %d under organisation %d permissions: %w'' [I 13, I 1] (Some locked))),
      example_db\<lparr>tbl_dashboard := [f5, d10, d11, d12, migrated13], uid_counter := 1\<rparr>) \<and>
   migrateAlert no_general (dsIDs_of example_db) (dashUIDs_of example_db)
       (mk_alert 1 10 ''cpu'' [3]) example_db =
     (Some (MigrationError 1
       (Errorf ''failed to get or create general folder under organisation %d: %w'' [I 1] (Some locked))),
      example_db) \<and>
   migrateAlert db_migration (dsIDs_of odd_db) (dashUIDs_of odd_db)
       (mk_alert 9 22 ''fan'' [3]) odd_db =
     (Some (MigrationError 9 (Errorf ''empty folder identifier'' [] None)),
      odd_db) \<and>
   migrateAlert no_makeAlertRule (dsIDs_of example_db) (dashUIDs_of example_db)
       (mk_alert 3 11 ''mem'' [3]) example_db =
     (Some locked, example_db) \<and>
   migrateAlert db_migration (dsIDs_of taken_db) (dashUIDs_of taken_db)
       (mk_alert 1 10 ''cpu'' [3]) taken_db =
     (Some (ExternalError ''UNIQUE constraint failed''),
      taken_db\<lparr>tbl_dashboard := [f5, d10, d11, d12, general13], uid_counter := 2\<rparr>) \<and>
   migrateAlert no_version (dsIDs_of example_db) (dashUIDs_of example_db)
       (mk_alert 3 11 ''mem'' [3]) example_db =
     (Some locked,
      example_db\<lparr>tbl_alert_rule := [\<lparr>rule_Uid = ''u'', rule_OrgId = 1, rule_NamespaceUID =
        ''f5'', rule_Title =
        ''mem'',
           rule_RuleGroup = ''mem'', rule_Condition = [''ds3'']\<rparr>], uid_counter := 1\<rparr>)"
proof -
  let ?s4 = "broken_db\<lparr>tbl_dashboard := [f5, d10, d11, d12, general13],
                tbl_alert_rule := [rule1], tbl_alert_rule_version := [db_makeVersion rule1],
                uid_counter := 2\<rparr>"
  let ?E = "ExternalError ''UnresolvedDatasourceError''"
  let ?da = "mk_alert 2 11 ''mem'' [9]"
  have h1: "slurpDashAlerts db_migration broken_db =
      (Inr ([mk_alert 1 10 ''cpu'' [3]] @ ?da # [mk_alert 3 12 ''disk'' [3]]), broken_db)"
    by code_simp
  have h2: "slurpDSIDs db_migration broken_db = (Inr (dsIDs_of broken_db), broken_db)"
    by (simp add: db_migration_simps db_slurpDSIDs_def)
  have h3: "slurpDashUIDs db_migration broken_db = (Inr (dashUIDs_of broken_db), broken_db)"
    by (simp add: db_migration_simps db_slurpDashUIDs_def)
  have h4: "migrateAlerts db_migration (dsIDs_of broken_db) (dashUIDs_of broken_db)
              [mk_alert 1 10 ''cpu'' [3]] broken_db = (None, ?s4)"
    by code_simp
  have h5: "migrateAlert db_migration (dsIDs_of broken_db) (dashUIDs_of broken_db) ?da ?s4 =
            (Some ?E, ?s4)"
    by code_simp
  have h6: "transConditions db_migration (alert_ParsedSettings ?da) (alert_OrgId ?da)
              (dsIDs_of broken_db) = Inl ?E"
    by code_simp
  have h7: "getFolder db_migration (mk_alert 7 20 ''io'' [3]) d20 odd_db =
              (Inl (MigrationError 7 (Errorf ''folder with id %v not found'' [I 77] None)), odd_db)"
    by code_simp
  note inst = alert_failure_aborts [where m = db_migration and s = broken_db
      and pre = "[mk_alert 1 10 ''cpu'' [3]]" and da = ?da
      and post = "[mk_alert 3 12 ''disk'' [3]]" and ?s1.0 = broken_db and ?s2.0 = broken_db
      and ?s3.0 = broken_db and dsIDMap = "dsIDs_of broken_db"
      and dashIDMap = "dashUIDs_of broken_db" and ?s4.0 = ?s4 and e = ?E and s' = ?s4
      and t = broken_db]
  from h1 h2 h3 h4 h5 inst [THEN conjunct1]
  have 1: "Exec db_migration broken_db = (Some ?E, ?s4)"
    by simp
  from inst [THEN conjunct2, THEN conjunct2, THEN conjunct2, THEN conjunct2, THEN conjunct1] h6
  have 2: "migrateAlert db_migration (dsIDs_of broken_db) (dashUIDs_of broken_db) ?da broken_db =
     (Some ?E, broken_db)"
    by (rule mp)
  from h7 alert_failure_aborts [where m = db_migration and da = "mk_alert 7 20 ''io'' [3]"
      and dash = d20 and t = odd_db and t' = odd_db
      and e = "MigrationError 7 (Errorf ''folder with id %v not found'' [I 77] None)",
      THEN conjunct2, THEN conjunct2, THEN conjunct2, THEN conjunct1]
  have 3: "\<exists>f args c.
      MigrationError 7 (Errorf ''folder with id %v not found'' [I 77] None) =
        MigrationError (alert_Id (mk_alert 7 20 ''io'' [3])) (Errorf f args c)"
    by simp
  let ?a1 = "mk_alert 1 10 ''cpu'' [3]"
  let ?a3 = "mk_alert 3 11 ''mem'' [3]"
  let ?a4 = "mk_alert 4 12 ''disk'' [3]"
  let ?a5 = "mk_alert 5 99 ''gone'' [3]"
  let ?a7 = "mk_alert 7 20 ''io'' [3]"
  let ?a8 = "mk_alert 8 21 ''net'' [3]"
  let ?a9 = "mk_alert 9 22 ''fan'' [3]"
  let ?created =
    "example_db\<lparr>tbl_dashboard := [f5, d10, d11, d12, migrated13], uid_counter := 1\<rparr>"
  let ?general = "taken_db\<lparr>tbl_dashboard := [f5, d10, d11, d12, general13], uid_counter := 1\<rparr>"
  let ?made = "taken_db\<lparr>tbl_dashboard := [f5, d10, d11, d12, general13], uid_counter := 2\<rparr>"
  let ?r3 = "\<lparr>rule_Uid = ''u'', rule_OrgId = 1, rule_NamespaceUID = ''f5'', rule_Title = ''mem'',
           rule_RuleGroup = ''mem'', rule_Condition = [''ds3'']\<rparr>"
  let ?counted = "example_db\<lparr>uid_counter := 1\<rparr>"
  let ?versioned = "example_db\<lparr>tbl_alert_rule := [?r3], uid_counter := 1\<rparr>"
  have lookup_t:
    "transConditions no_lookup (alert_ParsedSettings ?a1) (alert_OrgId ?a1) (dsIDs_of example_db) =
      Inr [''ds3'']"
    by code_simp
  have lookup_d:
    "sess_Get_dashboard no_lookup (alert_OrgId ?a1)
        (index (dashUIDs_of example_db) (alert_OrgId ?a1, alert_DashboardId ?a1)) example_db =
        (Inl locked, example_db)"
    by code_simp
  have lookup_ev:
    "alert_Id ?a1 = 1"
    "alert_OrgId ?a1 = 1"
    "index (dashUIDs_of example_db) (1, alert_DashboardId ?a1) = ''d10''"
    by code_simp+
  have lookup:
    "migrateAlert no_lookup (dsIDs_of example_db) (dashUIDs_of example_db)
       ?a1 example_db =
     (Some (MigrationError 1
       (Errorf ''failed to get dashboard %s under organisation %d: %w'' [S ''d10'', I 1] (Some locked))),
      example_db)"
    by (rule alert_failure_aborts [THEN conjunct2, THEN conjunct2, THEN conjunct2,
          THEN conjunct2, THEN conjunct2, THEN mp, OF lookup_t, THEN conjunct1, THEN mp,
          OF lookup_d, unfolded lookup_ev])
  have gone_t:
    "transConditions db_migration (alert_ParsedSettings ?a5) (alert_OrgId ?a5) (dsIDs_of example_db) =
      Inr [''ds3'']"
    by code_simp
  have gone_d:
    "sess_Get_dashboard db_migration (alert_OrgId ?a5)
        (index (dashUIDs_of example_db) (alert_OrgId ?a5, alert_DashboardId ?a5)) example_db =
        (Inr None, example_db)"
    by code_simp
  have gone_ev:
    "alert_Id ?a5 = 5"
    "alert_OrgId ?a5 = 1"
    "index (dashUIDs_of example_db) (1, alert_DashboardId ?a5) = []"
    by code_simp+
  have gone:
    "migrateAlert db_migration (dsIDs_of example_db) (dashUIDs_of example_db)
       ?a5 example_db =
     (Some (MigrationError 5
       (Errorf ''dashboard with UID %v under organisation %d not found: %w'' [S [], I 1] None)),
      example_db)"
    by (rule alert_failure_aborts [THEN conjunct2, THEN conjunct2, THEN conjunct2,
          THEN conjunct2, THEN conjunct2, THEN mp, OF gone_t, THEN conjunct2, THEN conjunct1,
          THEN mp, OF gone_d, unfolded gone_ev])
  have folder_t:
    "transConditions no_folder_lookup (alert_ParsedSettings ?a3) (alert_OrgId ?a3) (dsIDs_of example_db) =
      Inr [''ds3'']"
    by code_simp
  have folder_d:
    "sess_Get_dashboard no_folder_lookup (alert_OrgId ?a3)
        (index (dashUIDs_of example_db) (alert_OrgId ?a3, alert_DashboardId ?a3)) example_db =
        (Inr (Some d11), example_db)"
    by code_simp
  have folder_f:
    "0 < dash_FolderId d11 \<and>
      sess_Get_folder no_folder_lookup (dash_FolderId d11) example_db = (Inl locked, example_db)"
    by code_simp
  have folder_ev:
    "alert_Id ?a3 = 3"
    "dash_FolderId d11 = 5"
    by code_simp+
  have folder:
    "migrateAlert no_folder_lookup (dsIDs_of example_db) (dashUIDs_of example_db)
       ?a3 example_db =
     (Some (MigrationError 3 (Errorf ''failed to get folder %d: %w'' [I 5] (Some locked))),
      example_db)"
    by (rule alert_failure_aborts [THEN conjunct2, THEN conjunct2, THEN conjunct2,
          THEN conjunct2, THEN conjunct2, THEN mp, OF folder_t, THEN conjunct2, THEN conjunct2,
          THEN mp, OF folder_d, THEN conjunct1, THEN mp, OF folder_f, unfolded folder_ev])
  have orphan_t:
    "transConditions db_migration (alert_ParsedSettings ?a7) (alert_OrgId ?a7) (dsIDs_of odd_db) =
      Inr [''ds3'']"
    by code_simp
  have orphan_d:
    "sess_Get_dashboard db_migration (alert_OrgId ?a7)
        (index (dashUIDs_of odd_db) (alert_OrgId ?a7, alert_DashboardId ?a7)) odd_db =
        (Inr (Some d20), odd_db)"
    by code_simp
  have orphan_f:
    "0 < dash_FolderId d20 \<and>
      sess_Get_folder db_migration (dash_FolderId d20) odd_db = (Inr None, odd_db)"
    by code_simp
  have orphan_ev:
    "alert_Id ?a7 = 7"
    "dash_FolderId d20 = 77"
    by code_simp+
  have orphan:
    "migrateAlert db_migration (dsIDs_of odd_db) (dashUIDs_of odd_db)
       ?a7 odd_db =
     (Some (MigrationError 7 (Errorf ''folder with id %v not found'' [I 77] None)),
      odd_db)"
    by (rule alert_failure_aborts [THEN conjunct2, THEN conjunct2, THEN conjunct2,
          THEN conjunct2, THEN conjunct2, THEN mp, OF orphan_t, THEN conjunct2, THEN conjunct2,
          THEN mp, OF orphan_d, THEN conjunct2, THEN conjunct1, THEN mp, OF orphan_f,
          unfolded orphan_ev])
  have nested_t:
    "transConditions db_migration (alert_ParsedSettings ?a8) (alert_OrgId ?a8) (dsIDs_of odd_db) =
      Inr [''ds3'']"
    by code_simp
  have nested_d:
    "sess_Get_dashboard db_migration (alert_OrgId ?a8)
        (index (dashUIDs_of odd_db) (alert_OrgId ?a8, alert_DashboardId ?a8)) odd_db =
        (Inr (Some d21), odd_db)"
    by code_simp
  have nested_f:
    "0 < dash_FolderId d21 \<and>
      sess_Get_folder db_migration (dash_FolderId d21) odd_db = (Inr (Some d10), odd_db) \<and>
      \<not> dash_IsFolder d10"
    by code_simp
  have nested_ev:
    "alert_Id ?a8 = 8"
    "dash_FolderId d21 = 10"
    by code_simp+
  have nested:
    "migrateAlert db_migration (dsIDs_of odd_db) (dashUIDs_of odd_db)
       ?a8 odd_db =
     (Some (MigrationError 8 (Errorf ''id %v is a dashboard not a folder'' [I 10] None)),
      odd_db)"
    by (rule alert_failure_aborts [THEN conjunct2, THEN conjunct2, THEN conjunct2,
          THEN conjunct2, THEN conjunct2, THEN mp, OF nested_t, THEN conjunct2, THEN conjunct2,
          THEN mp, OF nested_d, THEN conjunct2, THEN conjunct2, THEN conjunct1, THEN mp,
          OF nested_f, unfolded nested_ev])
  have create_t:
    "transConditions no_createFolder (alert_ParsedSettings ?a4) (alert_OrgId ?a4) (dsIDs_of example_db) =
      Inr [''ds3'']"
    by code_simp
  have create_d:
    "sess_Get_dashboard no_createFolder (alert_OrgId ?a4)
        (index (dashUIDs_of example_db) (alert_OrgId ?a4, alert_DashboardId ?a4)) example_db =
        (Inr (Some d12), example_db)"
    by code_simp
  have create_f:
    "0 < dash_FolderId d12 \<and>
      sess_Get_folder no_createFolder (dash_FolderId d12) example_db = (Inr (Some f5), example_db) \<and>
      dash_IsFolder f5"
    by code_simp
  have create_s:
    "dash_HasAcl d12 \<and>
      createFolder no_createFolder (dash_OrgId d12)
        (DASHBOARD_FOLDER (getMigrationString no_createFolder
          (resolveDashboardUID (dashUIDs_of example_db) ?a4))) example_db =
        (Inl locked, example_db)"
    by code_simp
  have create_ev:
    "alert_Id ?a4 = 4"
    by code_simp+
  have create:
    "migrateAlert no_createFolder (dsIDs_of example_db) (dashUIDs_of example_db)
       ?a4 example_db =
     (Some (MigrationError 4 (Errorf ''failed to create folder: %w'' [] (Some locked))),
      example_db)"
    by (rule alert_failure_aborts [THEN conjunct2, THEN conjunct2, THEN conjunct2,
          THEN conjunct2, THEN conjunct2, THEN mp, OF create_t, THEN conjunct2, THEN conjunct2,
          THEN mp, OF create_d, THEN conjunct2, THEN conjunct2, THEN conjunct2, THEN mp,
          OF create_f [THEN disjI2], THEN conjunct1, THEN mp, OF create_s, unfolded create_ev])
  have getacl_t:
    "transConditions no_getACL (alert_ParsedSettings ?a4) (alert_OrgId ?a4) (dsIDs_of example_db) =
      Inr [''ds3'']"
    by code_simp
  have getacl_d:
    "sess_Get_dashboard no_getACL (alert_OrgId ?a4)
        (index (dashUIDs_of example_db) (alert_OrgId ?a4, alert_DashboardId ?a4)) example_db =
        (Inr (Some d12), example_db)"
    by code_simp
  have getacl_f:
    "0 < dash_FolderId d12 \<and>
      sess_Get_folder no_getACL (dash_FolderId d12) example_db = (Inr (Some f5), example_db) \<and>
      dash_IsFolder f5"
    by code_simp
  have getacl_s:
    "dash_HasAcl d12 \<and>
      createFolder no_getACL (dash_OrgId d12)
        (DASHBOARD_FOLDER (getMigrationString no_getACL
          (resolveDashboardUID (dashUIDs_of example_db) ?a4))) example_db =
        (Inr migrated13, ?created) \<and>
      getACL no_getACL (dash_OrgId d12) (dash_Id d12) ?created =
        (Inl locked, ?created)"
    by code_simp
  have getacl_ev:
    "alert_Id ?a4 = 4"
    "dash_Id d12 = 12"
    "dash_OrgId d12 = 1"
    by code_simp+
  have getacl:
    "migrateAlert no_getACL (dsIDs_of example_db) (dashUIDs_of example_db)
       ?a4 example_db =
     (Some (MigrationError 4
       (Errorf ''failed to get dashboard %d under organisation %d permissions: %w'' [I 12, I 1] (Some locked))),
      ?created)"
    by (rule alert_failure_aborts [THEN conjunct2, THEN conjunct2, THEN conjunct2,
          THEN conjunct2, THEN conjunct2, THEN mp, OF getacl_t, THEN conjunct2, THEN conjunct2,
          THEN mp, OF getacl_d, THEN conjunct2, THEN conjunct2, THEN conjunct2, THEN mp,
          OF getacl_f [THEN disjI2], THEN conjunct2, THEN conjunct1, THEN mp, OF getacl_s,
          unfolded getacl_ev])
  have setacl_t:
    "transConditions no_setACL (alert_ParsedSettings ?a4) (alert_OrgId ?a4) (dsIDs_of example_db) =
      Inr [''ds3'']"
    by code_simp
  have setacl_d:
    "sess_Get_dashboard no_setACL (alert_OrgId ?a4)
        (index (dashUIDs_of example_db) (alert_OrgId ?a4, alert_DashboardId ?a4)) example_db =
        (Inr (Some d12), example_db)"
    by code_simp
  have setacl_f:
    "0 < dash_FolderId d12 \<and>
      sess_Get_folder no_setACL (dash_FolderId d12) example_db = (Inr (Some f5), example_db) \<and>
      dash_IsFolder f5"
    by code_simp
  have setacl_s:
    "dash_HasAcl d12 \<and>
      createFolder no_setACL (dash_OrgId d12)
        (DASHBOARD_FOLDER (getMigrationString no_setACL
          (resolveDashboardUID (dashUIDs_of example_db) ?a4))) example_db =
        (Inr migrated13, ?created) \<and>
      getACL no_setACL (dash_OrgId d12) (dash_Id d12) ?created =
        (Inr [acl12], ?created) \<and>
      setACL no_setACL (dash_OrgId migrated13) (dash_Id migrated13) [acl12] ?created =
        (Some locked, ?created)"
    by code_simp
  have setacl_ev:
    "alert_Id ?a4 = 4"
    "dash_Id migrated13 = 13"
    "dash_OrgId migrated13 = 1"
    by code_simp+
  have setacl:
    "migrateAlert no_setACL (dsIDs_of example_db) (dashUIDs_of example_db)
       ?a4 example_db =
     (Some (MigrationError 4
       (Errorf ''failed to set folder %d under organisation %d permissions: %w'' [I 13, I 1] (Some locked))),
      ?created)"
    by (rule alert_failure_aborts [THEN conjunct2, THEN conjunct2, THEN conjunct2,
          THEN conjunct2, THEN conjunct2, THEN mp, OF setacl_t, THEN conjunct2, THEN conjunct2,
          THEN mp, OF setacl_d, THEN conjunct2, THEN conjunct2, THEN conjunct2, THEN mp,
          OF setacl_f [THEN disjI2], THEN conjunct2, THEN conjunct2, THEN conjunct1, THEN mp,
          OF setacl_s, unfolded setacl_ev])
  have general_t:
    "transConditions no_general (alert_ParsedSettings ?a1) (alert_OrgId ?a1) (dsIDs_of example_db) =
      Inr [''ds3'']"
    by code_simp
  have general_d:
    "sess_Get_dashboard no_general (alert_OrgId ?a1)
        (index (dashUIDs_of example_db) (alert_OrgId ?a1, alert_DashboardId ?a1)) example_db =
        (Inr (Some d10), example_db)"
    by code_simp
  have general_f:
    "\<not> 0 < dash_FolderId d10 \<and> dashboard_zero = dashboard_zero \<and> example_db = example_db"
    by code_simp
  have general_s:
    "\<not> dash_HasAcl d10 \<and> \<not> 0 < dash_FolderId d10 \<and>
      getOrCreateGeneralFolder no_general (dash_OrgId d10) example_db = (Inl locked, example_db)"
    by code_simp
  have general_ev:
    "alert_Id ?a1 = 1"
    "dash_OrgId d10 = 1"
    by code_simp+
  have general:
    "migrateAlert no_general (dsIDs_of example_db) (dashUIDs_of example_db)
       ?a1 example_db =
     (Some (MigrationError 1
       (Errorf ''failed to get or create general folder under organisation %d: %w'' [I 1] (Some locked))),
      example_db)"
    by (rule alert_failure_aborts [THEN conjunct2, THEN conjunct2, THEN conjunct2,
          THEN conjunct2, THEN conjunct2, THEN mp, OF general_t, THEN conjunct2,
          THEN conjunct2, THEN mp, OF general_d, THEN conjunct2, THEN conjunct2,
          THEN conjunct2, THEN mp, OF general_f [THEN disjI1], THEN conjunct2, THEN conjunct2,
          THEN conjunct2, THEN conjunct1, THEN mp, OF general_s, unfolded general_ev])
  have empty_t:
    "transConditions db_migration (alert_ParsedSettings ?a9) (alert_OrgId ?a9) (dsIDs_of odd_db) =
      Inr [''ds3'']"
    by code_simp
  have empty_d:
    "sess_Get_dashboard db_migration (alert_OrgId ?a9)
        (index (dashUIDs_of odd_db) (alert_OrgId ?a9, alert_DashboardId ?a9)) odd_db =
        (Inr (Some d22), odd_db)"
    by code_simp
  have empty_f:
    "0 < dash_FolderId d22 \<and>
      sess_Get_folder db_migration (dash_FolderId d22) odd_db = (Inr (Some f6), odd_db) \<and>
      dash_IsFolder f6"
    by code_simp
  have empty_s:
    "\<not> dash_HasAcl d22 \<and> 0 < dash_FolderId d22 \<and> f6 = f6 \<and> odd_db = odd_db"
    by code_simp
  have empty_u:
    "dash_Uid f6 = []"
    by code_simp
  have empty_ev:
    "alert_Id ?a9 = 9"
    by code_simp+
  have empty:
    "migrateAlert db_migration (dsIDs_of odd_db) (dashUIDs_of odd_db)
       ?a9 odd_db =
     (Some (MigrationError 9 (Errorf ''empty folder identifier'' [] None)),
      odd_db)"
    by (rule alert_failure_aborts [THEN conjunct2, THEN conjunct2, THEN conjunct2,
          THEN conjunct2, THEN conjunct2, THEN mp, OF empty_t, THEN conjunct2, THEN conjunct2,
          THEN mp, OF empty_d, THEN conjunct2, THEN conjunct2, THEN conjunct2, THEN mp,
          OF empty_f [THEN disjI2], THEN conjunct2, THEN conjunct2, THEN conjunct2,
          THEN conjunct2, THEN mp, OF empty_s [THEN disjI1, THEN disjI2], THEN conjunct1,
          THEN mp, OF empty_u, unfolded empty_ev])
  have make_t:
    "transConditions no_makeAlertRule (alert_ParsedSettings ?a3) (alert_OrgId ?a3) (dsIDs_of example_db) =
      Inr [''ds3'']"
    by code_simp
  have make_d:
    "sess_Get_dashboard no_makeAlertRule (alert_OrgId ?a3)
        (index (dashUIDs_of example_db) (alert_OrgId ?a3, alert_DashboardId ?a3)) example_db =
        (Inr (Some d11), example_db)"
    by code_simp
  have make_f:
    "0 < dash_FolderId d11 \<and>
      sess_Get_folder no_makeAlertRule (dash_FolderId d11) example_db = (Inr (Some f5), example_db) \<and>
      dash_IsFolder f5"
    by code_simp
  have make_s:
    "\<not> dash_HasAcl d11 \<and> 0 < dash_FolderId d11 \<and> f5 = f5 \<and> example_db = example_db"
    by code_simp
  have make_u:
    "dash_Uid f5 \<noteq> []"
    by code_simp
  have make_m:
    "makeAlertRule no_makeAlertRule [''ds3'']
      (resolveDashboardUID (dashUIDs_of example_db) ?a3) (dash_Uid f5) example_db =
        (Inl locked, example_db)"
    by code_simp
  have make:
    "migrateAlert no_makeAlertRule (dsIDs_of example_db) (dashUIDs_of example_db)
       ?a3 example_db =
     (Some locked, example_db)"
    by (rule alert_failure_aborts [THEN conjunct2, THEN conjunct2, THEN conjunct2,
          THEN conjunct2, THEN conjunct2, THEN mp, OF make_t, THEN conjunct2, THEN conjunct2,
          THEN mp, OF make_d, THEN conjunct2, THEN conjunct2, THEN conjunct2, THEN mp,
          OF make_f [THEN disjI2], THEN conjunct2, THEN conjunct2, THEN conjunct2,
          THEN conjunct2, THEN mp, OF make_s [THEN disjI1, THEN disjI2], THEN conjunct2,
          THEN mp, OF make_u, THEN conjunct1, THEN mp, OF make_m])
  have taken_t:
    "transConditions db_migration (alert_ParsedSettings ?a1) (alert_OrgId ?a1) (dsIDs_of taken_db) =
      Inr [''ds3'']"
    by code_simp
  have taken_d:
    "sess_Get_dashboard db_migration (alert_OrgId ?a1)
        (index (dashUIDs_of taken_db) (alert_OrgId ?a1, alert_DashboardId ?a1)) taken_db =
        (Inr (Some d10), taken_db)"
    by code_simp
  have taken_f:
    "\<not> 0 < dash_FolderId d10 \<and> dashboard_zero = dashboard_zero \<and> taken_db = taken_db"
    by code_simp
  have taken_s:
    "\<not> dash_HasAcl d10 \<and> \<not> 0 < dash_FolderId d10 \<and>
      getOrCreateGeneralFolder db_migration (dash_OrgId d10) taken_db =
        (Inr general13, ?general)"
    by code_simp
  have taken_u:
    "dash_Uid general13 \<noteq> []"
    by code_simp
  have taken_m:
    "makeAlertRule db_migration [''ds3'']
      (resolveDashboardUID (dashUIDs_of taken_db) ?a1) (dash_Uid general13) ?general =
        (Inr rule1, ?made)"
    by code_simp
  have taken_i:
    "sess_Insert_rule db_migration rule1 ?made =
        (Some (ExternalError ''UNIQUE constraint failed''), ?made) \<and>
      sess_Insert_rule db_migration
        (rule1\<lparr>rule_Title := rule_Title rule1 @ '' '' @ rule_Uid rule1,
               rule_RuleGroup := rule_RuleGroup rule1 @ '' '' @ rule_Uid rule1\<rparr>)
        ?made =
        (Some (ExternalError ''UNIQUE constraint failed''), ?made)"
    by code_simp
  have taken:
    "migrateAlert db_migration (dsIDs_of taken_db) (dashUIDs_of taken_db)
       ?a1 taken_db =
     (Some (ExternalError ''UNIQUE constraint failed''),
      ?made)"
    by (rule alert_failure_aborts [THEN conjunct2, THEN conjunct2, THEN conjunct2,
          THEN conjunct2, THEN conjunct2, THEN mp, OF taken_t, THEN conjunct2, THEN conjunct2,
          THEN mp, OF taken_d, THEN conjunct2, THEN conjunct2, THEN conjunct2, THEN mp,
          OF taken_f [THEN disjI1], THEN conjunct2, THEN conjunct2, THEN conjunct2,
          THEN conjunct2, THEN mp, OF taken_s [THEN disjI2, THEN disjI2], THEN conjunct2,
          THEN mp, OF taken_u, THEN conjunct2, THEN mp, OF taken_m, THEN conjunct1, THEN mp,
          OF taken_i])
  have version_t:
    "transConditions no_version (alert_ParsedSettings ?a3) (alert_OrgId ?a3) (dsIDs_of example_db) =
      Inr [''ds3'']"
    by code_simp
  have version_d:
    "sess_Get_dashboard no_version (alert_OrgId ?a3)
        (index (dashUIDs_of example_db) (alert_OrgId ?a3, alert_DashboardId ?a3)) example_db =
        (Inr (Some d11), example_db)"
    by code_simp
  have version_f:
    "0 < dash_FolderId d11 \<and>
      sess_Get_folder no_version (dash_FolderId d11) example_db = (Inr (Some f5), example_db) \<and>
      dash_IsFolder f5"
    by code_simp
  have version_s:
    "\<not> dash_HasAcl d11 \<and> 0 < dash_FolderId d11 \<and> f5 = f5 \<and> example_db = example_db"
    by code_simp
  have version_u:
    "dash_Uid f5 \<noteq> []"
    by code_simp
  have version_m:
    "makeAlertRule no_version [''ds3'']
      (resolveDashboardUID (dashUIDs_of example_db) ?a3) (dash_Uid f5) example_db =
        (Inr
          ?r3, ?counted)"
    by code_simp
  have version_i:
    "sess_Insert_rule no_version
        ?r3
        ?counted =
        (None, ?versioned) \<and>
      ?r3 =
      ?r3"
    by code_simp
  have version_v:
    "sess_Insert_version no_version
        (makeVersion no_version
          ?r3)
        ?versioned =
        (Some locked, ?versioned)"
    by code_simp
  have version:
    "migrateAlert no_version (dsIDs_of example_db) (dashUIDs_of example_db)
       ?a3 example_db =
     (Some locked,
      ?versioned)"
    by (rule alert_failure_aborts [THEN conjunct2, THEN conjunct2, THEN conjunct2,
          THEN conjunct2, THEN conjunct2, THEN mp, OF version_t, THEN conjunct2,
          THEN conjunct2, THEN mp, OF version_d, THEN conjunct2, THEN conjunct2,
          THEN conjunct2, THEN mp, OF version_f [THEN disjI2], THEN conjunct2, THEN conjunct2,
          THEN conjunct2, THEN conjunct2, THEN mp, OF version_s [THEN disjI1, THEN disjI2],
          THEN conjunct2, THEN mp, OF version_u, THEN conjunct2, THEN mp, OF version_m,
          THEN conjunct2, THEN mp, OF conjI [OF version_i [THEN disjI1] version_v]])
  from 1 2 3 lookup gone folder orphan nested create getacl setacl general empty make taken version
    show ?thesis by (intro conjI)
qed

text \<open>
  The claim as it was stated fails: an alert whose datasource is not in the lookup ends
  the run with the error of the translation, and a rule that is refused twice ends it
  with the error of the insert. Neither is a \<open>MigrationError\<close>, neither carries the id
  of an alert. And where the run does end with a \<open>MigrationError\<close>, here that of the first
  alert when the lookup of its dashboard fails, the cause is in the field \<open>Err\<close> and
  \<open>errors.Unwrap\<close> does not give it: the value has no method \<open>Unwrap\<close>, which the
  error inside, made by \<open>fmt.Errorf\<close>, has.
\<close>

theorem failure_not_wrapped_counterexample:
  "fst (Exec db_migration broken_db) = Some (ExternalError ''UnresolvedDatasourceError'') \<and>
   \<not> isMigrationError (ExternalError ''UnresolvedDatasourceError'') \<and>
   AlertId (ExternalError ''UnresolvedDatasourceError'') = None \<and>
   fst (Exec db_migration taken_db) = Some (ExternalError ''UNIQUE constraint failed'') \<and>
   \<not> isMigrationError (ExternalError ''UNIQUE constraint failed'') \<and>
   AlertId (ExternalError ''UNIQUE constraint failed'') = None \<and>
   fst (Exec no_lookup example_db) =
     Some (MigrationError 1
       (Errorf ''failed to get dashboard %s under organisation %d: %w'' [S ''d10'', I 1]
          (Some locked))) \<and>
   Err (MigrationError 1
       (Errorf ''failed to get dashboard %s under organisation %d: %w'' [S ''d10'', I 1]
          (Some locked))) =
     Some (Errorf ''failed to get dashboard %s under organisation %d: %w'' [S ''d10'', I 1]
          (Some locked)) \<and>
   errors_Unwrap (MigrationError 1
       (Errorf ''failed to get dashboard %s under organisation %d: %w'' [S ''d10'', I 1]
          (Some locked))) = None \<and>
   errors_Unwrap (Errorf ''failed to get dashboard %s under organisation %d: %w'' [S ''d10'', I 1]
          (Some locked)) = Some locked"
  by code_simp

end
